theory Spec2Isabelle
  imports Complex_Main
begin

section \<open>GLSL values and vector arithmetic\<close>

text \<open>
  The shaders of \<^verbatim>\<open>shaders.js\<close> compute on GLSL \<^verbatim>\<open>float\<close>, \<^verbatim>\<open>vec2\<close>,
  \<^verbatim>\<open>vec3\<close> and \<^verbatim>\<open>vec4\<close>. The model takes a float to be a real number: rounding
  (of \<^verbatim>\<open>highp\<close> arithmetic and of the half-float storage of the textures) is left
  out, and \<^verbatim>\<open>a / b\<close> is the division of the reals. Every statement below about a
  written value is a statement about this exact arithmetic.
\<close>

type_synonym vec2 = "real \<times> real"
type_synonym vec3 = "real \<times> real \<times> real"
type_synonym vec4 = "real \<times> real \<times> real \<times> real"

fun x4 :: "vec4 \<Rightarrow> real" where "x4 (a, b, c, d) = a"
fun y4 :: "vec4 \<Rightarrow> real" where "y4 (a, b, c, d) = b"
fun z4 :: "vec4 \<Rightarrow> real" where "z4 (a, b, c, d) = c"
fun w4 :: "vec4 \<Rightarrow> real" where "w4 (a, b, c, d) = d"
fun xy :: "vec4 \<Rightarrow> vec2" where "xy (a, b, c, d) = (a, b)"
fun rgb :: "vec4 \<Rightarrow> vec3" where "rgb (a, b, c, d) = (a, b, c)"

fun add2 :: "vec2 \<Rightarrow> vec2 \<Rightarrow> vec2" where "add2 (a, b) (c, d) = (a + c, b + d)"
fun sub2 :: "vec2 \<Rightarrow> vec2 \<Rightarrow> vec2" where "sub2 (a, b) (c, d) = (a - c, b - d)"
fun mul2 :: "vec2 \<Rightarrow> vec2 \<Rightarrow> vec2" where "mul2 (a, b) (c, d) = (a * c, b * d)"
fun scale2 :: "vec2 \<Rightarrow> real \<Rightarrow> vec2" where "scale2 (a, b) k = (a * k, b * k)"
fun div2 :: "vec2 \<Rightarrow> real \<Rightarrow> vec2" where "div2 (a, b) k = (a / k, b / k)"
fun dot2 :: "vec2 \<Rightarrow> vec2 \<Rightarrow> real" where "dot2 (a, b) (c, d) = a * c + b * d"

definition length2 :: "vec2 \<Rightarrow> real" where
  "length2 v = sqrt (dot2 v v)"

definition clampf :: "real \<Rightarrow> real \<Rightarrow> real \<Rightarrow> real" where
  \<comment> \<open>GLSL \<^verbatim>\<open>clamp(x, lo, hi)\<close> is \<^verbatim>\<open>min(max(x, lo), hi)\<close>\<close>
  "clampf x lo hi = min (max x lo) hi"

fun clamp2 :: "vec2 \<Rightarrow> vec2 \<Rightarrow> vec2 \<Rightarrow> vec2" where
  "clamp2 (a, b) (lo1, lo2) (hi1, hi2) = (clampf a lo1 hi1, clampf b lo2 hi2)"

fun add3 :: "vec3 \<Rightarrow> vec3 \<Rightarrow> vec3" where
  "add3 (a, b, c) (d, e, f) = (a + d, b + e, c + f)"
fun scale3 :: "vec3 \<Rightarrow> real \<Rightarrow> vec3" where
  "scale3 (a, b, c) k = (a * k, b * k, c * k)"
fun map3 :: "(real \<Rightarrow> real) \<Rightarrow> vec3 \<Rightarrow> vec3" where
  "map3 g (a, b, c) = (g a, g b, g c)"
fun vec4_of3 :: "vec3 \<Rightarrow> real \<Rightarrow> vec4" where
  "vec4_of3 (a, b, c) d = (a, b, c, d)"

fun add4 :: "vec4 \<Rightarrow> vec4 \<Rightarrow> vec4" where
  "add4 (a, b, c, d) (e, f, g, h) = (a + e, b + f, c + g, d + h)"
fun scale4 :: "vec4 \<Rightarrow> real \<Rightarrow> vec4" where
  "scale4 (a, b, c, d) k = (a * k, b * k, c * k, d * k)"

definition glsl_pow :: "real \<Rightarrow> real \<Rightarrow> real" where
  \<comment> \<open>GLSL \<^verbatim>\<open>pow(x, y)\<close>; undefined in GLSL for \<^verbatim>\<open>x < 0\<close>\<close>
  "glsl_pow x y = x powr y"


section \<open>The fragment shaders of shaders.js\<close>

text \<open>
  A sampler uniform is the function that \<^verbatim>\<open>texture(u, coord)\<close> computes, from a
  coordinate to a \<^verbatim>\<open>vec4\<close>; the other uniforms are arguments. Each shader is the
  function from the interpolated \<^verbatim>\<open>vUv\<close> to \<^verbatim>\<open>fragColor\<close>.
\<close>

type_synonym sampler2D = "vec2 \<Rightarrow> vec4"

definition copyShader :: "sampler2D \<Rightarrow> vec2 \<Rightarrow> vec4" where
  "copyShader uTexture vUv = uTexture vUv"

definition clearShader :: "sampler2D \<Rightarrow> real \<Rightarrow> vec2 \<Rightarrow> vec4" where
  "clearShader uPressure uDecay vUv =
     (let pressure = x4 (uPressure vUv) in (pressure * uDecay, 0, 0, 1))"

definition splatShader ::
  "sampler2D \<Rightarrow> vec2 \<Rightarrow> real \<Rightarrow> vec4 \<Rightarrow> real \<Rightarrow> vec2 \<Rightarrow> vec4" where
  "splatShader uTarget uPoint uRadius uValue uAspectRatio vUv =
     (let diff0 = sub2 vUv uPoint;
          diff = (fst diff0 * uAspectRatio, snd diff0);
          dist = dot2 diff diff;
          falloff = exp (- dist / uRadius);
          base = uTarget vUv
      in add4 base (scale4 uValue falloff))"

definition advectionShader ::
  "sampler2D \<Rightarrow> sampler2D \<Rightarrow> vec2 \<Rightarrow> real \<Rightarrow> real \<Rightarrow> vec2 \<Rightarrow> vec4" where
  "advectionShader uVelocity uSource uTexelSize uDissipation uTimeStep vUv =
     (let velocity = xy (uVelocity vUv);
          coord0 = sub2 vUv (mul2 (scale2 velocity uTimeStep) uTexelSize);
          coord = clamp2 coord0 (0, 0) (1, 1);
          result = uSource coord
      in scale4 result uDissipation)"

definition curlShader :: "sampler2D \<Rightarrow> vec2 \<Rightarrow> vec2 \<Rightarrow> vec4" where
  "curlShader uVelocity uTexelSize vUv =
     (let left = y4 (uVelocity (sub2 vUv (fst uTexelSize, 0)));
          right = y4 (uVelocity (add2 vUv (fst uTexelSize, 0)));
          bottom = x4 (uVelocity (sub2 vUv (0, snd uTexelSize)));
          top = x4 (uVelocity (add2 vUv (0, snd uTexelSize)));
          curl = right - left - (top - bottom)
      in (curl, 0, 0, 1))"

definition vorticityShader ::
  "sampler2D \<Rightarrow> sampler2D \<Rightarrow> vec2 \<Rightarrow> real \<Rightarrow> real \<Rightarrow> vec2 \<Rightarrow> vec4" where
  "vorticityShader uVelocity uCurl uTexelSize uCurlStrength uDeltaTime vUv =
     (let curlL = x4 (uCurl (sub2 vUv (fst uTexelSize, 0)));
          curlR = x4 (uCurl (add2 vUv (fst uTexelSize, 0)));
          curlB = x4 (uCurl (sub2 vUv (0, snd uTexelSize)));
          curlT = x4 (uCurl (add2 vUv (0, snd uTexelSize)));
          gradient0 = (\<bar>curlT\<bar> - \<bar>curlB\<bar>, \<bar>curlR\<bar> - \<bar>curlL\<bar>);
          gradient = div2 gradient0 (length2 gradient0 + 1 / 100000);
          curl = x4 (uCurl vUv);
          force = scale2 (scale2 (snd gradient, - fst gradient) curl) uCurlStrength;
          velocity = xy (uVelocity vUv);
          out = add2 velocity (scale2 force uDeltaTime)
      in (fst out, snd out, 0, 1))"

definition divergenceShader :: "sampler2D \<Rightarrow> vec2 \<Rightarrow> vec2 \<Rightarrow> vec4" where
  "divergenceShader uVelocity uTexelSize vUv =
     (let left = xy (uVelocity (sub2 vUv (fst uTexelSize, 0)));
          right = xy (uVelocity (add2 vUv (fst uTexelSize, 0)));
          bottom = xy (uVelocity (sub2 vUv (0, snd uTexelSize)));
          top = xy (uVelocity (add2 vUv (0, snd uTexelSize)));
          divergence = (1 / 2) * (fst right - fst left + snd top - snd bottom)
      in (divergence, 0, 0, 1))"

definition pressureShader :: "sampler2D \<Rightarrow> sampler2D \<Rightarrow> vec2 \<Rightarrow> vec2 \<Rightarrow> vec4" where
  "pressureShader uPressure uDivergence uTexelSize vUv =
     (let left = x4 (uPressure (sub2 vUv (fst uTexelSize, 0)));
          right = x4 (uPressure (add2 vUv (fst uTexelSize, 0)));
          bottom = x4 (uPressure (sub2 vUv (0, snd uTexelSize)));
          top = x4 (uPressure (add2 vUv (0, snd uTexelSize)));
          divergence = x4 (uDivergence vUv);
          pressure = (left + right + bottom + top - divergence) * (1 / 4)
      in (pressure, 0, 0, 1))"

definition gradientSubtractShader ::
  "sampler2D \<Rightarrow> sampler2D \<Rightarrow> vec2 \<Rightarrow> vec2 \<Rightarrow> vec4" where
  "gradientSubtractShader uPressure uVelocity uTexelSize vUv =
     (let left = x4 (uPressure (sub2 vUv (fst uTexelSize, 0)));
          right = x4 (uPressure (add2 vUv (fst uTexelSize, 0)));
          bottom = x4 (uPressure (sub2 vUv (0, snd uTexelSize)));
          top = x4 (uPressure (add2 vUv (0, snd uTexelSize)));
          velocity = xy (uVelocity vUv);
          gradient = scale2 (right - left, top - bottom) (1 / 2);
          out = sub2 velocity gradient
      in (fst out, snd out, 0, 1))"

definition toneMap :: "real \<Rightarrow> vec3 \<Rightarrow> vec3" where
  "toneMap uExposure color = map3 (\<lambda>c. 1 - exp (- c * uExposure)) color"

definition displayShader ::
  "sampler2D \<Rightarrow> sampler2D \<Rightarrow> bool \<Rightarrow> real \<Rightarrow> real \<Rightarrow> real \<Rightarrow> vec2 \<Rightarrow> vec4" where
  "displayShader uTexture uBloom uEnableBloom uBloomIntensity uGamma uExposure vUv =
     (let base0 = rgb (uTexture vUv);
          base = (if uEnableBloom
                  then add3 base0 (scale3 (rgb (uBloom vUv)) uBloomIntensity)
                  else base0);
          toneMapped = toneMap uExposure base;
          gammaCorrected = map3 (\<lambda>c. glsl_pow c (1 / uGamma)) toneMapped
      in vec4_of3 gammaCorrected 1)"

definition bloomPrefilterShader :: "sampler2D \<Rightarrow> real \<Rightarrow> vec2 \<Rightarrow> vec4" where
  "bloomPrefilterShader uTexture uThreshold vUv =
     (let color = rgb (uTexture vUv);
          brightness = (case color of (cr, cg, cb) \<Rightarrow> max (max cr cg) cb);
          weight = max (brightness - uThreshold) 0
      in vec4_of3 (scale3 color weight) 1)"

definition bloomBlurShader :: "sampler2D \<Rightarrow> vec2 \<Rightarrow> vec2 \<Rightarrow> vec2 \<Rightarrow> vec4" where
  "bloomBlurShader uTexture uDirection uTexelSize vUv =
     (let step = mul2 uDirection uTexelSize;
          sum0 = scale3 (rgb (uTexture vUv)) (2941176 / 10000000);
          sum1 = add3 sum0
                  (scale3 (rgb (uTexture (add2 vUv (scale2 step (13333333 / 10000000)))))
                     (3529411 / 10000000));
          sum2 = add3 sum1
                  (scale3 (rgb (uTexture (sub2 vUv (scale2 step (13333333 / 10000000)))))
                     (3529411 / 10000000))
      in vec4_of3 sum2 1)"

definition bloomCombineShader :: "sampler2D \<Rightarrow> sampler2D \<Rightarrow> vec2 \<Rightarrow> vec4" where
  "bloomCombineShader uBase uBloom vUv =
     vec4_of3 (add3 (rgb (uBase vUv)) (rgb (uBloom vUv))) 1"


section \<open>The WebGL2 state that gl.js works on\<close>

text \<open>
  A texture object holds its size, its internal format, its filter and its texels; the
  wrap mode is always \<^verbatim>\<open>CLAMP_TO_EDGE\<close> (\<^verbatim>\<open>createTexture\<close> sets nothing else).
  A texel is kept as the \<^verbatim>\<open>vec4\<close> a shader reads back: a one-channel texture reads
  \<^verbatim>\<open>(r, 0, 0, 1)\<close>, a two-channel one \<^verbatim>\<open>(r, g, 0, 1)\<close>.
\<close>

datatype internal_format = R16F | RG16F | RGBA16F
datatype pixel_format = RED | RG | RGBA
datatype pixel_type = HALF_FLOAT
datatype filtering = NEAREST | LINEAR

datatype error =
    FramebufferIncomplete       \<comment> \<open>\<^verbatim>\<open>createFBO\<close>: "Framebuffer incomplete"\<close>
  | QuadNotInitialised          \<comment> \<open>\<^verbatim>\<open>blit\<close>: "Fullscreen quad not initialised."\<close>
  | ProgramBuildError           \<comment> \<open>\<^verbatim>\<open>compileShader\<close>, \<^verbatim>\<open>createProgram\<close>\<close>
  | TypeError                   \<comment> \<open>a property read on \<^verbatim>\<open>null\<close> or \<^verbatim>\<open>undefined\<close>\<close>
  | NotFinite                   \<comment> \<open>a quotient by zero: \<^verbatim>\<open>Infinity\<close> or \<^verbatim>\<open>NaN\<close>, which the
                                    numbers of this model do not have\<close>

record texture_obj =
  tex_width :: nat
  tex_height :: nat
  tex_internalFormat :: internal_format
  tex_filter :: filtering
  tex_data :: "nat \<Rightarrow> nat \<Rightarrow> vec4"

fun store_format :: "internal_format \<Rightarrow> vec4 \<Rightarrow> vec4" where
  "store_format R16F (a, b, c, d) = (a, 0, 0, 1)"
| "store_format RG16F (a, b, c, d) = (a, b, 0, 1)"
| "store_format RGBA16F (a, b, c, d) = (a, b, c, d)"

record gl_state =
  gl_textures :: "nat \<rightharpoonup> texture_obj"
  gl_framebuffers :: "nat \<rightharpoonup> nat"
  gl_next :: nat
  gl_complete :: "nat \<Rightarrow> nat \<Rightarrow> internal_format \<Rightarrow> bool"
  gl_programs_build :: bool
  quadVAO :: bool
  canvas_width :: nat
  canvas_height :: nat
  drawingBufferWidth :: nat
  drawingBufferHeight :: nat
  gl_backbuffer :: "nat \<Rightarrow> nat \<Rightarrow> vec4"

text \<open>
  \<^const>\<open>gl_textures\<close> and \<^const>\<open>gl_framebuffers\<close> map the names of the live texture and
  framebuffer objects to the object and to the name of the texture attached as
  \<^verbatim>\<open>COLOR_ATTACHMENT0\<close>; \<^const>\<open>gl_next\<close> is the next unused name.
  \<^const>\<open>gl_complete\<close> is the driver's answer to \<^verbatim>\<open>checkFramebufferStatus\<close> for an
  attachment of a size and format, \<^const>\<open>gl_programs_build\<close> whether the driver compiles
  and links the shader programs. \<^const>\<open>quadVAO\<close> is the module variable of gl.js (set,
  together with \<^verbatim>\<open>blitMaterial\<close>, by \<^verbatim>\<open>createGLContext\<close> only): True when it is
  not \<^verbatim>\<open>null\<close>.
\<close>

definition clamp_index :: "int \<Rightarrow> nat \<Rightarrow> nat" where
  \<comment> \<open>\<^verbatim>\<open>CLAMP_TO_EDGE\<close>: a texel index outside the texture is moved to the edge\<close>
  "clamp_index i n = nat (max 0 (min i (int n - 1)))"

definition texelFetch :: "texture_obj \<Rightarrow> int \<Rightarrow> int \<Rightarrow> vec4" where
  "texelFetch t i j =
     tex_data t (clamp_index i (tex_width t)) (clamp_index j (tex_height t))"

definition mix4 :: "vec4 \<Rightarrow> vec4 \<Rightarrow> real \<Rightarrow> vec4" where
  "mix4 a b t = add4 (scale4 a (1 - t)) (scale4 b t)"

definition sample_texture :: "texture_obj \<Rightarrow> vec2 \<Rightarrow> vec4" where
  "sample_texture t uv =
     (case tex_filter t of
        NEAREST \<Rightarrow>
          texelFetch t \<lfloor>fst uv * real (tex_width t)\<rfloor> \<lfloor>snd uv * real (tex_height t)\<rfloor>
      | LINEAR \<Rightarrow>
          (let x = fst uv * real (tex_width t) - 1 / 2;
               y = snd uv * real (tex_height t) - 1 / 2;
               i0 = \<lfloor>x\<rfloor>;
               j0 = \<lfloor>y\<rfloor>;
               a = x - of_int i0;
               b = y - of_int j0
           in mix4 (mix4 (texelFetch t i0 j0) (texelFetch t (i0 + 1) j0) a)
                   (mix4 (texelFetch t i0 (j0 + 1)) (texelFetch t (i0 + 1) (j0 + 1)) a) b))"

definition texture2D :: "gl_state \<Rightarrow> nat \<Rightarrow> sampler2D" where
  \<comment> \<open>GLSL \<^verbatim>\<open>texture(u, coord)\<close> with the texture named \<open>h\<close> bound to \<open>u\<close>\<close>
  "texture2D gl h uv =
     (case gl_textures gl h of None \<Rightarrow> (0, 0, 0, 1) | Some t \<Rightarrow> sample_texture t uv)"


section \<open>gl.js: render targets and the full-screen pass\<close>

record target =
  texture :: nat
  fbo :: nat
  width :: nat
  height :: nat
  internalFormat :: internal_format
  format :: pixel_format
  pixelType :: pixel_type
  texelSize :: vec2

text \<open>
  The object that \<^verbatim>\<open>createDoubleFBO\<close> returns; its fields \<^verbatim>\<open>read\<close> and
  \<^verbatim>\<open>write\<close> are \<open>readFBO\<close> and \<open>writeFBO\<close> here.
\<close>

record doubleFBO =
  readFBO :: target
  writeFBO :: target

definition assignTexelSize :: "target \<Rightarrow> target" where
  "assignTexelSize t = t\<lparr>texelSize := (1 / real (width t), 1 / real (height t))\<rparr>"

definition createTexture ::
  "gl_state \<Rightarrow> nat \<Rightarrow> nat \<Rightarrow> internal_format \<Rightarrow> filtering \<Rightarrow> nat \<times> gl_state" where
  "createTexture gl w h ifmt filt =
     (gl_next gl,
      gl\<lparr>gl_textures := (gl_textures gl)(gl_next gl \<mapsto>
            \<lparr>tex_width = w, tex_height = h, tex_internalFormat = ifmt, tex_filter = filt,
             tex_data = (\<lambda>i j. store_format ifmt (0, 0, 0, 0))\<rparr>),
         gl_next := Suc (gl_next gl)\<rparr>)"

definition createFBO ::
  "gl_state \<Rightarrow> nat \<Rightarrow> nat \<Rightarrow> internal_format \<Rightarrow> pixel_format \<Rightarrow> pixel_type \<Rightarrow> filtering
     \<Rightarrow> error + (target \<times> gl_state)" where
  "createFBO gl w h ifmt fmt ty filt =
     (case createTexture gl w h ifmt filt of (tex, gl1) \<Rightarrow>
        (let f = gl_next gl1;
             gl2 = gl1\<lparr>gl_framebuffers := (gl_framebuffers gl1)(f \<mapsto> tex),
                       gl_next := Suc f\<rparr>
         in if \<not> gl_complete gl2 w h ifmt then Inl FramebufferIncomplete
            else Inr (assignTexelSize
                        \<lparr>texture = tex, fbo = f, width = w, height = h,
                         internalFormat = ifmt, format = fmt, pixelType = ty,
                         texelSize = (0, 0)\<rparr>, gl2)))"

definition swap :: "doubleFBO \<Rightarrow> doubleFBO" where
  "swap d = (let tmp = readFBO d in d\<lparr>readFBO := writeFBO d, writeFBO := tmp\<rparr>)"

definition createDoubleFBO ::
  "gl_state \<Rightarrow> nat \<Rightarrow> nat \<Rightarrow> internal_format \<Rightarrow> pixel_format \<Rightarrow> pixel_type \<Rightarrow> filtering
     \<Rightarrow> error + (doubleFBO \<times> gl_state)" where
  "createDoubleFBO gl w h ifmt fmt ty filt =
     (case createFBO gl w h ifmt fmt ty filt of
        Inl e \<Rightarrow> Inl e
      | Inr (first, gl1) \<Rightarrow>
          (case createFBO gl1 w h ifmt fmt ty filt of
             Inl e \<Rightarrow> Inl e
           | Inr (second, gl2) \<Rightarrow> Inr (\<lparr>readFBO = first, writeFBO = second\<rparr>, gl2)))"

definition resizeFBO :: "gl_state \<Rightarrow> target \<Rightarrow> nat \<Rightarrow> nat \<Rightarrow> target \<times> gl_state" where
  "resizeFBO gl t w h =
     (if width t = w \<and> height t = h then (t, gl)
      else (assignTexelSize (t\<lparr>width := w, height := h\<rparr>),
            (case gl_textures gl (texture t) of
               None \<Rightarrow> gl
             | Some tx \<Rightarrow>
                 gl\<lparr>gl_textures := (gl_textures gl)(texture t \<mapsto>
                       tx\<lparr>tex_width := w, tex_height := h,
                          tex_internalFormat := internalFormat t,
                          tex_data := (\<lambda>i j. store_format (internalFormat t) (0, 0, 0, 0))\<rparr>)\<rparr>)))"

definition deleteFBO :: "gl_state \<Rightarrow> target option \<Rightarrow> gl_state" where
  "deleteFBO gl t =
     (case t of
        None \<Rightarrow> gl
      | Some tg \<Rightarrow>
          gl\<lparr>gl_textures := (gl_textures gl)(texture tg := None),
             gl_framebuffers := (gl_framebuffers gl)(fbo tg := None)\<rparr>)"

definition pixel_uv :: "nat \<Rightarrow> nat \<Rightarrow> nat \<Rightarrow> nat \<Rightarrow> vec2" where
  \<comment> \<open>\<^verbatim>\<open>vUv\<close> at the centre of pixel \<open>(i, j)\<close> of a \<open>w\<close> by \<open>h\<close> viewport\<close>
  "pixel_uv w h i j = ((real i + 1 / 2) / real w, (real j + 1 / 2) / real h)"

definition blit :: "gl_state \<Rightarrow> target option \<Rightarrow> (vec2 \<Rightarrow> vec4) \<Rightarrow> error + gl_state" where
  "blit gl tgt frag =
     (if \<not> quadVAO gl then Inl QuadNotInitialised
      else (case tgt of
          None \<Rightarrow>
            Inr (gl\<lparr>gl_backbuffer := (\<lambda>i j.
                   if i < drawingBufferWidth gl \<and> j < drawingBufferHeight gl
                   then frag (pixel_uv (drawingBufferWidth gl) (drawingBufferHeight gl) i j)
                   else gl_backbuffer gl i j)\<rparr>)
        | Some t \<Rightarrow>
            (case gl_framebuffers gl (fbo t) of
               None \<Rightarrow> Inr gl
             | Some name \<Rightarrow>
                 (case gl_textures gl name of
                    None \<Rightarrow> Inr gl
                  | Some tx \<Rightarrow>
                      Inr (gl\<lparr>gl_textures := (gl_textures gl)(name \<mapsto>
                             tx\<lparr>tex_data := (\<lambda>i j.
                                  if i < min (width t) (tex_width tx)
                                     \<and> j < min (height t) (tex_height tx)
                                  then store_format (tex_internalFormat tx)
                                         (frag (pixel_uv (width t) (height t) i j))
                                  else tex_data tx i j)\<rparr>)\<rparr>)))))"

definition copyTexture :: "gl_state \<Rightarrow> target \<Rightarrow> nat \<Rightarrow> error + gl_state" where
  "copyTexture gl tgt sourceTexture =
     blit gl (Some tgt) (copyShader (texture2D gl sourceTexture))"


section \<open>Exceptions\<close>

text \<open>
  A function that can throw returns \<open>Inl\<close> of the error; \<open>and_then\<close> runs the rest
  of the body on a normal return and passes an exception on.
\<close>

definition and_then :: "'e + 'a \<Rightarrow> ('a \<Rightarrow> 'e + 'b) \<Rightarrow> 'e + 'b" where
  "and_then m f = (case m of Inl e \<Rightarrow> Inl e | Inr x \<Rightarrow> f x)"


section \<open>utils.js: colours and pointers\<close>

text \<open>
  \<^verbatim>\<open>Math.random\<close> is a supply of numbers: a call takes the first and leaves the rest.
  A colour \<^verbatim>\<open>{r, g, b}\<close> is a triple.
\<close>

definition Math_random :: "(nat \<Rightarrow> real) \<Rightarrow> real \<times> (nat \<Rightarrow> real)" where
  "Math_random rs = (rs 0, (\<lambda>n. rs (Suc n)))"

definition hsvToRgb :: "real \<Rightarrow> real \<Rightarrow> real \<Rightarrow> vec3" where
  "hsvToRgb h s v =
     (let i = \<lfloor>h * 6\<rfloor>;
          f = h * 6 - of_int i;
          p = v * (1 - s);
          q = v * (1 - f * s);
          t = v * (1 - (1 - f) * s);
          m = (if i < 0 then - ((- i) mod 6) else i mod 6)
      in if m = 0 then (v, t, p)
         else if m = 1 then (q, v, p)
         else if m = 2 then (p, v, t)
         else if m = 3 then (p, q, v)
         else if m = 4 then (t, p, v)
         else if m = 5 then (v, p, q)
         else (v, t, p))"

definition randomColor :: "(nat \<Rightarrow> real) \<Rightarrow> vec3 \<times> (nat \<Rightarrow> real)" where
  "randomColor rs =
     (case Math_random rs of (h, rs1) \<Rightarrow>
       (case Math_random rs1 of (a, rs2) \<Rightarrow>
         (case Math_random rs2 of (c, rs3) \<Rightarrow>
           (let s = 6 / 10 + a * (4 / 10);
                v = 5 / 10 + c * (5 / 10)
            in (hsvToRgb h s v, rs3)))))"

record pointer =
  pointer_id :: nat
  down :: bool
  moved :: bool
  position :: vec2
  previous :: vec2
  delta :: vec2
  color :: vec3


section \<open>sim.js: the simulation object\<close>

text \<open>
  The configuration object. The two tunables that count, \<^verbatim>\<open>pressureIterations\<close> and
  \<^verbatim>\<open>bloomLevels\<close>, are integers (the control panel moves them in steps of 1); the
  others are reals.
\<close>

record config =
  velocityDissipation :: real
  densityDissipation :: real
  pressureDecay :: real
  pressureIterations :: int
  curlStrength :: real
  splatRadius :: real
  splatForce :: real
  texelDownsample :: real
  paused :: bool
  cycleColors :: bool
  colorCycleSpeed :: real
  gamma :: real
  exposure :: real
  enableBloom :: bool
  bloomIntensity :: real
  bloomThreshold :: real
  bloomLevels :: int

definition DEFAULT_CONFIG :: config where
  "DEFAULT_CONFIG =
     \<lparr>velocityDissipation = 995 / 1000, densityDissipation = 98 / 100,
      pressureDecay = 915 / 1000, pressureIterations = 40, curlStrength = 11,
      splatRadius = 2 / 1000, splatForce = 13800, texelDownsample = 3, paused = False,
      cycleColors = True, colorCycleSpeed = 1 / 2, gamma = 22 / 10, exposure = 18 / 100,
      enableBloom = True, bloomIntensity = 2 / 10, bloomThreshold = 6 / 10,
      bloomLevels = 4\<rparr>"

record bloom_level =
  buffer :: target
  temp :: target

text \<open>
  The fields of \<^verbatim>\<open>this.framebuffers\<close> are fields of the simulation record itself;
  \<^verbatim>\<open>null\<close> is \<open>None\<close>. \<open>glctx\<close> is the state of the context \<^verbatim>\<open>this.gl\<close>,
  \<open>random\<close> the supply behind \<^verbatim>\<open>Math.random\<close>.
\<close>

record sim =
  glctx :: gl_state
  config :: config
  velocity :: "doubleFBO option"
  density :: "doubleFBO option"
  pressure :: "doubleFBO option"
  divergence :: "target option"
  curl :: "target option"
  bloom :: "bloom_level list"
  simSize :: "nat \<times> nat"
  canvasSize :: "nat \<times> nat"
  autoTimer :: real
  colorCycleTimer :: real
  lastPointerColor :: vec3
  random :: "nat \<Rightarrow> real"

definition ensureDimension :: "real \<Rightarrow> nat" where
  "ensureDimension v = nat (max 2 \<lfloor>v\<rfloor>)"

function bloom_loop ::
  "int \<Rightarrow> int \<Rightarrow> nat \<Rightarrow> nat \<Rightarrow> gl_state \<Rightarrow> bloom_level list
     \<Rightarrow> error + (bloom_level list \<times> gl_state)" where
  "bloom_loop i levels w h gl acc =
     (if i < levels then
        (case createFBO gl w h RGBA16F RGBA HALF_FLOAT LINEAR of
           Inl e \<Rightarrow> Inl e
         | Inr (buf, gl1) \<Rightarrow>
             (case createFBO gl1 w h RGBA16F RGBA HALF_FLOAT LINEAR of
                Inl e \<Rightarrow> Inl e
              | Inr (tmp, gl2) \<Rightarrow>
                  (let acc1 = acc @ [\<lparr>buffer = buf, temp = tmp\<rparr>];
                       w1 = ensureDimension (real w / 2);
                       h1 = ensureDimension (real h / 2)
                   in if w1 = 2 \<or> h1 = 2 then Inr (acc1, gl2)
                      else bloom_loop (i + 1) levels w1 h1 gl2 acc1)))
      else Inr (acc, gl))"
  by pat_completeness auto
termination
  by (relation "measure (\<lambda>(i, levels, w, h, gl, acc). nat (levels - i))") auto

definition setupBloomBuffers :: "sim \<Rightarrow> nat \<Rightarrow> nat \<Rightarrow> error + sim" where
  "setupBloomBuffers s baseWidth baseHeight =
     (let levels = max 1 (bloomLevels (config s));
          gl0 = foldl (\<lambda>gl level. deleteFBO (deleteFBO gl (Some (buffer level)))
                                     (Some (temp level)))
                  (glctx s) (bloom s);
          w = ensureDimension (real baseWidth / 2);
          h = ensureDimension (real baseHeight / 2)
      in case bloom_loop 0 levels w h gl0 [] of
           Inl e \<Rightarrow> Inl e
         | Inr (levs, gl1) \<Rightarrow> Inr (s\<lparr>glctx := gl1, bloom := levs\<rparr>))"

definition resizeDouble ::
  "gl_state \<Rightarrow> doubleFBO option \<Rightarrow> nat \<Rightarrow> nat \<Rightarrow> internal_format \<Rightarrow> pixel_format
     \<Rightarrow> filtering \<Rightarrow> error + (doubleFBO \<times> gl_state)" where
  \<comment> \<open>one \<^verbatim>\<open>if (!field) { createDoubleFBO } else { resizeFBO; resizeFBO }\<close> of
      \<^verbatim>\<open>resize\<close>\<close>
  "resizeDouble gl field w h ifmt fmt filt =
     (case field of
        None \<Rightarrow> createDoubleFBO gl w h ifmt fmt HALF_FLOAT filt
      | Some d \<Rightarrow>
          (case resizeFBO gl (readFBO d) w h of (r1, gl1) \<Rightarrow>
             (case resizeFBO gl1 (writeFBO d) w h of (w1, gl2) \<Rightarrow>
                Inr (d\<lparr>readFBO := r1, writeFBO := w1\<rparr>, gl2))))"

definition resizeSingle ::
  "gl_state \<Rightarrow> target option \<Rightarrow> nat \<Rightarrow> nat \<Rightarrow> error + (target \<times> gl_state)" where
  \<comment> \<open>one \<^verbatim>\<open>if (!field) { createFBO } else { resizeFBO }\<close> of \<^verbatim>\<open>resize\<close>\<close>
  "resizeSingle gl field w h =
     (case field of
        None \<Rightarrow> createFBO gl w h R16F RED HALF_FLOAT NEAREST
      | Some t \<Rightarrow> Inr (resizeFBO gl t w h))"

definition resize :: "sim \<Rightarrow> nat \<Rightarrow> nat \<Rightarrow> error + sim" where
  "resize s0 w h =
     (let s = s0\<lparr>canvasSize := (w, h)\<rparr> in
      if texelDownsample (config s) = 0 then Inl NotFinite
      else
       (let simWidth = ensureDimension (real w / texelDownsample (config s));
            simHeight = ensureDimension (real h / texelDownsample (config s));
            dyeWidth = simWidth;
            dyeHeight = simHeight
        in if fst (simSize s) = simWidth \<and> snd (simSize s) = simHeight then Inr s
           else
            (let s1 = s\<lparr>simSize := (simWidth, simHeight)\<rparr> in
             and_then (resizeDouble (glctx s1) (velocity s1) simWidth simHeight
                         RG16F RG LINEAR) (\<lambda>(vel, gl1).
             and_then (resizeDouble gl1 (density s1) dyeWidth dyeHeight
                         RGBA16F RGBA LINEAR) (\<lambda>(den, gl2).
             and_then (resizeDouble gl2 (pressure s1) simWidth simHeight
                         R16F RED NEAREST) (\<lambda>(prs, gl3).
             and_then (resizeSingle gl3 (divergence s1) simWidth simHeight) (\<lambda>(dv, gl4).
             and_then (resizeSingle gl4 (curl s1) simWidth simHeight) (\<lambda>(cu, gl5).
               setupBloomBuffers
                 (s1\<lparr>glctx := gl5, velocity := Some vel, density := Some den,
                     pressure := Some prs, divergence := Some dv, curl := Some cu\<rparr>)
                 w w))))))))"

definition FluidSimulation :: "gl_state \<Rightarrow> config \<Rightarrow> (nat \<Rightarrow> real) \<Rightarrow> error + sim" where
  \<comment> \<open>the constructor; \<open>cfg\<close> is \<^verbatim>\<open>{ ...DEFAULT_CONFIG, ...config }\<close>\<close>
  "FluidSimulation gl cfg rs =
     (if \<not> gl_programs_build gl then Inl ProgramBuildError
      else (case randomColor rs of (c, rs1) \<Rightarrow>
        resize \<lparr>glctx = gl, config = cfg, velocity = None, density = None,
                pressure = None, divergence = None, curl = None, bloom = [],
                simSize = (0, 0), canvasSize = (0, 0), autoTimer = 0,
                colorCycleTimer = 0, lastPointerColor = c, random = rs1\<rparr>
          (canvas_width gl) (canvas_height gl)))"

definition updateConfig :: "sim \<Rightarrow> config \<Rightarrow> sim" where
  \<comment> \<open>\<open>cfg\<close> is the configuration after \<^verbatim>\<open>Object.assign(this.config, partial)\<close>\<close>
  "updateConfig s cfg = s\<lparr>config := cfg\<rparr>"


subsection \<open>Splats\<close>

definition splat :: "sim \<Rightarrow> real \<Rightarrow> real \<Rightarrow> real \<Rightarrow> real \<Rightarrow> vec3 \<Rightarrow> error + sim" where
  "splat s x y dx dy col =
     (let aspect = real (fst (simSize s)) / real (snd (simSize s)) in
      case velocity s of
        None \<Rightarrow> Inl TypeError
      | Some vel \<Rightarrow>
         (let velocityImpulse = (dx * splatForce (config s), dy * splatForce (config s), 0, 0) in
          and_then (blit (glctx s) (Some (writeFBO vel))
                      (splatShader (texture2D (glctx s) (texture (readFBO vel))) (x, y)
                         (splatRadius (config s)) velocityImpulse aspect)) (\<lambda>gl1.
          case density s of
            None \<Rightarrow> Inl TypeError
          | Some den \<Rightarrow>
             (let colorValue = (case col of (cr, cg, cb) \<Rightarrow> (cr, cg, cb, 1)) in
              and_then (blit gl1 (Some (writeFBO den))
                          (splatShader (texture2D gl1 (texture (readFBO den))) (x, y)
                             (splatRadius (config s)) colorValue aspect)) (\<lambda>gl2.
              Inr (s\<lparr>glctx := gl2, velocity := Some (swap vel),
                      density := Some (swap den), lastPointerColor := col\<rparr>))))))"

definition applyPointer :: "sim \<Rightarrow> pointer \<Rightarrow> bool \<Rightarrow> error + (sim \<times> pointer)" where
  "applyPointer s p randomizeColor =
     (if \<not> moved p \<or> \<not> down p then Inr (s, p)
      else
       (let dx = fst (delta p);
            dy = snd (delta p)
        in if dx = 0 \<and> dy = 0 then Inr (s, p)
           else
            (case (if randomizeColor
                   then (case randomColor (random s) of
                           (c, rs) \<Rightarrow> (s\<lparr>random := rs\<rparr>, p\<lparr>color := c\<rparr>))
                   else (s, p)) of
               (s1, p1) \<Rightarrow>
                 and_then (splat s1 (fst (position p1)) (snd (position p1)) dx dy (color p1))
                   (\<lambda>s2. Inr (s2, p1\<lparr>moved := False\<rparr>)))))"

fun applyPointers :: "sim \<Rightarrow> pointer list \<Rightarrow> bool \<Rightarrow> error + (sim \<times> pointer list)" where
  \<comment> \<open>\<^verbatim>\<open>pointers.forEach((pointer) => this.applyPointer(pointer, ramdomizeColor))\<close>\<close>
  "applyPointers s [] rc = Inr (s, [])"
| "applyPointers s (p # ps) rc =
     and_then (applyPointer s p rc) (\<lambda>(s1, p1).
     and_then (applyPointers s1 ps rc) (\<lambda>(s2, ps2). Inr (s2, p1 # ps2)))"


subsection \<open>The passes of a tick\<close>

definition advectVelocity :: "sim \<Rightarrow> real \<Rightarrow> error + sim" where
  "advectVelocity s deltaTime =
     (case velocity s of
        None \<Rightarrow> Inl TypeError
      | Some vel \<Rightarrow>
          and_then (blit (glctx s) (Some (writeFBO vel))
                      (advectionShader (texture2D (glctx s) (texture (readFBO vel)))
                         (texture2D (glctx s) (texture (readFBO vel)))
                         (texelSize (readFBO vel)) (velocityDissipation (config s))
                         deltaTime)) (\<lambda>gl1.
          Inr (s\<lparr>glctx := gl1, velocity := Some (swap vel)\<rparr>)))"

definition advectDye :: "sim \<Rightarrow> real \<Rightarrow> error + sim" where
  "advectDye s deltaTime =
     (case density s of
        None \<Rightarrow> Inl TypeError
      | Some den \<Rightarrow>
         (case velocity s of
            None \<Rightarrow> Inl TypeError
          | Some vel \<Rightarrow>
              and_then (blit (glctx s) (Some (writeFBO den))
                          (advectionShader (texture2D (glctx s) (texture (readFBO vel)))
                             (texture2D (glctx s) (texture (readFBO den)))
                             (texelSize (readFBO den)) (densityDissipation (config s))
                             deltaTime)) (\<lambda>gl1.
              Inr (s\<lparr>glctx := gl1, density := Some (swap den)\<rparr>))))"

definition applyVorticity :: "sim \<Rightarrow> real \<Rightarrow> error + sim" where
  "applyVorticity s deltaTime =
     (case velocity s of
        None \<Rightarrow> Inl TypeError
      | Some vel \<Rightarrow>
          and_then (blit (glctx s) (curl s)
                      (curlShader (texture2D (glctx s) (texture (readFBO vel)))
                         (texelSize (readFBO vel)))) (\<lambda>gl1.
          case curl s of
            None \<Rightarrow> Inl TypeError
          | Some cu \<Rightarrow>
              and_then (blit gl1 (Some (writeFBO vel))
                          (vorticityShader (texture2D gl1 (texture (readFBO vel)))
                             (texture2D gl1 (texture cu)) (texelSize (readFBO vel))
                             (curlStrength (config s)) deltaTime)) (\<lambda>gl2.
              Inr (s\<lparr>glctx := gl2, velocity := Some (swap vel)\<rparr>))))"

definition computeDivergence :: "sim \<Rightarrow> error + sim" where
  "computeDivergence s =
     (case velocity s of
        None \<Rightarrow> Inl TypeError
      | Some vel \<Rightarrow>
          and_then (blit (glctx s) (divergence s)
                      (divergenceShader (texture2D (glctx s) (texture (readFBO vel)))
                         (texelSize (readFBO vel)))) (\<lambda>gl1.
          Inr (s\<lparr>glctx := gl1\<rparr>)))"

function pressure_loop ::
  "int \<Rightarrow> int \<Rightarrow> gl_state \<Rightarrow> doubleFBO \<Rightarrow> target option
     \<Rightarrow> error + (doubleFBO \<times> gl_state)" where
  \<comment> \<open>\<^verbatim>\<open>for (let i = 0; i < config.pressureIterations; i++) { blit; swap }\<close>\<close>
  "pressure_loop i n gl prs dv =
     (if i < n then
        (case dv of
           None \<Rightarrow> Inl TypeError
         | Some d \<Rightarrow>
            (case blit gl (Some (writeFBO prs))
                    (pressureShader (texture2D gl (texture (readFBO prs)))
                       (texture2D gl (texture d)) (texelSize (readFBO prs))) of
               Inl e \<Rightarrow> Inl e
             | Inr gl1 \<Rightarrow> pressure_loop (i + 1) n gl1 (swap prs) dv))
      else Inr (prs, gl))"
  by pat_completeness auto
termination
  by (relation "measure (\<lambda>(i, n, gl, prs, dv). nat (n - i))") auto

definition solvePressure :: "sim \<Rightarrow> error + sim" where
  "solvePressure s =
     (case pressure s of
        None \<Rightarrow> Inl TypeError
      | Some prs \<Rightarrow>
          and_then (blit (glctx s) (Some (writeFBO prs))
                      (clearShader (texture2D (glctx s) (texture (readFBO prs)))
                         (pressureDecay (config s)))) (\<lambda>gl1.
          and_then (pressure_loop 0 (pressureIterations (config s)) gl1 (swap prs)
                      (divergence s)) (\<lambda>(prs1, gl2).
          Inr (s\<lparr>glctx := gl2, pressure := Some prs1\<rparr>))))"

definition subtractPressureGradient :: "sim \<Rightarrow> error + sim" where
  "subtractPressureGradient s =
     (case pressure s of
        None \<Rightarrow> Inl TypeError
      | Some prs \<Rightarrow>
         (case velocity s of
            None \<Rightarrow> Inl TypeError
          | Some vel \<Rightarrow>
              and_then (blit (glctx s) (Some (writeFBO vel))
                          (gradientSubtractShader (texture2D (glctx s) (texture (readFBO prs)))
                             (texture2D (glctx s) (texture (readFBO vel)))
                             (texelSize (readFBO vel)))) (\<lambda>gl1.
              Inr (s\<lparr>glctx := gl1, velocity := Some (swap vel)\<rparr>))))"

definition step :: "sim \<Rightarrow> real \<Rightarrow> pointer list \<Rightarrow> error + (sim \<times> pointer list)" where
  "step s deltaTime pointers =
     (if paused (config s) then Inr (s, pointers)
      else
       (let s1 = s\<lparr>autoTimer := autoTimer s + deltaTime,
                    colorCycleTimer := colorCycleTimer s + deltaTime\<rparr>;
            ramdomizeColor =
              (cycleColors (config s1) \<and> colorCycleTimer s1 > colorCycleSpeed (config s1));
            s2 = (if ramdomizeColor then s1\<lparr>colorCycleTimer := 0\<rparr> else s1)
        in and_then (applyPointers s2 pointers ramdomizeColor) (\<lambda>(s3, pointers1).
           (let cappedDt = min deltaTime (16 / 1000) in
            and_then (advectVelocity s3 cappedDt) (\<lambda>s4.
            and_then (applyVorticity s4 cappedDt) (\<lambda>s5.
            and_then (computeDivergence s5) (\<lambda>s6.
            and_then (solvePressure s6) (\<lambda>s7.
            and_then (subtractPressureGradient s7) (\<lambda>s8.
            and_then (advectDye s8 cappedDt) (\<lambda>s9.
            Inr (s9, pointers1)))))))))))"


subsection \<open>Bloom and presentation\<close>

fun bloom_downsample :: "gl_state \<Rightarrow> target \<Rightarrow> bloom_level list \<Rightarrow> error + gl_state" where
  \<comment> \<open>\<^verbatim>\<open>for (let i = 1; i < bloom.length; i++)\<close>, on the levels from index 1\<close>
  "bloom_downsample gl prev [] = Inr gl"
| "bloom_downsample gl prev (level # rest) =
     and_then (copyTexture gl (buffer level) (texture prev)) (\<lambda>gl1.
     bloom_downsample gl1 (buffer level) rest)"

fun bloom_blur :: "gl_state \<Rightarrow> bloom_level list \<Rightarrow> error + gl_state" where
  \<comment> \<open>\<^verbatim>\<open>for (let i = 0; i < bloom.length; i++)\<close>\<close>
  "bloom_blur gl [] = Inr gl"
| "bloom_blur gl (level # rest) =
     and_then (blit gl (Some (temp level))
                 (bloomBlurShader (texture2D gl (texture (buffer level))) (1, 0)
                    (texelSize (buffer level)))) (\<lambda>gl1.
     and_then (blit gl1 (Some (buffer level))
                 (bloomBlurShader (texture2D gl1 (texture (temp level))) (0, 1)
                    (texelSize (buffer level)))) (\<lambda>gl2.
     bloom_blur gl2 rest))"

fun bloom_combine :: "gl_state \<Rightarrow> nat \<Rightarrow> bloom_level list \<Rightarrow> error + gl_state" where
  \<comment> \<open>\<^verbatim>\<open>for (let i = bloom.length - 2; i >= 0; i--)\<close>, on the levels in that order\<close>
  "bloom_combine gl currentTexture [] = Inr gl"
| "bloom_combine gl currentTexture (level # rest) =
     and_then (blit gl (Some (temp level))
                 (bloomCombineShader (texture2D gl (texture (buffer level)))
                    (texture2D gl currentTexture))) (\<lambda>gl1.
     and_then (copyTexture gl1 (buffer level) (texture (temp level))) (\<lambda>gl2.
     bloom_combine gl2 (texture (buffer level)) rest))"

definition runBloom :: "sim \<Rightarrow> error + (nat \<times> sim)" where
  "runBloom s =
     (case density s of
        None \<Rightarrow> Inl TypeError
      | Some den \<Rightarrow>
         (case bloom s of
            [] \<Rightarrow> Inr (texture (readFBO den), s)
          | first # rest \<Rightarrow>
              and_then (blit (glctx s) (Some (buffer first))
                          (bloomPrefilterShader (texture2D (glctx s) (texture (readFBO den)))
                             (bloomThreshold (config s)))) (\<lambda>gl1.
              and_then (bloom_downsample gl1 (buffer first) rest) (\<lambda>gl2.
              and_then (bloom_blur gl2 (bloom s)) (\<lambda>gl3.
              and_then (bloom_combine gl3 (texture (buffer (last (bloom s))))
                          (rev (butlast (bloom s)))) (\<lambda>gl4.
              Inr (texture (buffer first), s\<lparr>glctx := gl4\<rparr>)))))))"

definition render :: "sim \<Rightarrow> error + sim" where
  "render s =
     and_then (if enableBloom (config s) \<and> length (bloom s) > 0
               then and_then (runBloom s) (\<lambda>(t, s1). Inr (Some t, s1))
               else Inr (None, s)) (\<lambda>(bloomTexture, s1).
     case density s1 of
       None \<Rightarrow> Inl TypeError
     | Some den \<Rightarrow>
         and_then (blit (glctx s1) None
                     (displayShader (texture2D (glctx s1) (texture (readFBO den)))
                        (texture2D (glctx s1)
                           (case bloomTexture of
                              None \<Rightarrow> texture (readFBO den)
                            | Some t \<Rightarrow> t))
                        (enableBloom (config s1)) (bloomIntensity (config s1))
                        (gamma (config s1)) (exposure (config s1)))) (\<lambda>gl1.
         Inr (s1\<lparr>glctx := gl1\<rparr>)))"


section \<open>Predicates and example states used in the statements\<close>

subsection \<open>Double-buffered fields\<close>

definition distinct_grids :: "target \<Rightarrow> target \<Rightarrow> bool" where
  "distinct_grids a c \<longleftrightarrow> texture a \<noteq> texture c \<and> fbo a \<noteq> fbo c"

definition same_spec :: "target \<Rightarrow> target \<Rightarrow> bool" where
  "same_spec a c \<longleftrightarrow>
     width a = width c \<and> height a = height c \<and> internalFormat a = internalFormat c \<and>
     format a = format c \<and> pixelType a = pixelType c \<and> texelSize a = texelSize c"

definition texel_ok :: "target \<Rightarrow> bool" where
  \<comment> \<open>the texel size of a target is the one of its current dimensions\<close>
  "texel_ok t \<longleftrightarrow> texelSize t = (1 / real (width t), 1 / real (height t))"

definition double_ok :: "doubleFBO \<Rightarrow> bool" where
  "double_ok d \<longleftrightarrow>
     distinct_grids (readFBO d) (writeFBO d) \<and> same_spec (readFBO d) (writeFBO d) \<and>
     texel_ok (readFBO d) \<and> texel_ok (writeFBO d)"

definition fields_ok :: "sim \<Rightarrow> bool" where
  "fields_ok s \<longleftrightarrow>
     (case velocity s of None \<Rightarrow> True | Some d \<Rightarrow> double_ok d) \<and>
     (case density s of None \<Rightarrow> True | Some d \<Rightarrow> double_ok d) \<and>
     (case pressure s of None \<Rightarrow> True | Some d \<Rightarrow> double_ok d)"

subsection \<open>The states a simulation goes through\<close>

text \<open>
  A simulation is built by the constructor and then driven through its public methods;
  an exception ends its life (main.js rethrows it).
\<close>

inductive reachable :: "sim \<Rightarrow> bool" where
  constructed: "FluidSimulation gl cfg rs = Inr s \<Longrightarrow> reachable s"
| resized: "reachable s \<Longrightarrow> resize s w h = Inr s' \<Longrightarrow> reachable s'"
| stepped: "reachable s \<Longrightarrow> step s dt ps = Inr (s', ps') \<Longrightarrow> reachable s'"
| rendered: "reachable s \<Longrightarrow> render s = Inr s' \<Longrightarrow> reachable s'"
| configured: "reachable s \<Longrightarrow> reachable (updateConfig s cfg)"

subsection \<open>Drivers that complete every framebuffer\<close>

definition all_complete :: "gl_state \<Rightarrow> bool" where
  "all_complete gl \<longleftrightarrow> (\<forall>a c f. gl_complete gl a c f)"

subsection \<open>A simulation on a 6 by 6 canvas\<close>

text \<open>
  \<open>example_gl0\<close> is a context as \<^verbatim>\<open>createGLContext\<close> leaves it, on a canvas of 6 by 6
  pixels, with a driver that completes every framebuffer. \<open>example_sim\<close> is the
  simulation that the constructor builds on it with the default configuration
  (lemma \<open>example_sim_constructed\<close>): fields of 2 by 2 texels and one bloom level of
  3 by 3.
\<close>

definition example_gl0 :: gl_state where
  "example_gl0 =
     \<lparr>gl_textures = Map.empty, gl_framebuffers = Map.empty, gl_next = 0,
      gl_complete = (\<lambda>w h f. True), gl_programs_build = True, quadVAO = True,
      canvas_width = 6, canvas_height = 6, drawingBufferWidth = 6,
      drawingBufferHeight = 6, gl_backbuffer = (\<lambda>i j. (0, 0, 0, 1))\<rparr>"

definition example_target ::
  "nat \<Rightarrow> nat \<Rightarrow> internal_format \<Rightarrow> pixel_format \<Rightarrow> target" where
  "example_target n w ifmt fmt =
     \<lparr>texture = n, fbo = Suc n, width = w, height = w, internalFormat = ifmt,
      format = fmt, pixelType = HALF_FLOAT, texelSize = (1 / real w, 1 / real w)\<rparr>"

definition example_texture :: "nat \<Rightarrow> internal_format \<Rightarrow> filtering \<Rightarrow> texture_obj" where
  "example_texture w ifmt filt =
     \<lparr>tex_width = w, tex_height = w, tex_internalFormat = ifmt, tex_filter = filt,
      tex_data = (\<lambda>i j. store_format ifmt (0, 0, 0, 0))\<rparr>"

definition example_gl :: gl_state where
  "example_gl = example_gl0\<lparr>
     gl_textures :=
       [0 \<mapsto> example_texture 2 RG16F LINEAR, 2 \<mapsto> example_texture 2 RG16F LINEAR,
        4 \<mapsto> example_texture 2 RGBA16F LINEAR, 6 \<mapsto> example_texture 2 RGBA16F LINEAR,
        8 \<mapsto> example_texture 2 R16F NEAREST, 10 \<mapsto> example_texture 2 R16F NEAREST,
        12 \<mapsto> example_texture 2 R16F NEAREST, 14 \<mapsto> example_texture 2 R16F NEAREST,
        16 \<mapsto> example_texture 3 RGBA16F LINEAR, 18 \<mapsto> example_texture 3 RGBA16F LINEAR],
     gl_framebuffers :=
       [1 \<mapsto> 0, 3 \<mapsto> 2, 5 \<mapsto> 4, 7 \<mapsto> 6, 9 \<mapsto> 8, 11 \<mapsto> 10, 13 \<mapsto> 12, 15 \<mapsto> 14,
        17 \<mapsto> 16, 19 \<mapsto> 18],
     gl_next := 20\<rparr>"

definition example_velocity :: doubleFBO where
  "example_velocity =
     \<lparr>readFBO = example_target 0 2 RG16F RG, writeFBO = example_target 2 2 RG16F RG\<rparr>"

definition example_density :: doubleFBO where
  "example_density =
     \<lparr>readFBO = example_target 4 2 RGBA16F RGBA, writeFBO = example_target 6 2 RGBA16F RGBA\<rparr>"

definition example_pressure :: doubleFBO where
  "example_pressure =
     \<lparr>readFBO = example_target 8 2 R16F RED, writeFBO = example_target 10 2 R16F RED\<rparr>"

definition example_sim :: sim where
  "example_sim =
     \<lparr>glctx = example_gl, config = DEFAULT_CONFIG,
      velocity = Some example_velocity,
      density = Some example_density,
      pressure = Some example_pressure,
      divergence = Some (example_target 12 2 R16F RED),
      curl = Some (example_target 14 2 R16F RED),
      bloom = [\<lparr>buffer = example_target 16 3 RGBA16F RGBA,
                temp = example_target 18 3 RGBA16F RGBA\<rparr>],
      simSize = (2, 2), canvasSize = (6, 6), autoTimer = 0, colorCycleTimer = 0,
      lastPointerColor = (1 / 2, 1 / 5, 1 / 5), random = (\<lambda>n. 0)\<rparr>"

definition example_pointer :: pointer where
  \<comment> \<open>a pointer that is down and has moved by \<open>(1/10, 0)\<close> to the centre\<close>
  "example_pointer =
     \<lparr>pointer_id = 1, down = True, moved = True, position = (1 / 2, 1 / 2),
      previous = (4 / 10, 1 / 2), delta = (1 / 10, 0), color = (1, 0, 0)\<rparr>"


subsection \<open>Simulations whose tick and render return\<close>

text \<open>
  No pass throws when the full-screen quad is initialised and the five fields exist.
\<close>

definition ready :: "sim \<Rightarrow> bool" where
  "ready s \<longleftrightarrow>
     quadVAO (glctx s) \<and> velocity s \<noteq> None \<and> density s \<noteq> None \<and> pressure s \<noteq> None \<and>
     divergence s \<noteq> None \<and> curl s \<noteq> None"

subsection \<open>What a tick may do to an impulse record\<close>

text \<open>
  \<open>pointer_step live cycle p p'\<close>: \<open>p'\<close> is \<open>p\<close> after a tick that is not paused
  (\<open>live\<close>) in which the colour cycle fires or not (\<open>cycle\<close>). The identity, the
  position, the previous position, the delta and the down flag are kept. A record that
  is moved and down with a non-zero delta has its moved flag cleared and, only when the
  colour cycle fires, its colour may be replaced. Any other record is returned as it
  was.
\<close>

definition pointer_step :: "bool \<Rightarrow> bool \<Rightarrow> pointer \<Rightarrow> pointer \<Rightarrow> bool" where
  "pointer_step live cycle p p' \<longleftrightarrow>
     pointer_id p' = pointer_id p \<and> down p' = down p \<and> position p' = position p \<and>
     previous p' = previous p \<and> delta p' = delta p \<and>
     (if live \<and> moved p \<and> down p \<and> delta p \<noteq> (0, 0)
      then \<not> moved p' \<and> (if cycle then True else color p' = color p)
      else p' = p)"

subsection \<open>The bloom chain\<close>

text \<open>
  \<open>bloom_dims n w h\<close> lists the dimensions of the levels that the loop of
  \<^verbatim>\<open>_setupBloomBuffers\<close> allocates in at most \<open>n\<close> rounds from \<open>w\<close> by \<open>h\<close>;
  \<open>halve\<close> is the plain halving \<open>\<lfloor>n / 2\<rfloor>\<close>, without the clamp to 2.
\<close>

fun bloom_dims :: "nat \<Rightarrow> nat \<Rightarrow> nat \<Rightarrow> (nat \<times> nat) list" where
  "bloom_dims 0 w h = []"
| "bloom_dims (Suc n) w h =
     (w, h) # (if ensureDimension (real w / 2) = 2 \<or> ensureDimension (real h / 2) = 2 then []
               else bloom_dims n (ensureDimension (real w / 2)) (ensureDimension (real h / 2)))"

definition level_dims :: "bloom_level \<Rightarrow> (nat \<times> nat) \<times> (nat \<times> nat)" where
  "level_dims l = ((width (buffer l), height (buffer l)), (width (temp l), height (temp l)))"

definition halve :: "nat \<Rightarrow> nat" where
  "halve n = n div 2"

subsection \<open>The presented colour\<close>

text \<open>
  The colour of the presentation stage in the words of the specification:
  \<open>pow(1 - exp(-(dye + b) * exposure), 1 / gamma)\<close> on each channel, with alpha 1, where
  \<open>b\<close> is the bloom sample times the intensity when bloom is enabled and 0 otherwise.
\<close>

definition presented :: "vec3 \<Rightarrow> vec3 \<Rightarrow> bool \<Rightarrow> real \<Rightarrow> real \<Rightarrow> real \<Rightarrow> vec4" where
  "presented dye bloomSample enabled intensity gam expo =
     (let b = (if enabled then scale3 bloomSample intensity else (0, 0, 0))
      in vec4_of3 (map3 (\<lambda>c. glsl_pow (1 - exp (- c * expo)) (1 / gam)) (add3 dye b)) 1)"

subsection \<open>Passes only draw\<close>

text \<open>
  \<open>draws_only gl gl1\<close>: from \<open>gl\<close> to \<open>gl1\<close> only texels and pixels were written; the
  objects, their names, sizes, formats and filters are the same.
\<close>

definition same_shape :: "texture_obj \<Rightarrow> texture_obj \<Rightarrow> bool" where
  "same_shape a c \<longleftrightarrow>
     tex_width c = tex_width a \<and> tex_height c = tex_height a \<and>
     tex_internalFormat c = tex_internalFormat a \<and> tex_filter c = tex_filter a"

definition draws_only :: "gl_state \<Rightarrow> gl_state \<Rightarrow> bool" where
  "draws_only gl gl1 \<longleftrightarrow>
     gl_framebuffers gl1 = gl_framebuffers gl \<and> gl_next gl1 = gl_next gl \<and>
     gl_complete gl1 = gl_complete gl \<and> gl_programs_build gl1 = gl_programs_build gl \<and>
     quadVAO gl1 = quadVAO gl \<and> canvas_width gl1 = canvas_width gl \<and>
     canvas_height gl1 = canvas_height gl \<and>
     drawingBufferWidth gl1 = drawingBufferWidth gl \<and>
     drawingBufferHeight gl1 = drawingBufferHeight gl \<and>
     (\<forall>n. rel_option same_shape (gl_textures gl n) (gl_textures gl1 n))"


subsection \<open>Targets and their texels\<close>

text \<open>
  \<open>backed gl t\<close>: the target record \<open>t\<close> agrees with the context: its framebuffer has its
  texture attached, the texture object has the record's dimensions and format, the
  texel size is current and no dimension is zero. \<open>grid gl t\<close> are the texels of the
  target, \<open>scalar_grid gl t\<close> their first channel.
\<close>

definition backed :: "gl_state \<Rightarrow> target \<Rightarrow> bool" where
  "backed gl t \<longleftrightarrow>
     gl_framebuffers gl (fbo t) = Some (texture t) \<and>
     (case gl_textures gl (texture t) of
        None \<Rightarrow> False
      | Some tx \<Rightarrow>
          tex_width tx = width t \<and> tex_height tx = height t \<and>
          tex_internalFormat tx = internalFormat t) \<and>
     texel_ok t \<and> 0 < width t \<and> 0 < height t"

definition grid :: "gl_state \<Rightarrow> target \<Rightarrow> nat \<Rightarrow> nat \<Rightarrow> vec4" where
  "grid gl t i j =
     (case gl_textures gl (texture t) of None \<Rightarrow> (0, 0, 0, 1) | Some tx \<Rightarrow> tex_data tx i j)"

definition scalar_grid :: "gl_state \<Rightarrow> target \<Rightarrow> nat \<Rightarrow> nat \<Rightarrow> real" where
  "scalar_grid gl t i j = x4 (grid gl t i j)"

text \<open>
  \<open>sim_wf s\<close>: the quad is initialised, the five fields exist, their eight targets are
  backed by eight different textures of the simulation size, in the formats that
  \<^verbatim>\<open>resize\<close> gives them.
\<close>

definition double_targets :: "doubleFBO option \<Rightarrow> target list" where
  "double_targets d = (case d of None \<Rightarrow> [] | Some x \<Rightarrow> [readFBO x, writeFBO x])"

definition single_targets :: "target option \<Rightarrow> target list" where
  "single_targets t = (case t of None \<Rightarrow> [] | Some x \<Rightarrow> [x])"

definition field_targets :: "sim \<Rightarrow> target list" where
  "field_targets s =
     double_targets (velocity s) @ double_targets (density s) @ double_targets (pressure s) @
     single_targets (divergence s) @ single_targets (curl s)"

definition sim_wf :: "sim \<Rightarrow> bool" where
  "sim_wf s \<longleftrightarrow>
     ready s \<and>
     list_all (\<lambda>t. backed (glctx s) t \<and> width t = fst (simSize s) \<and>
                    height t = snd (simSize s)) (field_targets s) \<and>
     distinct (map texture (field_targets s)) \<and>
     map internalFormat (field_targets s) =
       [RG16F, RG16F, RGBA16F, RGBA16F, R16F, R16F, R16F, R16F]"

subsection \<open>The pressure solve in the words of the specification\<close>

text \<open>
  One Jacobi iteration on a \<open>w\<close> by \<open>h\<close> grid:
  \<open>(left + right + bottom + top - divergence) * 0.25\<close>, the neighbours taken with the
  index clamped to the edge (the left neighbour of column 0 is column 0, and so on);
  and the decay of a grid by a factor.
\<close>

definition jacobi_step ::
  "nat \<Rightarrow> nat \<Rightarrow> (nat \<Rightarrow> nat \<Rightarrow> real) \<Rightarrow> (nat \<Rightarrow> nat \<Rightarrow> real) \<Rightarrow> nat \<Rightarrow> nat \<Rightarrow> real" where
  "jacobi_step w h dv p i j =
     (p (i - 1) j + p (min (i + 1) (w - 1)) j + p i (j - 1) + p i (min (j + 1) (h - 1))
        - dv i j) * (1 / 4)"

definition decay_grid :: "real \<Rightarrow> (nat \<Rightarrow> nat \<Rightarrow> real) \<Rightarrow> nat \<Rightarrow> nat \<Rightarrow> real" where
  "decay_grid k p i j = p i j * k"

subsection \<open>Advection in the words of the specification\<close>

text \<open>
  The backtraced coordinate \<open>uv - dt * velocity * texelSize\<close>, clamped componentwise
  to \<open>[0, 1]\<close>.
\<close>

definition backtrace :: "vec2 \<Rightarrow> vec2 \<Rightarrow> real \<Rightarrow> vec2 \<Rightarrow> vec2" where
  "backtrace uv v dt ts =
     (clampf (fst uv - dt * fst v * fst ts) 0 1, clampf (snd uv - dt * snd v * snd ts) 0 1)"

subsection \<open>Vorticity confinement\<close>

text \<open>
  From the source: \<open>curl_grid\<close> is what the curl pass writes from a velocity grid;
  \<open>shader_gradient\<close> is the vector \<open>(|curlT| - |curlB|, |curlR| - |curlL|)\<close> that
  \<^verbatim>\<open>vorticityShader\<close> names \<^verbatim>\<open>gradient\<close>; \<open>normalize_eps\<close> divides by the length plus
  \<open>1e-5\<close>; \<open>rotate90\<close> is the shader's \<open>(g.y, -g.x)\<close>; \<open>confinement_force\<close> is the
  shader's force, scaled by the local curl value.
\<close>

definition curl_grid :: "nat \<Rightarrow> nat \<Rightarrow> (nat \<Rightarrow> nat \<Rightarrow> vec4) \<Rightarrow> nat \<Rightarrow> nat \<Rightarrow> real" where
  "curl_grid w h v i j =
     y4 (v (min (i + 1) (w - 1)) j) - y4 (v (i - 1) j)
       - (x4 (v i (min (j + 1) (h - 1))) - x4 (v i (j - 1)))"

definition shader_gradient ::
  "nat \<Rightarrow> nat \<Rightarrow> (nat \<Rightarrow> nat \<Rightarrow> real) \<Rightarrow> nat \<Rightarrow> nat \<Rightarrow> vec2" where
  "shader_gradient w h c i j =
     (\<bar>c i (min (j + 1) (h - 1))\<bar> - \<bar>c i (j - 1)\<bar>,
      \<bar>c (min (i + 1) (w - 1)) j\<bar> - \<bar>c (i - 1) j\<bar>)"

definition normalize_eps :: "vec2 \<Rightarrow> vec2" where
  "normalize_eps g = div2 g (length2 g + 1 / 100000)"

definition rotate90 :: "vec2 \<Rightarrow> vec2" where
  "rotate90 g = (snd g, - fst g)"

definition confinement_force ::
  "nat \<Rightarrow> nat \<Rightarrow> (nat \<Rightarrow> nat \<Rightarrow> real) \<Rightarrow> real \<Rightarrow> nat \<Rightarrow> nat \<Rightarrow> vec2" where
  "confinement_force w h c k i j =
     scale2 (scale2 (rotate90 (normalize_eps (shader_gradient w h c i j))) (c i j)) k"

text \<open>
  In the words of the specification: \<open>abs_curl_gradient\<close> is the gradient of \<open>|curl|\<close>
  across the four neighbours (clamped to the edge), the difference along x first:
  \<open>(|curlR| - |curlL|, |curlT| - |curlB|)\<close>. \<open>claimed_force\<close> is the normalised
  gradient, turned by \<open>turn\<close>, scaled by the magnitude of the local curl value and by
  the strength; \<open>claimed_velocity\<close> is the velocity that the specification promises.
  \<open>signed_force\<close> is the same force scaled by the local curl value itself.
  \<open>isometry\<close> says of a map of the plane that it keeps the dot product, and so lengths
  and angles: the quarter turns are such maps, and so is \<open>mirror_y\<close>.
\<close>

definition abs_curl_gradient ::
  "nat \<Rightarrow> nat \<Rightarrow> (nat \<Rightarrow> nat \<Rightarrow> real) \<Rightarrow> nat \<Rightarrow> nat \<Rightarrow> vec2" where
  "abs_curl_gradient w h c i j =
     (\<bar>c (min (i + 1) (w - 1)) j\<bar> - \<bar>c (i - 1) j\<bar>,
      \<bar>c i (min (j + 1) (h - 1))\<bar> - \<bar>c i (j - 1)\<bar>)"

definition claimed_force ::
  "(vec2 \<Rightarrow> vec2) \<Rightarrow> nat \<Rightarrow> nat \<Rightarrow> (nat \<Rightarrow> nat \<Rightarrow> real) \<Rightarrow> real \<Rightarrow> nat \<Rightarrow> nat \<Rightarrow> vec2" where
  "claimed_force turn w h c k i j =
     scale2 (scale2 (turn (normalize_eps (abs_curl_gradient w h c i j))) \<bar>c i j\<bar>) k"

definition claimed_velocity ::
  "(vec2 \<Rightarrow> vec2) \<Rightarrow> nat \<Rightarrow> nat \<Rightarrow> (nat \<Rightarrow> nat \<Rightarrow> vec4) \<Rightarrow> real \<Rightarrow> real \<Rightarrow> nat \<Rightarrow> nat \<Rightarrow> vec2" where
  "claimed_velocity turn w h v k dt i j =
     add2 (xy (v i j)) (scale2 (claimed_force turn w h (curl_grid w h v) k i j) dt)"

definition signed_force ::
  "(vec2 \<Rightarrow> vec2) \<Rightarrow> nat \<Rightarrow> nat \<Rightarrow> (nat \<Rightarrow> nat \<Rightarrow> real) \<Rightarrow> real \<Rightarrow> nat \<Rightarrow> nat \<Rightarrow> vec2" where
  "signed_force turn w h c k i j =
     scale2 (scale2 (turn (normalize_eps (abs_curl_gradient w h c i j))) (c i j)) k"

definition isometry :: "(vec2 \<Rightarrow> vec2) \<Rightarrow> bool" where
  "isometry turn \<longleftrightarrow> (\<forall>u v. dot2 (turn u) (turn v) = dot2 u v)"

definition mirror_y :: "vec2 \<Rightarrow> vec2" where
  "mirror_y g = (fst g, - snd g)"

text \<open>
  \<open>vortex_sim\<close> is the example simulation with a velocity field that is not zero:
  \<open>(0, -1)\<close> at texel \<open>(1, 0)\<close> and \<open>(0, 2)\<close> at texel \<open>(1, 1)\<close>. Its curl is \<open>-1\<close> on
  row 0 and \<open>2\<close> on row 1.
\<close>

definition vortex_sim :: sim where
  "vortex_sim = example_sim\<lparr>glctx := example_gl\<lparr>gl_textures :=
     (gl_textures example_gl)(0 \<mapsto> (example_texture 2 RG16F LINEAR)\<lparr>tex_data :=
        (\<lambda>i j. if i = 1 \<and> j = 0 then (0, - 1, 0, 1)
               else if i = 1 \<and> j = 1 then (0, 2, 0, 1)
               else (0, 0, 0, 1))\<rparr>)\<rparr>\<rparr>"


subsection \<open>The targets a simulation owns\<close>

text \<open>
  The textures and framebuffers of a simulation are the ones of its five fields and of
  its bloom levels. \<open>owned\<close> says of a list of targets that each is backed by a live
  texture of its own size and format, attached to its framebuffer, that the names were
  handed out by this context, and that no two targets share a texture. \<open>sim_inv\<close> is
  what the constructor establishes and \<^verbatim>\<open>resize\<close>, \<^verbatim>\<open>step\<close>, \<^verbatim>\<open>render\<close> and
  \<^verbatim>\<open>updateConfig\<close> keep; \<open>tick_rel\<close> is what a tick or a render may change: texels
  are drawn, and a double-buffered field is swapped or left alone.
\<close>

definition bloom_targets :: "sim \<Rightarrow> target list" where
  "bloom_targets s = concat (map (\<lambda>l. [buffer l, temp l]) (bloom s))"

definition owned :: "gl_state \<Rightarrow> target list \<Rightarrow> bool" where
  "owned gl ts \<longleftrightarrow>
     list_all (\<lambda>t. backed gl t \<and> texture t < gl_next gl \<and> fbo t < gl_next gl) ts \<and>
     distinct (map texture ts)"

definition formats_ok :: "sim \<Rightarrow> bool" where
  "formats_ok s \<longleftrightarrow>
     list_all (\<lambda>t. internalFormat t = RG16F) (double_targets (velocity s)) \<and>
     list_all (\<lambda>t. internalFormat t = RGBA16F) (double_targets (density s)) \<and>
     list_all (\<lambda>t. internalFormat t = R16F)
       (double_targets (pressure s) @ single_targets (divergence s) @ single_targets (curl s))"

definition sim_inv :: "sim \<Rightarrow> bool" where
  "sim_inv s \<longleftrightarrow>
     velocity s \<noteq> None \<and> density s \<noteq> None \<and> pressure s \<noteq> None \<and>
     divergence s \<noteq> None \<and> curl s \<noteq> None \<and> bloom s \<noteq> [] \<and>
     owned (glctx s) (field_targets s @ bloom_targets s) \<and>
     list_all (\<lambda>t. width t = fst (simSize s) \<and> height t = snd (simSize s))
       (field_targets s) \<and>
     formats_ok s"

definition swapped_or_same :: "doubleFBO option \<Rightarrow> doubleFBO option \<Rightarrow> bool" where
  "swapped_or_same a c \<longleftrightarrow> c = a \<or> c = map_option swap a"

definition tick_rel :: "sim \<Rightarrow> sim \<Rightarrow> bool" where
  "tick_rel s s' \<longleftrightarrow>
     draws_only (glctx s) (glctx s') \<and>
     swapped_or_same (velocity s) (velocity s') \<and>
     swapped_or_same (density s) (density s') \<and>
     swapped_or_same (pressure s) (pressure s') \<and>
     divergence s' = divergence s \<and> curl s' = curl s \<and> bloom s' = bloom s \<and>
     simSize s' = simSize s \<and> config s' = config s"


section \<open>Basic facts\<close>

declare bloom_loop.simps [simp del]
declare pressure_loop.simps [simp del]

lemma and_then_Inl [simp]: "and_then (Inl e) f = Inl e"
  by (simp add: and_then_def)

lemma and_then_Inr [simp]: "and_then (Inr x) f = f x"
  by (simp add: and_then_def)

lemma and_then_eq_Inr:
  "and_then m f = Inr y \<longleftrightarrow> (\<exists>x. m = Inr x \<and> f x = Inr y)"
  by (cases m) simp_all

lemma createFBO_complete:
  "gl_complete gl w h ifmt \<Longrightarrow>
   createFBO gl w h ifmt fmt ty filt =
     Inr (\<lparr>texture = gl_next gl, fbo = Suc (gl_next gl), width = w, height = h,
           internalFormat = ifmt, format = fmt, pixelType = ty,
           texelSize = (1 / real w, 1 / real h)\<rparr>,
          gl\<lparr>gl_textures := (gl_textures gl)(gl_next gl \<mapsto>
                \<lparr>tex_width = w, tex_height = h, tex_internalFormat = ifmt,
                 tex_filter = filt,
                 tex_data = (\<lambda>i j. store_format ifmt (0, 0, 0, 0))\<rparr>),
             gl_framebuffers := (gl_framebuffers gl)(Suc (gl_next gl) \<mapsto> gl_next gl),
             gl_next := Suc (Suc (gl_next gl))\<rparr>)"
  by (simp add: createFBO_def createTexture_def assignTexelSize_def Let_def)

lemma createFBO_Inr:
  assumes "createFBO gl w h ifmt fmt ty filt = Inr (t, gl1)"
  shows "gl_complete gl w h ifmt"
    and "t = \<lparr>texture = gl_next gl, fbo = Suc (gl_next gl), width = w, height = h,
              internalFormat = ifmt, format = fmt, pixelType = ty,
              texelSize = (1 / real w, 1 / real h)\<rparr>"
    and "gl1 = gl\<lparr>gl_textures := (gl_textures gl)(gl_next gl \<mapsto>
                \<lparr>tex_width = w, tex_height = h, tex_internalFormat = ifmt,
                 tex_filter = filt,
                 tex_data = (\<lambda>i j. store_format ifmt (0, 0, 0, 0))\<rparr>),
             gl_framebuffers := (gl_framebuffers gl)(Suc (gl_next gl) \<mapsto> gl_next gl),
             gl_next := Suc (Suc (gl_next gl))\<rparr>"
  using assms
  by (auto simp: createFBO_def createTexture_def assignTexelSize_def Let_def
           split: if_splits)

text \<open>The example simulation is what the constructor returns on the example context.\<close>

lemma example_sim_constructed:
  "FluidSimulation example_gl0 DEFAULT_CONFIG (\<lambda>n. 0) = Inr example_sim"
  apply (simp add: FluidSimulation_def randomColor_def Math_random_def hsvToRgb_def
      example_gl0_def DEFAULT_CONFIG_def resize_def ensureDimension_def Let_def
      resizeDouble_def resizeSingle_def createDoubleFBO_def createFBO_complete
      setupBloomBuffers_def)
  apply (subst bloom_loop.simps)
  apply (simp add: createFBO_complete ensureDimension_def Let_def example_sim_def
      example_gl_def example_gl0_def example_target_def example_texture_def
      example_velocity_def example_density_def example_pressure_def DEFAULT_CONFIG_def)
  apply (intro conjI ext)
   apply (auto simp: numeral_eq_Suc)
  done

subsection \<open>Allocation succeeds on a driver that completes every framebuffer\<close>

lemma createFBO_all_complete:
  assumes "all_complete gl"
  shows "\<exists>t gl1. createFBO gl w h ifmt fmt ty filt = Inr (t, gl1) \<and> all_complete gl1"
  using assms by (simp add: createFBO_complete all_complete_def)

lemma createDoubleFBO_all_complete:
  assumes "all_complete gl"
  shows "\<exists>d gl1. createDoubleFBO gl w h ifmt fmt ty filt = Inr (d, gl1) \<and> all_complete gl1"
proof -
  obtain t gl1 where 1: "createFBO gl w h ifmt fmt ty filt = Inr (t, gl1)" "all_complete gl1"
    using createFBO_all_complete [OF assms] by blast
  obtain u gl2 where 2: "createFBO gl1 w h ifmt fmt ty filt = Inr (u, gl2)" "all_complete gl2"
    using createFBO_all_complete [OF 1(2)] by blast
  show ?thesis by (simp add: createDoubleFBO_def 1 2)
qed

lemma resizeFBO_all_complete:
  "all_complete gl \<Longrightarrow> all_complete (snd (resizeFBO gl t w h))"
  by (auto simp: resizeFBO_def all_complete_def split: option.splits)

lemma deleteFBO_all_complete:
  "all_complete gl \<Longrightarrow> all_complete (deleteFBO gl t)"
  by (simp add: deleteFBO_def all_complete_def split: option.splits)

lemma resizeDouble_all_complete:
  assumes "all_complete gl"
  shows "\<exists>d gl1. resizeDouble gl fld w h ifmt fmt filt = Inr (d, gl1) \<and> all_complete gl1"
proof (cases fld)
  case None
  then show ?thesis
    using createDoubleFBO_all_complete [OF assms] by (simp add: resizeDouble_def)
next
  case (Some d)
  obtain r1 gl1 where 1: "resizeFBO gl (readFBO d) w h = (r1, gl1)"
    by (cases "resizeFBO gl (readFBO d) w h")
  obtain w1 gl2 where 2: "resizeFBO gl1 (writeFBO d) w h = (w1, gl2)"
    by (cases "resizeFBO gl1 (writeFBO d) w h")
  have "all_complete gl1"
    using resizeFBO_all_complete [OF assms, of "readFBO d" w h] 1 by simp
  then have "all_complete gl2"
    using resizeFBO_all_complete [of gl1 "writeFBO d" w h] 2 by simp
  then show ?thesis by (simp add: resizeDouble_def Some 1 2)
qed

lemma resizeSingle_all_complete:
  assumes "all_complete gl"
  shows "\<exists>t gl1. resizeSingle gl fld w h = Inr (t, gl1) \<and> all_complete gl1"
proof (cases fld)
  case None
  then show ?thesis
    using createFBO_all_complete [OF assms] by (simp add: resizeSingle_def)
next
  case (Some t)
  then show ?thesis
    using resizeFBO_all_complete [OF assms, of t w h]
    by (cases "resizeFBO gl t w h") (simp add: resizeSingle_def)
qed

lemma bloom_loop_all_complete:
  "all_complete gl \<Longrightarrow>
   \<exists>levs gl1. bloom_loop i n w h gl acc = Inr (levs, gl1) \<and> all_complete gl1"
proof (induction i n w h gl acc rule: bloom_loop.induct)
  case (1 i levels w h gl acc)
  show ?case
  proof (cases "i < levels")
    case False
    then show ?thesis using "1.prems" by (subst bloom_loop.simps) simp
  next
    case True
    obtain t gl1 where a: "createFBO gl w h RGBA16F RGBA HALF_FLOAT LINEAR = Inr (t, gl1)"
      "all_complete gl1"
      using createFBO_all_complete [OF "1.prems"] by blast
    obtain u gl2 where b: "createFBO gl1 w h RGBA16F RGBA HALF_FLOAT LINEAR = Inr (u, gl2)"
      "all_complete gl2"
      using createFBO_all_complete [OF a(2)] by blast
    show ?thesis
    proof (cases "ensureDimension (real w / 2) = 2 \<or> ensureDimension (real h / 2) = 2")
      case stop: True
      then show ?thesis
        using True a b by (subst bloom_loop.simps) (simp add: Let_def)
    next
      case go: False
      have "\<exists>levs gl1. bloom_loop (i + 1) levels (ensureDimension (real w / 2))
               (ensureDimension (real h / 2)) gl2 (acc @ [\<lparr>buffer = t, temp = u\<rparr>])
             = Inr (levs, gl1) \<and> all_complete gl1"
        using "1.IH" [OF True a(1) refl b(1) refl refl refl refl _ b(2)] go by simp
      then show ?thesis
        using True a b go by (subst bloom_loop.simps) (simp add: Let_def)
    qed
  qed
qed

lemma foldl_delete_all_complete:
  "all_complete gl \<Longrightarrow>
   all_complete (foldl (\<lambda>gl level. deleteFBO (deleteFBO gl (Some (buffer level)))
                                      (Some (temp level))) gl ls)"
  by (induction ls arbitrary: gl) (simp_all add: deleteFBO_all_complete)

lemma setupBloomBuffers_all_complete:
  assumes "all_complete (glctx s)"
  shows "\<exists>s'. setupBloomBuffers s a c = Inr s' \<and> all_complete (glctx s')"
proof -
  let ?gl0 = "foldl (\<lambda>gl level. deleteFBO (deleteFBO gl (Some (buffer level)))
                                   (Some (temp level))) (glctx s) (bloom s)"
  have "all_complete ?gl0" using assms by (rule foldl_delete_all_complete)
  from bloom_loop_all_complete [OF this]
  obtain levs gl1 where
    "bloom_loop 0 (max 1 (bloomLevels (config s))) (ensureDimension (real a / 2))
       (ensureDimension (real c / 2)) ?gl0 [] = Inr (levs, gl1)" "all_complete gl1"
    by blast
  then show ?thesis by (simp add: setupBloomBuffers_def Let_def)
qed

lemma setupBloomBuffers_fields:
  assumes "setupBloomBuffers s a c = Inr s'"
  shows "config s' = config s" "velocity s' = velocity s" "density s' = density s"
    "pressure s' = pressure s" "divergence s' = divergence s" "curl s' = curl s"
    "simSize s' = simSize s" "canvasSize s' = canvasSize s" "autoTimer s' = autoTimer s"
    "colorCycleTimer s' = colorCycleTimer s" "lastPointerColor s' = lastPointerColor s"
    "random s' = random s"
  using assms by (auto simp: setupBloomBuffers_def Let_def split: sum.splits)

lemma resize_all_complete:
  assumes "all_complete (glctx s)" and "texelDownsample (config s) \<noteq> 0"
  shows "\<exists>s'. resize s w h = Inr s' \<and> all_complete (glctx s')"
proof -
  let ?sw = "ensureDimension (real w / texelDownsample (config s))"
  let ?sh = "ensureDimension (real h / texelDownsample (config s))"
  show ?thesis
  proof (cases "fst (simSize s) = ?sw \<and> snd (simSize s) = ?sh")
    case True
    then show ?thesis using assms by (simp add: resize_def Let_def)
  next
    case False
    let ?s1 = "s\<lparr>canvasSize := (w, h), simSize := (?sw, ?sh)\<rparr>"
    obtain vel gl1 where
      1: "resizeDouble (glctx s) (velocity s) ?sw ?sh RG16F RG LINEAR = Inr (vel, gl1)"
      "all_complete gl1"
      using resizeDouble_all_complete [OF assms(1)] by blast
    obtain den gl2 where
      2: "resizeDouble gl1 (density s) ?sw ?sh RGBA16F RGBA LINEAR = Inr (den, gl2)"
      "all_complete gl2"
      using resizeDouble_all_complete [OF 1(2)] by blast
    obtain prs gl3 where
      3: "resizeDouble gl2 (pressure s) ?sw ?sh R16F RED NEAREST = Inr (prs, gl3)"
      "all_complete gl3"
      using resizeDouble_all_complete [OF 2(2)] by blast
    obtain dv gl4 where
      4: "resizeSingle gl3 (divergence s) ?sw ?sh = Inr (dv, gl4)" "all_complete gl4"
      using resizeSingle_all_complete [OF 3(2)] by blast
    obtain cu gl5 where
      5: "resizeSingle gl4 (curl s) ?sw ?sh = Inr (cu, gl5)" "all_complete gl5"
      using resizeSingle_all_complete [OF 4(2)] by blast
    let ?s2 = "?s1\<lparr>glctx := gl5, velocity := Some vel, density := Some den,
                     pressure := Some prs, divergence := Some dv, curl := Some cu\<rparr>"
    have "all_complete (glctx ?s2)" using 5 by simp
    from setupBloomBuffers_all_complete [OF this, of w w]
    obtain s' where "setupBloomBuffers ?s2 w w = Inr s'" "all_complete (glctx s')" by blast
    then show ?thesis
      using False assms 1 2 3 4 5 by (auto simp: resize_def Let_def)
  qed
qed

subsection \<open>What a resize returns\<close>

lemma resize_Inr:
  assumes "resize s w h = Inr s'"
  shows "texelDownsample (config s) \<noteq> 0"
    and "config s' = config s"
    and "canvasSize s' = (w, h)"
    and "simSize s' = (ensureDimension (real w / texelDownsample (config s)),
                       ensureDimension (real h / texelDownsample (config s)))"
proof -
  show d: "texelDownsample (config s) \<noteq> 0"
    using assms by (auto simp: resize_def Let_def split: if_splits)
  let ?sw = "ensureDimension (real w / texelDownsample (config s))"
  let ?sh = "ensureDimension (real h / texelDownsample (config s))"
  have "config s' = config s \<and> canvasSize s' = (w, h) \<and> simSize s' = (?sw, ?sh)"
  proof (cases "fst (simSize s) = ?sw \<and> snd (simSize s) = ?sh")
    case True
    then have "s' = s\<lparr>canvasSize := (w, h)\<rparr>"
      using assms d by (simp add: resize_def Let_def)
    then show ?thesis using True by (simp add: prod_eq_iff)
  next
    case False
    then obtain s2 where s2: "setupBloomBuffers s2 w w = Inr s'"
       "config s2 = config s" "canvasSize s2 = (w, h)" "simSize s2 = (?sw, ?sh)"
      using assms d
      by (auto simp: resize_def Let_def and_then_eq_Inr)
    show ?thesis using setupBloomBuffers_fields [OF s2(1)] s2 by simp
  qed
  then show "config s' = config s" "canvasSize s' = (w, h)" "simSize s' = (?sw, ?sh)"
    by simp_all
qed

lemma resize_same_size:
  assumes "texelDownsample (config s) \<noteq> 0"
    and "simSize s = (ensureDimension (real w / texelDownsample (config s)),
                      ensureDimension (real h / texelDownsample (config s)))"
  shows "resize s w h = Inr (s\<lparr>canvasSize := (w, h)\<rparr>)"
  using assms by (simp add: resize_def Let_def)

lemma resize_twice:
  assumes "resize s w h = Inr s'"
  shows "resize s' w h = Inr s'"
proof -
  note r = resize_Inr [OF assms]
  have "resize s' w h = Inr (s'\<lparr>canvasSize := (w, h)\<rparr>)"
    using r by (intro resize_same_size) simp_all
  moreover have "s'\<lparr>canvasSize := (w, h)\<rparr> = s'" using r(3) by simp
  ultimately show ?thesis by simp
qed

subsection \<open>The double-buffered fields of a reachable simulation\<close>
lemma swap_simps [simp]:
  "readFBO (swap d) = writeFBO d" "writeFBO (swap d) = readFBO d" "swap (swap d) = d"
  by (simp_all add: swap_def Let_def)

lemma double_ok_swap [simp]: "double_ok (swap d) = double_ok d"
  by (auto simp: double_ok_def distinct_grids_def same_spec_def)

lemma createDoubleFBO_ok:
  assumes "createDoubleFBO gl w h ifmt fmt ty filt = Inr (d, gl')"
  shows "double_ok d" "width (readFBO d) = w" "height (readFBO d) = h"
    "internalFormat (readFBO d) = ifmt" "format (readFBO d) = fmt"
proof -
  obtain t gl1 u where 1: "createFBO gl w h ifmt fmt ty filt = Inr (t, gl1)"
    and 2: "createFBO gl1 w h ifmt fmt ty filt = Inr (u, gl')"
    and d: "d = \<lparr>readFBO = t, writeFBO = u\<rparr>"
    using assms by (auto simp: createDoubleFBO_def split: sum.splits)
  note a = createFBO_Inr(2,3) [OF 1] and b = createFBO_Inr(2) [OF 2]
  have n: "gl_next gl1 = Suc (Suc (gl_next gl))" by (simp add: a(2))
  show "double_ok d" "width (readFBO d) = w" "height (readFBO d) = h"
    "internalFormat (readFBO d) = ifmt" "format (readFBO d) = fmt"
    by (simp_all add: d a(1) b n double_ok_def distinct_grids_def same_spec_def texel_ok_def)
qed

lemma resizeFBO_target:
  assumes "resizeFBO gl t w h = (t', gl')" "texel_ok t"
  shows "texture t' = texture t" "fbo t' = fbo t" "width t' = w" "height t' = h"
    "internalFormat t' = internalFormat t" "format t' = format t" "pixelType t' = pixelType t"
    "texelSize t' = (1 / real w, 1 / real h)"
  using assms by (auto simp: resizeFBO_def assignTexelSize_def texel_ok_def split: if_splits)

lemma resizeDouble_ok:
  assumes "resizeDouble gl fld w h ifmt fmt filt = Inr (d, gl')"
    and "case fld of None \<Rightarrow> True | Some d0 \<Rightarrow> double_ok d0"
  shows "double_ok d"
proof (cases fld)
  case None
  then show ?thesis using assms(1) createDoubleFBO_ok(1) by (simp add: resizeDouble_def)
next
  case (Some d0)
  obtain r1 gl1 where 1: "resizeFBO gl (readFBO d0) w h = (r1, gl1)" by (cases "resizeFBO gl (readFBO d0) w h")
  obtain w1 gl2 where 2: "resizeFBO gl1 (writeFBO d0) w h = (w1, gl2)" by (cases "resizeFBO gl1 (writeFBO d0) w h")
  have ok: "double_ok d0" using assms(2) Some by simp
  have d: "d = d0\<lparr>readFBO := r1, writeFBO := w1\<rparr>"
    using assms(1) by (simp add: resizeDouble_def Some 1 2)
  have "texel_ok (readFBO d0)" "texel_ok (writeFBO d0)" using ok by (simp_all add: double_ok_def)
  note a = resizeFBO_target [OF 1 this(1)] and b = resizeFBO_target [OF 2 this(2)]
  show ?thesis
    using ok a b by (simp add: d double_ok_def distinct_grids_def same_spec_def texel_ok_def)
qed

lemma resize_fields_ok:
  assumes "resize s w h = Inr s'" "fields_ok s"
  shows "fields_ok s'"
proof -
  have d: "texelDownsample (config s) \<noteq> 0"
    using assms by (auto simp: resize_def Let_def split: if_splits)
  let ?sw = "ensureDimension (real w / texelDownsample (config s))"
  let ?sh = "ensureDimension (real h / texelDownsample (config s))"
  show ?thesis
  proof (cases "fst (simSize s) = ?sw \<and> snd (simSize s) = ?sh")
    case True
    then have "s' = s\<lparr>canvasSize := (w, h)\<rparr>"
      using assms d by (simp add: resize_def Let_def)
    then show ?thesis using assms(2) by (simp add: fields_ok_def)
  next
    case False
    then obtain vel gl1 den gl2 prs gl3 s2 where
      1: "resizeDouble (glctx s) (velocity s) ?sw ?sh RG16F RG LINEAR = Inr (vel, gl1)" and
      2: "resizeDouble gl1 (density s) ?sw ?sh RGBA16F RGBA LINEAR = Inr (den, gl2)" and
      3: "resizeDouble gl2 (pressure s) ?sw ?sh R16F RED NEAREST = Inr (prs, gl3)" and
      s2: "setupBloomBuffers s2 w w = Inr s'"
       "velocity s2 = Some vel" "density s2 = Some den" "pressure s2 = Some prs"
      using assms d
      by (auto simp: resize_def Let_def and_then_eq_Inr)
    have "double_ok vel" "double_ok den" "double_ok prs"
      using resizeDouble_ok [OF 1] resizeDouble_ok [OF 2] resizeDouble_ok [OF 3] assms(2)
      by (simp_all add: fields_ok_def)
    then show ?thesis
      using setupBloomBuffers_fields [OF s2(1)] s2 by (simp add: fields_ok_def)
  qed
qed

lemma constructed_fields_ok:
  assumes "FluidSimulation gl cfg rs = Inr s"
  shows "fields_ok s"
proof -
  obtain s0 where "resize s0 (canvas_width gl) (canvas_height gl) = Inr s" "fields_ok s0"
    using assms
    by (auto simp: FluidSimulation_def fields_ok_def split: if_splits prod.splits)
  then show ?thesis by (rule resize_fields_ok)
qed

lemma blit_quadVAO:
  "blit gl t f = Inr gl1 \<Longrightarrow> quadVAO gl \<and> quadVAO gl1"
  by (auto simp: blit_def split: if_splits option.splits)

lemma splat_fields_ok:
  "splat s x y dx dy c = Inr s' \<Longrightarrow> fields_ok s \<Longrightarrow> fields_ok s'"
  by (auto simp: splat_def Let_def and_then_eq_Inr fields_ok_def split: option.splits)

lemma applyPointer_fields_ok:
  "applyPointer s p rc = Inr (s', p') \<Longrightarrow> fields_ok s \<Longrightarrow> fields_ok s'"
  by (auto simp: applyPointer_def Let_def and_then_eq_Inr fields_ok_def
      split: if_splits prod.splits dest!: splat_fields_ok [unfolded fields_ok_def])

lemma applyPointers_fields_ok:
  "applyPointers s ps rc = Inr (s', ps') \<Longrightarrow> fields_ok s \<Longrightarrow> fields_ok s'"
proof (induction ps arbitrary: s s' ps')
  case Nil
  then show ?case by simp
next
  case (Cons p ps)
  then show ?case
    by (auto simp: and_then_eq_Inr dest: applyPointer_fields_ok)
qed

lemma advectVelocity_fields_ok:
  "advectVelocity s dt = Inr s' \<Longrightarrow> fields_ok s \<Longrightarrow> fields_ok s'"
  by (auto simp: advectVelocity_def and_then_eq_Inr fields_ok_def split: option.splits)

lemma advectDye_fields_ok:
  "advectDye s dt = Inr s' \<Longrightarrow> fields_ok s \<Longrightarrow> fields_ok s'"
  by (auto simp: advectDye_def and_then_eq_Inr fields_ok_def split: option.splits)

lemma applyVorticity_fields_ok:
  "applyVorticity s dt = Inr s' \<Longrightarrow> fields_ok s \<Longrightarrow> fields_ok s'"
  by (auto simp: applyVorticity_def and_then_eq_Inr fields_ok_def split: option.splits)

lemma computeDivergence_fields_ok:
  "computeDivergence s = Inr s' \<Longrightarrow> fields_ok s \<Longrightarrow> fields_ok s'"
  by (auto simp: computeDivergence_def and_then_eq_Inr fields_ok_def split: option.splits)

lemma subtractPressureGradient_fields_ok:
  "subtractPressureGradient s = Inr s' \<Longrightarrow> fields_ok s \<Longrightarrow> fields_ok s'"
  by (auto simp: subtractPressureGradient_def and_then_eq_Inr fields_ok_def split: option.splits)

lemma pressure_loop_swaps:
  "pressure_loop i n gl p dv = Inr (p', gl') \<Longrightarrow> p' = (swap ^^ nat (n - i)) p"
proof (induction i n gl p dv rule: pressure_loop.induct)
  case (1 i n gl prs dv)
  show ?case
  proof (cases "i < n")
    case False
    then show ?thesis using "1.prems" by (subst (asm) pressure_loop.simps) simp
  next
    case True
    then obtain d gl1 where dv: "dv = Some d"
      and b: "blit gl (Some (writeFBO prs))
                (pressureShader (texture2D gl (texture (readFBO prs)))
                   (texture2D gl (texture d)) (texelSize (readFBO prs))) = Inr gl1"
      and r: "pressure_loop (i + 1) n gl1 (swap prs) dv = Inr (p', gl')"
      using "1.prems"
      by (subst (asm) pressure_loop.simps) (auto split: option.splits sum.splits)
    have "p' = (swap ^^ nat (n - (i + 1))) (swap prs)"
      using "1.IH" [OF True dv b r] .
    moreover have "nat (n - i) = Suc (nat (n - (i + 1)))" using True by simp
    ultimately show ?thesis by (simp add: funpow_swap1)
  qed
qed

lemma double_ok_funpow_swap [simp]: "double_ok ((swap ^^ k) d) = double_ok d"
  by (induction k) simp_all

lemma solvePressure_fields_ok:
  "solvePressure s = Inr s' \<Longrightarrow> fields_ok s \<Longrightarrow> fields_ok s'"
  by (auto simp: solvePressure_def and_then_eq_Inr fields_ok_def split: option.splits
      dest!: pressure_loop_swaps)

lemma step_fields_ok:
  assumes "step s dt ps = Inr (s', ps')" "fields_ok s"
  shows "fields_ok s'"
proof (cases "paused (config s)")
  case True
  then show ?thesis using assms by (simp add: step_def)
next
  case False
  let ?s1 = "s\<lparr>autoTimer := autoTimer s + dt, colorCycleTimer := colorCycleTimer s + dt\<rparr>"
  let ?rc = "cycleColors (config s) \<and> colorCycleTimer s + dt > colorCycleSpeed (config s)"
  let ?s2 = "if ?rc then ?s1\<lparr>colorCycleTimer := 0\<rparr> else ?s1"
  obtain s3 ps1 s4 s5 s6 s7 s8 where
    a: "applyPointers ?s2 ps ?rc = Inr (s3, ps1)" and
    b: "advectVelocity s3 (min dt (16 / 1000)) = Inr s4" and
    c: "applyVorticity s4 (min dt (16 / 1000)) = Inr s5" and
    d: "computeDivergence s5 = Inr s6" and
    e: "solvePressure s6 = Inr s7" and
    f: "subtractPressureGradient s7 = Inr s8" and
    g: "advectDye s8 (min dt (16 / 1000)) = Inr s'"
    using assms(1) False
    by (auto simp: step_def Let_def and_then_eq_Inr split: if_splits)
  have "fields_ok ?s2" using assms(2) by (simp add: fields_ok_def)
  from applyPointers_fields_ok [OF a this] have "fields_ok s3" .
  from advectVelocity_fields_ok [OF b this] have "fields_ok s4" .
  from applyVorticity_fields_ok [OF c this] have "fields_ok s5" .
  from computeDivergence_fields_ok [OF d this] have "fields_ok s6" .
  from solvePressure_fields_ok [OF e this] have "fields_ok s7" .
  from subtractPressureGradient_fields_ok [OF f this] have "fields_ok s8" .
  from advectDye_fields_ok [OF g this] show ?thesis .
qed

lemma runBloom_fields:
  "runBloom s = Inr (t, s') \<Longrightarrow> \<exists>g. s' = s\<lparr>glctx := g\<rparr>"
  by (auto simp: runBloom_def and_then_eq_Inr split: option.splits list.splits
      intro: exI [of _ "glctx s"])

lemma render_fields:
  assumes "render s = Inr s'"
  shows "\<exists>g. s' = s\<lparr>glctx := g\<rparr>"
proof -
  obtain bt s1 where 1: "(if enableBloom (config s) \<and> length (bloom s) > 0
               then and_then (runBloom s) (\<lambda>(t, s1). Inr (Some t, s1))
               else Inr (None, s)) = Inr (bt, s1)"
    and 2: "(case density s1 of
       None \<Rightarrow> Inl TypeError
     | Some den \<Rightarrow>
         and_then (blit (glctx s1) None
                     (displayShader (texture2D (glctx s1) (texture (readFBO den)))
                        (texture2D (glctx s1)
                           (case bt of
                              None \<Rightarrow> texture (readFBO den)
                            | Some t \<Rightarrow> t))
                        (enableBloom (config s1)) (bloomIntensity (config s1))
                        (gamma (config s1)) (exposure (config s1)))) (\<lambda>gl1.
         Inr (s1\<lparr>glctx := gl1\<rparr>))) = Inr s'"
    using assms unfolding render_def and_then_eq_Inr by auto
  from 1 have "\<exists>g. s1 = s\<lparr>glctx := g\<rparr>"
    by (auto split: if_splits simp: and_then_eq_Inr dest!: runBloom_fields
        intro: exI [of _ "glctx s"])
  moreover from 2 have "\<exists>g. s' = s1\<lparr>glctx := g\<rparr>"
    by (auto split: option.splits simp: and_then_eq_Inr)
  ultimately show ?thesis by auto
qed

lemma render_fields_ok:
  "render s = Inr s' \<Longrightarrow> fields_ok s \<Longrightarrow> fields_ok s'"
  by (auto simp: fields_ok_def dest!: render_fields)

lemma reachable_fields_ok: "reachable s \<Longrightarrow> fields_ok s"
proof (induction rule: reachable.induct)
  case (constructed gl cfg rs s)
  then show ?case by (rule constructed_fields_ok)
next
  case (resized s w h s')
  then show ?case by (auto intro: resize_fields_ok)
next
  case (stepped s dt ps s' ps')
  then show ?case by (auto intro: step_fields_ok)
next
  case (rendered s s')
  then show ?case by (auto intro: render_fields_ok)
next
  case (configured s cfg)
  then show ?case by (simp add: fields_ok_def updateConfig_def)
qed

subsection \<open>Impulses that are skipped\<close>

lemma applyPointer_zero: "delta p = (0, 0) \<Longrightarrow> applyPointer s p rc = Inr (s, p)"
  by (simp add: applyPointer_def)

lemma applyPointers_skip:
  assumes "delta p = (0, 0)"
  shows "map_sum id fst (applyPointers s (ps @ p # qs) rc)
       = map_sum id fst (applyPointers s (ps @ qs) rc)"
proof (induction ps arbitrary: s)
  case Nil
  show ?case
    by (cases "applyPointers s qs rc") (auto simp: applyPointer_zero [OF assms])
next
  case (Cons a ps)
  show ?case
  proof (cases "applyPointer s a rc")
    case (Inl e)
    then show ?thesis by simp
  next
    case (Inr r)
    obtain s1 a1 where r: "r = (s1, a1)" by (cases r)
    from Cons.IH [of s1] show ?thesis
      by (cases "applyPointers s1 (ps @ p # qs) rc"; cases "applyPointers s1 (ps @ qs) rc")
         (auto simp: Inr r)
  qed
qed

lemma step_state:
  "map_sum id fst (step s dt ps) =
     (if paused (config s) then Inr s
      else and_then (map_sum id fst (applyPointers
              (if cycleColors (config s) \<and> colorCycleTimer s + dt > colorCycleSpeed (config s)
               then s\<lparr>autoTimer := autoTimer s + dt, colorCycleTimer := 0\<rparr>
               else s\<lparr>autoTimer := autoTimer s + dt,
                      colorCycleTimer := colorCycleTimer s + dt\<rparr>)
              ps
              (cycleColors (config s) \<and> colorCycleTimer s + dt > colorCycleSpeed (config s))))
           (\<lambda>s3. and_then (advectVelocity s3 (min dt (16 / 1000))) (\<lambda>s4.
            and_then (applyVorticity s4 (min dt (16 / 1000))) (\<lambda>s5.
            and_then (computeDivergence s5) (\<lambda>s6.
            and_then (solvePressure s6) (\<lambda>s7.
            and_then (subtractPressureGradient s7) (\<lambda>s8.
            advectDye s8 (min dt (16 / 1000)))))))))"
  apply (simp add: step_def Let_def)
  apply (auto simp: and_then_def split: sum.splits)
  done

section \<open>A paused tick\<close>

text \<open>
  C3. When \<^verbatim>\<open>config.paused\<close> is set, \<^verbatim>\<open>step\<close> returns at once, whatever the time
  step and the list of impulses: the simulation after the call is the simulation before
  it, so every field (velocity, dye, pressure, divergence, curl) and every texel of the
  context is the same, and nothing of the impulses is kept in it for a later tick. The
  impulse records come back as they were passed.
\<close>

theorem step_paused:
  assumes "paused (config s)"
  shows "step s dt ps = Inr (s, ps)"
  using assms by (simp add: step_def)

theorem step_paused_witness:
  "paused (config (updateConfig example_sim (DEFAULT_CONFIG\<lparr>paused := True\<rparr>))) \<and>
   step (updateConfig example_sim (DEFAULT_CONFIG\<lparr>paused := True\<rparr>)) (1 / 60)
        [example_pointer]
     = Inr (updateConfig example_sim (DEFAULT_CONFIG\<lparr>paused := True\<rparr>),
            [example_pointer])"
proof -
  have p: "paused (config (updateConfig example_sim (DEFAULT_CONFIG\<lparr>paused := True\<rparr>)))"
    by (simp add: updateConfig_def)
  show ?thesis
    using p step_paused [OF p, of "1 / 60" "[example_pointer]"] by simp
qed


section \<open>Impulses with a zero delta\<close>

text \<open>
  C5. An impulse whose delta is exactly \<open>(0, 0)\<close> is returned from \<^verbatim>\<open>applyPointer\<close>
  before any splat pass: the simulation (its velocity and dye fields and every texel of
  the context) and the record are unchanged. In a tick, the simulation after
  \<^verbatim>\<open>step\<close> is the same with such an impulse in the list as without it.
\<close>

theorem zero_delta_noop:
  assumes "delta p = (0, 0)"
  shows "applyPointer s p rc = Inr (s, p) \<and>
         map_sum id fst (step s dt (ps @ p # qs)) = map_sum id fst (step s dt (ps @ qs))"
  using assms by (simp add: applyPointer_zero step_state applyPointers_skip)

theorem zero_delta_noop_witness:
  "delta (example_pointer\<lparr>delta := (0, 0)\<rparr>) = (0, 0) \<and>
   applyPointer example_sim (example_pointer\<lparr>delta := (0, 0)\<rparr>) True
     = Inr (example_sim, example_pointer\<lparr>delta := (0, 0)\<rparr>) \<and>
   map_sum id fst (step example_sim (1 / 60)
                     ([example_pointer] @ example_pointer\<lparr>delta := (0, 0)\<rparr> # []))
     = map_sum id fst (step example_sim (1 / 60) ([example_pointer] @ []))"
proof -
  have z: "delta (example_pointer\<lparr>delta := (0, 0)\<rparr>) = (0, 0)" by simp
  show ?thesis
    using z zero_delta_noop [OF z, of example_sim True "1 / 60" "[example_pointer]" "[]"]
    by simp
qed


section \<open>Resizing\<close>

text \<open>
  C7. \<^verbatim>\<open>resize(w, h)\<close> computes the simulation dimensions
  \<open>max 2 \<lfloor>w / texelDownsample\<rfloor>\<close> and \<open>max 2 \<lfloor>h / texelDownsample\<rfloor>\<close>. When they are the
  current ones it changes nothing but the recorded canvas size: no field is reallocated
  or resized. A second call with the same arguments returns the simulation unchanged, so
  every resource handle is the same. On a driver that completes every framebuffer, with
  a non-zero \<^verbatim>\<open>texelDownsample\<close>, the call returns.
\<close>

theorem resize_idempotent:
  "(all_complete (glctx s) \<and> texelDownsample (config s) \<noteq> 0 \<longrightarrow>
      (\<exists>s'. resize s w h = Inr s')) \<and>
   (\<forall>s'. resize s w h = Inr s' \<longrightarrow>
      simSize s' = (nat (max 2 \<lfloor>real w / texelDownsample (config s)\<rfloor>),
                    nat (max 2 \<lfloor>real h / texelDownsample (config s)\<rfloor>)) \<and>
      (simSize s = simSize s' \<longrightarrow> s' = s\<lparr>canvasSize := (w, h)\<rparr>) \<and>
      resize s' w h = Inr s')"
proof (intro conjI allI impI)
  assume "all_complete (glctx s) \<and> texelDownsample (config s) \<noteq> 0"
  then show "\<exists>s'. resize s w h = Inr s'"
    using resize_all_complete [of s w h] by blast
next
  fix s' assume r: "resize s w h = Inr s'"
  show "simSize s' = (nat (max 2 \<lfloor>real w / texelDownsample (config s)\<rfloor>),
                      nat (max 2 \<lfloor>real h / texelDownsample (config s)\<rfloor>))"
    using resize_Inr(4) [OF r] by (simp add: ensureDimension_def)
  show "resize s' w h = Inr s'" using r by (rule resize_twice)
  assume "simSize s = simSize s'"
  then have "resize s w h = Inr (s\<lparr>canvasSize := (w, h)\<rparr>)"
    using resize_Inr(1,4) [OF r] by (intro resize_same_size) simp_all
  then show "s' = s\<lparr>canvasSize := (w, h)\<rparr>" using r by simp
qed

theorem resize_idempotent_witness:
  "all_complete (glctx example_sim) \<and> texelDownsample (config example_sim) \<noteq> 0 \<and>
   (\<exists>s'. resize example_sim 12 12 = Inr s' \<and> simSize s' = (4, 4) \<and>
         simSize example_sim \<noteq> simSize s' \<and> resize s' 12 12 = Inr s')"
proof -
  have a: "all_complete (glctx example_sim)"
    by (simp add: all_complete_def example_sim_def example_gl_def example_gl0_def)
  have d: "texelDownsample (config example_sim) = 3"
    by (simp add: example_sim_def DEFAULT_CONFIG_def)
  have sz: "simSize example_sim = (2, 2)" by (simp add: example_sim_def)
  note t = resize_idempotent [of example_sim 12 12]
  from t a d obtain s' where r: "resize example_sim 12 12 = Inr s'" by auto
  with t have "simSize s' = (nat (max 2 \<lfloor>real 12 / texelDownsample (config example_sim)\<rfloor>),
                    nat (max 2 \<lfloor>real 12 / texelDownsample (config example_sim)\<rfloor>))"
      and "resize s' 12 12 = Inr s'"
    by blast+
  then show ?thesis using a d r sz by auto
qed


section \<open>Double-buffered fields\<close>

text \<open>
  C10. For every double-buffered field \<open>d\<close> (velocity, dye, pressure) of a simulation, at
  any time of its life: \<^verbatim>\<open>swap\<close> exchanges the two references and nothing else (it is
  a function of the pair alone, so no texel of the context is read or written), applying
  it twice gives the pair back, and \<^verbatim>\<open>read\<close> and \<^verbatim>\<open>write\<close> are two distinct grids
  (distinct texture and framebuffer names) of the same dimensions and format, before and
  after a swap.
\<close>

theorem double_buffer_swap:
  assumes "reachable s"
    and "velocity s = Some d \<or> density s = Some d \<or> pressure s = Some d"
  shows "readFBO (swap d) = writeFBO d \<and> writeFBO (swap d) = readFBO d \<and>
         swap (swap d) = d \<and>
         distinct_grids (readFBO d) (writeFBO d) \<and> same_spec (readFBO d) (writeFBO d) \<and>
         distinct_grids (readFBO (swap d)) (writeFBO (swap d)) \<and>
         same_spec (readFBO (swap d)) (writeFBO (swap d))"
proof -
  have "fields_ok s" using assms(1) by (rule reachable_fields_ok)
  then have "double_ok d" using assms(2) by (auto simp: fields_ok_def)
  then have "double_ok (swap d)" by simp
  with \<open>double_ok d\<close> show ?thesis by (simp add: double_ok_def)
qed

theorem double_buffer_swap_witness:
  "reachable example_sim \<and>
   (velocity example_sim = Some example_velocity \<or>
    density example_sim = Some example_velocity \<or>
    pressure example_sim = Some example_velocity) \<and>
   readFBO (swap example_velocity) = writeFBO example_velocity \<and>
   writeFBO (swap example_velocity) = readFBO example_velocity \<and>
   swap (swap example_velocity) = example_velocity \<and>
   distinct_grids (readFBO example_velocity) (writeFBO example_velocity) \<and>
   same_spec (readFBO example_velocity) (writeFBO example_velocity)"
proof -
  have r: "reachable example_sim"
    using example_sim_constructed by (rule reachable.constructed)
  have v: "velocity example_sim = Some example_velocity \<or>
    density example_sim = Some example_velocity \<or>
    pressure example_sim = Some example_velocity"
    by (simp add: example_sim_def)
  show ?thesis
    using r v double_buffer_swap [OF r v] by simp
qed

subsection \<open>A tick and a render return\<close>

lemma blit_returns:
  "quadVAO gl \<Longrightarrow> \<exists>gl1. blit gl t f = Inr gl1 \<and> quadVAO gl1"
  by (auto simp: blit_def split: option.splits)

lemma splat_returns:
  assumes "ready s"
  shows "\<exists>s'. splat s x y dx dy c = Inr s' \<and> ready s'"
proof -
  obtain vel den where v: "velocity s = Some vel" "density s = Some den"
    using assms by (auto simp: ready_def)
  have q: "quadVAO (glctx s)" using assms by (simp add: ready_def)
  obtain gl1 where 1: "blit (glctx s) (Some (writeFBO vel))
      (splatShader (texture2D (glctx s) (texture (readFBO vel))) (x, y)
         (splatRadius (config s)) (dx * splatForce (config s), dy * splatForce (config s), 0, 0)
         (real (fst (simSize s)) / real (snd (simSize s)))) = Inr gl1" "quadVAO gl1"
    using blit_returns [OF q] by blast
  obtain gl2 where 2: "blit gl1 (Some (writeFBO den))
      (splatShader (texture2D gl1 (texture (readFBO den))) (x, y)
         (splatRadius (config s)) (case c of (cr, cg, cb) \<Rightarrow> (cr, cg, cb, 1))
         (real (fst (simSize s)) / real (snd (simSize s)))) = Inr gl2" "quadVAO gl2"
    using blit_returns [OF 1(2)] by blast
  show ?thesis using assms v 1 2 by (simp add: splat_def Let_def ready_def)
qed

lemma applyPointer_returns:
  assumes "ready s"
  shows "\<exists>s' p'. applyPointer s p rc = Inr (s', p') \<and> ready s'"
proof (cases "\<not> moved p \<or> \<not> down p \<or> delta p = (0, 0)")
  case True
  then show ?thesis using assms by (auto simp: applyPointer_def Let_def prod_eq_iff)
next
  case False
  let ?s1 = "if rc then s\<lparr>random := snd (randomColor (random s))\<rparr> else s"
  let ?p1 = "if rc then p\<lparr>color := fst (randomColor (random s))\<rparr> else p"
  have "ready ?s1" using assms by (simp add: ready_def)
  from splat_returns [OF this]
  obtain s2 where "splat ?s1 (fst (position ?p1)) (snd (position ?p1)) (fst (delta p)) (snd (delta p)) (color ?p1) = Inr s2"
    "ready s2" by blast
  then show ?thesis using False
    by (auto simp: applyPointer_def Let_def prod_eq_iff split: prod.splits)
qed

lemma applyPointers_returns:
  "ready s \<Longrightarrow> \<exists>s' ps'. applyPointers s ps rc = Inr (s', ps') \<and> ready s'"
proof (induction ps arbitrary: s)
  case Nil
  then show ?case by simp
next
  case (Cons p ps)
  obtain s1 p1 where 1: "applyPointer s p rc = Inr (s1, p1)" "ready s1"
    using applyPointer_returns [OF Cons.prems] by blast
  obtain s2 ps2 where "applyPointers s1 ps rc = Inr (s2, ps2)" "ready s2"
    using Cons.IH [OF 1(2)] by blast
  then show ?case using 1 by simp
qed

lemma advectVelocity_returns:
  assumes "ready s"
  shows "\<exists>s'. advectVelocity s dt = Inr s' \<and> ready s'"
proof -
  obtain vel where v: "velocity s = Some vel" using assms by (auto simp: ready_def)
  have q: "quadVAO (glctx s)" using assms by (simp add: ready_def)
  show ?thesis
    using blit_returns [OF q, of "Some (writeFBO vel)"] assms v
    by (fastforce simp: advectVelocity_def ready_def and_then_eq_Inr)
qed

lemma advectDye_returns:
  assumes "ready s"
  shows "\<exists>s'. advectDye s dt = Inr s' \<and> ready s'"
proof -
  obtain vel den where v: "velocity s = Some vel" "density s = Some den"
    using assms by (auto simp: ready_def)
  have q: "quadVAO (glctx s)" using assms by (simp add: ready_def)
  show ?thesis
    using blit_returns [OF q, of "Some (writeFBO den)"] assms v
    by (fastforce simp: advectDye_def ready_def and_then_eq_Inr)
qed

lemma applyVorticity_returns:
  assumes "ready s"
  shows "\<exists>s'. applyVorticity s dt = Inr s' \<and> ready s'"
proof -
  obtain vel cu where v: "velocity s = Some vel" "curl s = Some cu"
    using assms by (auto simp: ready_def)
  have q: "quadVAO (glctx s)" using assms by (simp add: ready_def)
  obtain gl1 where 1: "blit (glctx s) (curl s)
      (curlShader (texture2D (glctx s) (texture (readFBO vel))) (texelSize (readFBO vel))) = Inr gl1"
      "quadVAO gl1"
    using blit_returns [OF q] by blast
  show ?thesis
    using blit_returns [OF 1(2), of "Some (writeFBO vel)"] assms v 1
    by (fastforce simp: applyVorticity_def ready_def and_then_eq_Inr)
qed

lemma computeDivergence_returns:
  assumes "ready s"
  shows "\<exists>s'. computeDivergence s = Inr s' \<and> ready s'"
proof -
  obtain vel where v: "velocity s = Some vel" using assms by (auto simp: ready_def)
  have q: "quadVAO (glctx s)" using assms by (simp add: ready_def)
  show ?thesis
    using blit_returns [OF q, of "divergence s"] assms v
    by (fastforce simp: computeDivergence_def ready_def and_then_eq_Inr)
qed

lemma pressure_loop_returns:
  "quadVAO gl \<Longrightarrow> dv \<noteq> None \<Longrightarrow>
   \<exists>p' gl'. pressure_loop i n gl p dv = Inr (p', gl') \<and> quadVAO gl'"
proof (induction i n gl p dv rule: pressure_loop.induct)
  case (1 i n gl prs dv)
  show ?case
  proof (cases "i < n")
    case False
    then show ?thesis using "1.prems" by (subst pressure_loop.simps) simp
  next
    case True
    obtain d where dv: "dv = Some d" using "1.prems" by auto
    obtain gl1 where b: "blit gl (Some (writeFBO prs))
                (pressureShader (texture2D gl (texture (readFBO prs)))
                   (texture2D gl (texture d)) (texelSize (readFBO prs))) = Inr gl1" "quadVAO gl1"
      using blit_returns [OF "1.prems"(1)] by blast
    from "1.IH" [OF True dv b(1) b(2) "1.prems"(2)]
    show ?thesis using True dv b by (subst pressure_loop.simps) simp
  qed
qed

lemma solvePressure_returns:
  assumes "ready s"
  shows "\<exists>s'. solvePressure s = Inr s' \<and> ready s'"
proof -
  obtain prs where v: "pressure s = Some prs" using assms by (auto simp: ready_def)
  have q: "quadVAO (glctx s)" and dv: "divergence s \<noteq> None" using assms by (simp_all add: ready_def)
  obtain gl1 where 1: "blit (glctx s) (Some (writeFBO prs))
      (clearShader (texture2D (glctx s) (texture (readFBO prs))) (pressureDecay (config s))) = Inr gl1"
      "quadVAO gl1"
    using blit_returns [OF q] by blast
  obtain p' gl2 where 2: "pressure_loop 0 (pressureIterations (config s)) gl1 (swap prs) (divergence s) = Inr (p', gl2)"
     "quadVAO gl2"
    using pressure_loop_returns [OF 1(2) dv] by blast
  show ?thesis using assms v 1 2 by (simp add: solvePressure_def ready_def)
qed

lemma subtractPressureGradient_returns:
  assumes "ready s"
  shows "\<exists>s'. subtractPressureGradient s = Inr s' \<and> ready s'"
proof -
  obtain vel prs where v: "velocity s = Some vel" "pressure s = Some prs"
    using assms by (auto simp: ready_def)
  have q: "quadVAO (glctx s)" using assms by (simp add: ready_def)
  show ?thesis
    using blit_returns [OF q, of "Some (writeFBO vel)"] assms v
    by (fastforce simp: subtractPressureGradient_def ready_def and_then_eq_Inr)
qed

lemma step_returns:
  assumes "ready s"
  shows "\<exists>s' ps'. step s dt ps = Inr (s', ps') \<and> ready s'"
proof (cases "paused (config s)")
  case True
  then show ?thesis using assms by (simp add: step_def)
next
  case False
  let ?s1 = "s\<lparr>autoTimer := autoTimer s + dt, colorCycleTimer := colorCycleTimer s + dt\<rparr>"
  let ?rc = "cycleColors (config s) \<and> colorCycleTimer s + dt > colorCycleSpeed (config s)"
  let ?s2 = "if ?rc then ?s1\<lparr>colorCycleTimer := 0\<rparr> else ?s1"
  have "ready ?s2" using assms by (simp add: ready_def)
  from applyPointers_returns [OF this] obtain s3 ps1 where
    a: "applyPointers ?s2 ps ?rc = Inr (s3, ps1)" "ready s3" by blast
  from advectVelocity_returns [OF a(2)] obtain s4 where
    b: "advectVelocity s3 (min dt (16 / 1000)) = Inr s4" "ready s4" by blast
  from applyVorticity_returns [OF b(2)] obtain s5 where
    c: "applyVorticity s4 (min dt (16 / 1000)) = Inr s5" "ready s5" by blast
  from computeDivergence_returns [OF c(2)] obtain s6 where
    d: "computeDivergence s5 = Inr s6" "ready s6" by blast
  from solvePressure_returns [OF d(2)] obtain s7 where
    e: "solvePressure s6 = Inr s7" "ready s7" by blast
  from subtractPressureGradient_returns [OF e(2)] obtain s8 where
    f: "subtractPressureGradient s7 = Inr s8" "ready s8" by blast
  from advectDye_returns [OF f(2)] obtain s9 where
    g: "advectDye s8 (min dt (16 / 1000)) = Inr s9" "ready s9" by blast
  show ?thesis
    using False a b c d e f g by (auto simp: step_def Let_def)
qed

lemma applyPointer_pointer:
  assumes "applyPointer s p rc = Inr (s', p')"
  shows "pointer_step True rc p p'"
  using assms
  by (auto simp: applyPointer_def Let_def pointer_step_def and_then_eq_Inr prod_eq_iff
      split: if_splits prod.splits)

lemma applyPointers_pointers:
  "applyPointers s ps rc = Inr (s', ps') \<Longrightarrow> list_all2 (pointer_step True rc) ps ps'"
proof (induction ps arbitrary: s s' ps')
  case Nil
  then show ?case by simp
next
  case (Cons p ps)
  then show ?case
    by (auto simp: and_then_eq_Inr dest: applyPointer_pointer)
qed

lemma step_pointers:
  assumes "step s dt ps = Inr (s', ps')"
  shows "list_all2 (pointer_step (\<not> paused (config s))
           (cycleColors (config s) \<and> colorCycleTimer s + dt > colorCycleSpeed (config s))) ps ps'"
proof (cases "paused (config s)")
  case True
  then have "ps' = ps" using assms by (simp add: step_def)
  then show ?thesis using True by (simp add: list_all2_same pointer_step_def)
next
  case False
  let ?s1 = "s\<lparr>autoTimer := autoTimer s + dt, colorCycleTimer := colorCycleTimer s + dt\<rparr>"
  let ?rc = "cycleColors (config s) \<and> colorCycleTimer s + dt > colorCycleSpeed (config s)"
  let ?s2 = "if ?rc then ?s1\<lparr>colorCycleTimer := 0\<rparr> else ?s1"
  obtain s3 where "applyPointers ?s2 ps ?rc = Inr (s3, ps')"
    using assms False
    by (auto simp: step_def Let_def and_then_eq_Inr split: if_splits)
  from applyPointers_pointers [OF this] show ?thesis using False by simp
qed

lemma ready_example: "ready example_sim"
  by (simp add: ready_def example_sim_def example_gl_def example_gl0_def)

lemma displayShader_presented:
  "displayShader uTexture uBloom en k gam expo uv
     = presented (rgb (uTexture uv)) (rgb (uBloom uv)) en k gam expo"
proof -
  obtain a b c d where t: "uTexture uv = (a, b, c, d)" by (cases "uTexture uv")
  obtain e f g h where u: "uBloom uv = (e, f, g, h)" by (cases "uBloom uv")
  show ?thesis
    by (simp add: displayShader_def presented_def toneMap_def Let_def t u)
qed

lemma bloom_downsample_returns:
  "quadVAO gl \<Longrightarrow> \<exists>gl1. bloom_downsample gl prev ls = Inr gl1 \<and> quadVAO gl1"
proof (induction ls arbitrary: gl prev)
  case Nil
  then show ?case by simp
next
  case (Cons l ls)
  obtain gl1 where 1: "copyTexture gl (buffer l) (texture prev) = Inr gl1" "quadVAO gl1"
    using blit_returns [OF Cons.prems] unfolding copyTexture_def by blast
  show ?case using Cons.IH [OF 1(2)] 1 by simp
qed

lemma bloom_blur_returns:
  "quadVAO gl \<Longrightarrow> \<exists>gl1. bloom_blur gl ls = Inr gl1 \<and> quadVAO gl1"
proof (induction ls arbitrary: gl)
  case Nil
  then show ?case by simp
next
  case (Cons l ls)
  obtain gl1 where 1: "blit gl (Some (temp l))
                 (bloomBlurShader (texture2D gl (texture (buffer l))) (1, 0)
                    (texelSize (buffer l))) = Inr gl1" "quadVAO gl1"
    using blit_returns [OF Cons.prems] by blast
  obtain gl2 where 2: "blit gl1 (Some (buffer l))
                 (bloomBlurShader (texture2D gl1 (texture (temp l))) (0, 1)
                    (texelSize (buffer l))) = Inr gl2" "quadVAO gl2"
    using blit_returns [OF 1(2)] by blast
  show ?case using Cons.IH [OF 2(2)] 1 2 by simp
qed

lemma bloom_combine_returns:
  "quadVAO gl \<Longrightarrow> \<exists>gl1. bloom_combine gl cur ls = Inr gl1 \<and> quadVAO gl1"
proof (induction ls arbitrary: gl cur)
  case Nil
  then show ?case by simp
next
  case (Cons l ls)
  obtain gl1 where 1: "blit gl (Some (temp l))
                 (bloomCombineShader (texture2D gl (texture (buffer l)))
                    (texture2D gl cur)) = Inr gl1" "quadVAO gl1"
    using blit_returns [OF Cons.prems] by blast
  obtain gl2 where 2: "copyTexture gl1 (buffer l) (texture (temp l)) = Inr gl2" "quadVAO gl2"
    using blit_returns [OF 1(2)] unfolding copyTexture_def by blast
  show ?case using Cons.IH [OF 2(2)] 1 2 by simp
qed

lemma runBloom_returns:
  assumes "ready s"
  shows "\<exists>t s'. runBloom s = Inr (t, s') \<and> ready s' \<and> density s' = density s \<and> config s' = config s"
proof -
  obtain den where d: "density s = Some den" using assms by (auto simp: ready_def)
  have q: "quadVAO (glctx s)" using assms by (simp add: ready_def)
  show ?thesis
  proof (cases "bloom s")
    case Nil
    then show ?thesis using assms d by (simp add: runBloom_def)
  next
    case (Cons first rest)
    obtain gl1 where 1: "blit (glctx s) (Some (buffer first))
                          (bloomPrefilterShader (texture2D (glctx s) (texture (readFBO den)))
                             (bloomThreshold (config s))) = Inr gl1" "quadVAO gl1"
      using blit_returns [OF q] by blast
    obtain gl2 where 2: "bloom_downsample gl1 (buffer first) rest = Inr gl2" "quadVAO gl2"
      using bloom_downsample_returns [OF 1(2)] by blast
    obtain gl3 where 3: "bloom_blur gl2 (bloom s) = Inr gl3" "quadVAO gl3"
      using bloom_blur_returns [OF 2(2)] by blast
    obtain gl4 where 4: "bloom_combine gl3 (texture (buffer (last (bloom s))))
                          (rev (butlast (bloom s))) = Inr gl4" "quadVAO gl4"
      using bloom_combine_returns [OF 3(2)] by blast
    show ?thesis using assms d Cons 1 2 3 4 by (simp add: runBloom_def ready_def)
  qed
qed

lemma render_returns:
  assumes "ready s"
  shows "\<exists>s'. render s = Inr s' \<and> ready s'"
proof -
  let ?first = "if enableBloom (config s) \<and> length (bloom s) > 0
               then and_then (runBloom s) (\<lambda>(t, s1). Inr (Some t, s1))
               else Inr (None, s)"
  obtain bt s1 where 1: "?first = Inr (bt, s1)" "ready s1"
    using runBloom_returns [OF assms] assms by (cases "enableBloom (config s) \<and> length (bloom s) > 0") auto
  obtain den where d: "density s1 = Some den" using 1(2) by (auto simp: ready_def)
  have q: "quadVAO (glctx s1)" using 1(2) by (simp add: ready_def)
  obtain gl1 where 2: "blit (glctx s1) None
                     (displayShader (texture2D (glctx s1) (texture (readFBO den)))
                        (texture2D (glctx s1)
                           (case bt of
                              None \<Rightarrow> texture (readFBO den)
                            | Some t \<Rightarrow> t))
                        (enableBloom (config s1)) (bloomIntensity (config s1))
                        (gamma (config s1)) (exposure (config s1))) = Inr gl1" "quadVAO gl1"
    using blit_returns [OF q] by blast
  have "render s = Inr (s1\<lparr>glctx := gl1\<rparr>)"
    unfolding render_def 1(1) using d 2 by simp
  moreover have "ready (s1\<lparr>glctx := gl1\<rparr>)" using 1(2) 2(2) by (simp add: ready_def)
  ultimately show ?thesis by blast
qed

lemma blit_backbuffer:
  assumes "blit gl None f = Inr gl1"
  shows "drawingBufferWidth gl1 = drawingBufferWidth gl"
    "drawingBufferHeight gl1 = drawingBufferHeight gl"
    "i < drawingBufferWidth gl \<Longrightarrow> j < drawingBufferHeight gl \<Longrightarrow>
       gl_backbuffer gl1 i j = f (pixel_uv (drawingBufferWidth gl) (drawingBufferHeight gl) i j)"
  using assms by (auto simp: blit_def split: if_splits)

lemma render_pixels:
  assumes "render s = Inr s'" and "bloom s \<noteq> []"
  shows "\<exists>den g tb.
      density s = Some den \<and>
      (if enableBloom (config s) then (\<exists>s1. runBloom s = Inr (tb, s1) \<and> g = glctx s1)
       else g = glctx s) \<and>
      (\<forall>i j. i < drawingBufferWidth g \<and> j < drawingBufferHeight g \<longrightarrow>
         gl_backbuffer (glctx s') i j =
           presented
             (rgb (texture2D g (texture (readFBO den))
                     (pixel_uv (drawingBufferWidth g) (drawingBufferHeight g) i j)))
             (rgb (texture2D g tb
                     (pixel_uv (drawingBufferWidth g) (drawingBufferHeight g) i j)))
             (enableBloom (config s)) (bloomIntensity (config s)) (gamma (config s))
             (exposure (config s)))"
proof -
  let ?first = "if enableBloom (config s) \<and> length (bloom s) > 0
               then and_then (runBloom s) (\<lambda>(t, s1). Inr (Some t, s1))
               else Inr (None, s)"
  obtain bt s1 where 1: "?first = Inr (bt, s1)"
    and 2: "(case density s1 of
       None \<Rightarrow> Inl TypeError
     | Some den \<Rightarrow>
         and_then (blit (glctx s1) None
                     (displayShader (texture2D (glctx s1) (texture (readFBO den)))
                        (texture2D (glctx s1)
                           (case bt of
                              None \<Rightarrow> texture (readFBO den)
                            | Some t \<Rightarrow> t))
                        (enableBloom (config s1)) (bloomIntensity (config s1))
                        (gamma (config s1)) (exposure (config s1)))) (\<lambda>gl1.
         Inr (s1\<lparr>glctx := gl1\<rparr>))) = Inr s'"
    using assms(1) unfolding render_def and_then_eq_Inr by auto
  obtain den gl1 where d: "density s1 = Some den"
    and b: "blit (glctx s1) None
                     (displayShader (texture2D (glctx s1) (texture (readFBO den)))
                        (texture2D (glctx s1)
                           (case bt of
                              None \<Rightarrow> texture (readFBO den)
                            | Some t \<Rightarrow> t))
                        (enableBloom (config s1)) (bloomIntensity (config s1))
                        (gamma (config s1)) (exposure (config s1))) = Inr gl1"
    and s': "s' = s1\<lparr>glctx := gl1\<rparr>"
    using 2 by (auto split: option.splits simp: and_then_eq_Inr)
  have s1: "\<exists>g. s1 = s\<lparr>glctx := g\<rparr>"
    using 1 by (auto split: if_splits simp: and_then_eq_Inr dest!: runBloom_fields
        intro: exI [of _ "glctx s"])
  then have same: "density s1 = density s" "config s1 = config s" by auto
  let ?tb = "case bt of None \<Rightarrow> texture (readFBO den) | Some t \<Rightarrow> t"
  have stage: "if enableBloom (config s) then (\<exists>s1'. runBloom s = Inr (?tb, s1') \<and> glctx s1 = glctx s1')
       else glctx s1 = glctx s"
    using 1 assms(2) by (auto split: if_splits simp: and_then_eq_Inr)
  have px: "\<forall>i j. i < drawingBufferWidth (glctx s1) \<and> j < drawingBufferHeight (glctx s1) \<longrightarrow>
         gl_backbuffer (glctx s') i j =
           presented
             (rgb (texture2D (glctx s1) (texture (readFBO den))
                     (pixel_uv (drawingBufferWidth (glctx s1)) (drawingBufferHeight (glctx s1)) i j)))
             (rgb (texture2D (glctx s1) ?tb
                     (pixel_uv (drawingBufferWidth (glctx s1)) (drawingBufferHeight (glctx s1)) i j)))
             (enableBloom (config s)) (bloomIntensity (config s)) (gamma (config s))
             (exposure (config s))"
    using blit_backbuffer(3) [OF b] by (simp add: s' displayShader_presented same)
  show ?thesis
    using d same stage px by (intro exI [of _ den] exI [of _ "glctx s1"] exI [of _ ?tb]) simp
qed

lemma all_complete_example: "all_complete (glctx example_sim)"
  by (simp add: all_complete_def example_sim_def example_gl_def example_gl0_def)

subsection \<open>Passes only draw\<close>

lemma same_shape_refl [simp]: "same_shape a a"
  by (simp add: same_shape_def)

lemma same_shape_trans: "same_shape a c \<Longrightarrow> same_shape c e \<Longrightarrow> same_shape a e"
  by (simp add: same_shape_def)

lemma draws_only_refl [simp]: "draws_only gl gl"
  by (simp add: draws_only_def option.rel_refl)

lemma draws_only_trans: "draws_only a c \<Longrightarrow> draws_only c e \<Longrightarrow> draws_only a e"
  unfolding draws_only_def
proof (intro conjI allI, goal_cases)
  case (10 n)
  then have "rel_option same_shape (gl_textures a n) (gl_textures c n)"
    "rel_option same_shape (gl_textures c n) (gl_textures e n)" by blast+
  then show ?case
    by (cases "gl_textures a n"; cases "gl_textures c n"; cases "gl_textures e n")
       (auto intro: same_shape_trans)
qed simp_all

lemma blit_draws_only: "blit gl t f = Inr gl1 \<Longrightarrow> draws_only gl gl1"
  by (auto simp: blit_def draws_only_def same_shape_def option.rel_refl
      split: if_splits option.splits)

lemma copyTexture_draws_only: "copyTexture gl t n = Inr gl1 \<Longrightarrow> draws_only gl gl1"
  unfolding copyTexture_def by (rule blit_draws_only)

lemma bloom_downsample_draws_only:
  "bloom_downsample gl prev ls = Inr gl1 \<Longrightarrow> draws_only gl gl1"
proof (induction ls arbitrary: gl prev)
  case Nil
  then show ?case by simp
next
  case (Cons l ls)
  then show ?case
    by (auto simp: and_then_eq_Inr dest!: copyTexture_draws_only intro: draws_only_trans)
qed

lemma bloom_blur_draws_only:
  "bloom_blur gl ls = Inr gl1 \<Longrightarrow> draws_only gl gl1"
proof (induction ls arbitrary: gl)
  case Nil
  then show ?case by simp
next
  case (Cons l ls)
  then show ?case
    by (auto simp: and_then_eq_Inr dest!: blit_draws_only intro: draws_only_trans)
qed

lemma bloom_combine_draws_only:
  "bloom_combine gl cur ls = Inr gl1 \<Longrightarrow> draws_only gl gl1"
proof (induction ls arbitrary: gl cur)
  case Nil
  then show ?case by simp
next
  case (Cons l ls)
  then show ?case
    by (auto simp: and_then_eq_Inr dest!: blit_draws_only copyTexture_draws_only
        intro: draws_only_trans)
qed

lemma runBloom_draws_only:
  assumes "runBloom s = Inr (t, s')"
  shows "draws_only (glctx s) (glctx s')"
  using assms
  apply (auto simp: runBloom_def and_then_eq_Inr split: option.splits list.splits
      dest!: blit_draws_only bloom_downsample_draws_only bloom_blur_draws_only
        bloom_combine_draws_only)
  apply (meson draws_only_trans)
  done

subsection \<open>The dimensions of the bloom chain\<close>

lemma ensureDimension_half: "ensureDimension (real w / 2) = max 2 (w div 2)"
proof -
  have "\<lfloor>real w / 2\<rfloor> = int (w div 2)"
    using floor_divide_of_nat_eq [of w 2, where ?'a = real] by simp
  then show ?thesis by (simp add: ensureDimension_def)
qed

lemma bloom_loop_dims:
  "bloom_loop i L w h gl acc = Inr (levs, gl') \<Longrightarrow>
   map level_dims levs = map level_dims acc @ map (\<lambda>d. (d, d)) (bloom_dims (nat (L - i)) w h)"
proof (induction i L w h gl acc rule: bloom_loop.induct)
  case (1 i levels w h gl acc)
  show ?case
  proof (cases "i < levels")
    case False
    then show ?thesis using "1.prems" by (subst (asm) bloom_loop.simps) auto
  next
    case True
    then obtain n where n: "nat (levels - i) = Suc n" "nat (levels - (i + 1)) = n"
      by (cases "nat (levels - i)") auto
    obtain t gl1 u gl2 where a: "createFBO gl w h RGBA16F RGBA HALF_FLOAT LINEAR = Inr (t, gl1)"
      and b: "createFBO gl1 w h RGBA16F RGBA HALF_FLOAT LINEAR = Inr (u, gl2)"
      and r: "(if ensureDimension (real w / 2) = 2 \<or> ensureDimension (real h / 2) = 2
               then Inr (acc @ [\<lparr>buffer = t, temp = u\<rparr>], gl2)
               else bloom_loop (i + 1) levels (ensureDimension (real w / 2))
                      (ensureDimension (real h / 2)) gl2 (acc @ [\<lparr>buffer = t, temp = u\<rparr>]))
              = Inr (levs, gl')"
      using "1.prems" True
      by (subst (asm) bloom_loop.simps) (auto simp: Let_def split: sum.splits)
    have tu: "level_dims \<lparr>buffer = t, temp = u\<rparr> = ((w, h), (w, h))"
      using createFBO_Inr(2) [OF a] createFBO_Inr(2) [OF b] by (simp add: level_dims_def)
    show ?thesis
    proof (cases "ensureDimension (real w / 2) = 2 \<or> ensureDimension (real h / 2) = 2")
      case stop: True
      then show ?thesis using r n tu by auto
    next
      case go: False
      then have "bloom_loop (i + 1) levels (ensureDimension (real w / 2))
                      (ensureDimension (real h / 2)) gl2 (acc @ [\<lparr>buffer = t, temp = u\<rparr>])
              = Inr (levs, gl')" using r by simp
      from "1.IH" [OF True a refl b refl refl refl refl _ this] go
      show ?thesis using n tu by simp
    qed
  qed
qed

lemma bloom_dims_length: "length (bloom_dims n w h) \<le> n \<and> (0 < n \<longrightarrow> 0 < length (bloom_dims n w h))"
  by (induction n w h rule: bloom_dims.induct) auto

lemma bloom_dims_nth:
  "k < length (bloom_dims n w h) \<Longrightarrow> bloom_dims n w h ! k = ((halve ^^ k) w, (halve ^^ k) h)"
proof (induction n w h arbitrary: k rule: bloom_dims.induct)
  case (1 w h)
  then show ?case by simp
next
  case (2 n w h)
  show ?case
  proof (cases k)
    case 0
    then show ?thesis by simp
  next
    case (Suc k')
    then have go: "\<not> (ensureDimension (real w / 2) = 2 \<or> ensureDimension (real h / 2) = 2)"
      and len: "k' < length (bloom_dims n (ensureDimension (real w / 2)) (ensureDimension (real h / 2)))"
      using "2.prems" by (auto split: if_splits)
    then have e: "ensureDimension (real w / 2) = halve w" "ensureDimension (real h / 2) = halve h"
      by (auto simp: ensureDimension_half halve_def max_def split: if_splits)
    from "2.IH" [OF go len] show ?thesis
      using Suc go by (simp add: e funpow_swap1)
  qed
qed

lemma bloom_dims_truncated:
  "0 < k \<Longrightarrow> k < n \<Longrightarrow> (halve ^^ k) w < 2 \<or> (halve ^^ k) h < 2 \<Longrightarrow>
   length (bloom_dims n w h) \<le> k"
proof (induction n w h arbitrary: k rule: bloom_dims.induct)
  case (1 w h)
  then show ?case by simp
next
  case (2 n w h)
  show ?case
  proof (cases "ensureDimension (real w / 2) = 2 \<or> ensureDimension (real h / 2) = 2")
    case True
    then show ?thesis using "2.prems" by simp
  next
    case False
    then have e: "ensureDimension (real w / 2) = halve w" "ensureDimension (real h / 2) = halve h"
      by (auto simp: ensureDimension_half halve_def max_def split: if_splits)
    have big: "2 < halve w" "2 < halve h"
      using False e by (auto simp: ensureDimension_half halve_def max_def split: if_splits)
    obtain k' where k: "k = Suc k'" using "2.prems"(1) by (cases k) auto
    have "0 < k'"
    proof (rule ccontr)
      assume "\<not> 0 < k'"
      then have "k = 1" using k by simp
      then show False using "2.prems"(3) big by simp
    qed
    moreover have "k' < n" using k "2.prems"(2) by simp
    moreover have "(halve ^^ k') (halve w) < 2 \<or> (halve ^^ k') (halve h) < 2"
      using "2.prems"(3) k by (simp add: funpow_swap1)
    ultimately have "length (bloom_dims n (halve w) (halve h)) \<le> k'"
      using "2.IH" [OF False] e by simp
    then show ?thesis using False e k by simp
  qed
qed

lemma setupBloomBuffers_dims:
  assumes "setupBloomBuffers s bw bh = Inr s'"
  shows "map level_dims (bloom s') =
           map (\<lambda>d. (d, d)) (bloom_dims (nat (max 1 (bloomLevels (config s))))
              (ensureDimension (real bw / 2)) (ensureDimension (real bh / 2)))"
  using assms
  by (auto simp: setupBloomBuffers_def Let_def split: sum.splits dest!: bloom_loop_dims)

lemma runBloom_single:
  assumes "bloom s = [lvl]" and "runBloom s = Inr (t, s')"
  shows "t = texture (buffer lvl) \<and>
       (\<exists>den gl1 gl2 gl3.
          density s = Some den \<and>
          blit (glctx s) (Some (buffer lvl))
            (bloomPrefilterShader (texture2D (glctx s) (texture (readFBO den)))
               (bloomThreshold (config s))) = Inr gl1 \<and>
          blit gl1 (Some (temp lvl))
            (bloomBlurShader (texture2D gl1 (texture (buffer lvl))) (1, 0)
               (texelSize (buffer lvl))) = Inr gl2 \<and>
          blit gl2 (Some (buffer lvl))
            (bloomBlurShader (texture2D gl2 (texture (temp lvl))) (0, 1)
               (texelSize (buffer lvl))) = Inr gl3 \<and>
          s' = s\<lparr>glctx := gl3\<rparr>)"
  using assms
  by (auto simp: runBloom_def and_then_eq_Inr split: option.splits)

section \<open>Impulse records\<close>

text \<open>
  C4, as the specification states it, fails: \<^verbatim>\<open>applyPointer\<close> writes to the records
  that are down and moved with a non-zero delta. In a tick of the example simulation
  with the example pointer (down, moved, delta \<open>(1/10, 0)\<close>), the record that comes back
  has \<^verbatim>\<open>moved\<close> cleared.
\<close>

theorem impulse_record_mutated:
  "map_sum id snd (step example_sim (1 / 60) [example_pointer])
     = Inr [example_pointer\<lparr>moved := False\<rparr>] \<and>
   moved example_pointer"
proof -
  obtain s' ps' where r: "step example_sim (1 / 60) [example_pointer] = Inr (s', ps')"
    using step_returns [OF ready_example] by blast
  from step_pointers [OF r]
  have "list_all2 (pointer_step True False) [example_pointer] ps'"
    by (simp add: example_sim_def DEFAULT_CONFIG_def)
  then obtain p' where p: "ps' = [p']" "pointer_step True False example_pointer p'"
    by (auto simp: list_all2_Cons1)
  have m: "moved example_pointer" "down example_pointer" "delta example_pointer \<noteq> (0, 0)"
    by (simp_all add: example_pointer_def)
  have "p' = example_pointer\<lparr>moved := False\<rparr>"
    using p(2) m by (cases p') (auto simp: pointer_step_def example_pointer_def)
  then show ?thesis using r p m by simp
qed

text \<open>
  C4, amended. A call to \<^verbatim>\<open>step\<close> never changes the identity, position, previous
  position, delta or down flag of an impulse record. In a tick that is not paused, each
  record that is down and moved with a non-zero delta has \<^verbatim>\<open>moved\<close> set to false, and
  its colour is replaced only when the colour cycle fires in that tick
  (\<^verbatim>\<open>cycleColors\<close> and the timer beyond \<^verbatim>\<open>colorCycleSpeed\<close>); every other record is
  left as it was. The call returns when the quad is initialised and the fields exist.
\<close>

theorem impulse_records_after_step:
  "(ready s \<longrightarrow> (\<exists>s' ps'. step s dt ps = Inr (s', ps'))) \<and>
   (\<forall>s' ps'. step s dt ps = Inr (s', ps') \<longrightarrow>
      list_all2 (pointer_step (\<not> paused (config s))
         (cycleColors (config s) \<and> colorCycleTimer s + dt > colorCycleSpeed (config s)))
        ps ps')"
  using step_returns [of s dt ps] step_pointers [of s dt ps] by blast

theorem impulse_records_after_step_witness:
  "ready example_sim \<and>
   (\<exists>s' ps'. step example_sim (1 / 60) [example_pointer] = Inr (s', ps') \<and>
      list_all2 (pointer_step True False) [example_pointer] ps')"
proof -
  note t = impulse_records_after_step [of example_sim "1 / 60" "[example_pointer]"]
  from t ready_example obtain s' ps' where
    r: "step example_sim (1 / 60) [example_pointer] = Inr (s', ps')" by blast
  with t have "list_all2 (pointer_step (\<not> paused (config example_sim))
         (cycleColors (config example_sim) \<and>
          colorCycleTimer example_sim + 1 / 60 > colorCycleSpeed (config example_sim)))
        [example_pointer] ps'" by blast
  moreover have "\<not> paused (config example_sim)"
    "\<not> (cycleColors (config example_sim) \<and>
          colorCycleTimer example_sim + 1 / 60 > colorCycleSpeed (config example_sim))"
    by (simp_all add: example_sim_def DEFAULT_CONFIG_def)
  ultimately show ?thesis using r ready_example by auto
qed


section \<open>The bloom chain\<close>

text \<open>
  C8. When the chain has exactly one level, \<^verbatim>\<open>_runBloom\<close> runs three passes and no
  other: the prefilter into the level's buffer, the horizontal blur into its temp, the
  vertical blur back into its buffer; no copy into a further level and no combine pass
  runs, and the texture returned is that buffer. \<^verbatim>\<open>_setupBloomBuffers\<close> allocates at
  least one level and at most the requested number; level \<open>k\<close> has the dimensions of
  level 0 halved \<open>k\<close> times, never clamped; and when a requested level \<open>k \<ge> 1\<close> would
  have a dimension below 2, the chain has at most \<open>k\<close> levels, fewer than requested. The
  truncation is not an error: on a driver that completes every framebuffer the call
  returns.
\<close>

theorem bloom_chain:
  "(ready s \<longrightarrow> (\<exists>t s'. runBloom s = Inr (t, s'))) \<and>
   (\<forall>lvl t s'. bloom s = [lvl] \<and> runBloom s = Inr (t, s') \<longrightarrow>
       t = texture (buffer lvl) \<and>
       (\<exists>den gl1 gl2 gl3.
          density s = Some den \<and>
          blit (glctx s) (Some (buffer lvl))
            (bloomPrefilterShader (texture2D (glctx s) (texture (readFBO den)))
               (bloomThreshold (config s))) = Inr gl1 \<and>
          blit gl1 (Some (temp lvl))
            (bloomBlurShader (texture2D gl1 (texture (buffer lvl))) (1, 0)
               (texelSize (buffer lvl))) = Inr gl2 \<and>
          blit gl2 (Some (buffer lvl))
            (bloomBlurShader (texture2D gl2 (texture (temp lvl))) (0, 1)
               (texelSize (buffer lvl))) = Inr gl3 \<and>
          s' = s\<lparr>glctx := gl3\<rparr>)) \<and>
   (all_complete (glctx s) \<longrightarrow> (\<exists>s'. setupBloomBuffers s bw bh = Inr s')) \<and>
   (\<forall>s'. setupBloomBuffers s bw bh = Inr s' \<longrightarrow>
       0 < length (bloom s') \<and>
       int (length (bloom s')) \<le> max 1 (bloomLevels (config s)) \<and>
       (\<forall>k. k < length (bloom s') \<longrightarrow>
          level_dims (bloom s' ! k) =
            (((halve ^^ k) (ensureDimension (real bw / 2)),
              (halve ^^ k) (ensureDimension (real bh / 2))),
             ((halve ^^ k) (ensureDimension (real bw / 2)),
              (halve ^^ k) (ensureDimension (real bh / 2))))) \<and>
       (\<forall>k. 0 < k \<and> int k < max 1 (bloomLevels (config s)) \<and>
            ((halve ^^ k) (ensureDimension (real bw / 2)) < 2 \<or>
             (halve ^^ k) (ensureDimension (real bh / 2)) < 2) \<longrightarrow>
          length (bloom s') \<le> k))"
proof (intro conjI allI impI)
  assume "ready s"
  then show "\<exists>t s'. runBloom s = Inr (t, s')" using runBloom_returns [of s] by blast
next
  fix lvl t s'
  assume a: "bloom s = [lvl] \<and> runBloom s = Inr (t, s')"
  then show "t = texture (buffer lvl)" using runBloom_single [of s lvl t s'] by blast
  from a show "\<exists>den gl1 gl2 gl3.
          density s = Some den \<and>
          blit (glctx s) (Some (buffer lvl))
            (bloomPrefilterShader (texture2D (glctx s) (texture (readFBO den)))
               (bloomThreshold (config s))) = Inr gl1 \<and>
          blit gl1 (Some (temp lvl))
            (bloomBlurShader (texture2D gl1 (texture (buffer lvl))) (1, 0)
               (texelSize (buffer lvl))) = Inr gl2 \<and>
          blit gl2 (Some (buffer lvl))
            (bloomBlurShader (texture2D gl2 (texture (temp lvl))) (0, 1)
               (texelSize (buffer lvl))) = Inr gl3 \<and>
          s' = s\<lparr>glctx := gl3\<rparr>"
    using runBloom_single [of s lvl t s'] by blast
next
  assume "all_complete (glctx s)"
  then show "\<exists>s'. setupBloomBuffers s bw bh = Inr s'"
    using setupBloomBuffers_all_complete [of s bw bh] by blast
next
  fix s' assume r: "setupBloomBuffers s bw bh = Inr s'"
  let ?L = "nat (max 1 (bloomLevels (config s)))"
  let ?W = "ensureDimension (real bw / 2)" and ?H = "ensureDimension (real bh / 2)"
  note d = setupBloomBuffers_dims [OF r]
  have len: "length (bloom s') = length (bloom_dims ?L ?W ?H)"
    using arg_cong [OF d, of length] by simp
  have L: "0 < ?L" by simp
  show "0 < length (bloom s')" using bloom_dims_length [of ?L ?W ?H] L len by simp
  show "int (length (bloom s')) \<le> max 1 (bloomLevels (config s))"
    using bloom_dims_length [of ?L ?W ?H] len by linarith
  {
    fix k assume k: "k < length (bloom s')"
    have "level_dims (bloom s' ! k) = map level_dims (bloom s') ! k" using k by simp
    also have "\<dots> = (bloom_dims ?L ?W ?H ! k, bloom_dims ?L ?W ?H ! k)"
      using k len by (simp add: d)
    finally show "level_dims (bloom s' ! k) =
            (((halve ^^ k) ?W, (halve ^^ k) ?H), ((halve ^^ k) ?W, (halve ^^ k) ?H))"
      using bloom_dims_nth [of k ?L ?W ?H] k len by simp
  }
  {
    fix k assume k: "0 < k \<and> int k < max 1 (bloomLevels (config s)) \<and>
            ((halve ^^ k) ?W < 2 \<or> (halve ^^ k) ?H < 2)"
    then have "k < ?L" by linarith
    then show "length (bloom s') \<le> k"
      using bloom_dims_truncated [of k ?L ?W ?H] k len by simp
  }
qed

theorem bloom_chain_witness:
  "ready example_sim \<and>
   bloom example_sim = [\<lparr>buffer = example_target 16 3 RGBA16F RGBA,
                          temp = example_target 18 3 RGBA16F RGBA\<rparr>] \<and>
   (\<exists>t s'. runBloom example_sim = Inr (t, s') \<and> t = 16) \<and>
   all_complete (glctx example_sim) \<and>
   bloomLevels (config example_sim) = 4 \<and>
   (halve ^^ 1) (ensureDimension (real 6 / 2)) < 2 \<and>
   (\<exists>s'. setupBloomBuffers example_sim 6 6 = Inr s' \<and> length (bloom s') = 1)"
proof -
  note t = bloom_chain [of example_sim 6 6]
  have b: "bloom example_sim = [\<lparr>buffer = example_target 16 3 RGBA16F RGBA,
                          temp = example_target 18 3 RGBA16F RGBA\<rparr>]"
    by (simp add: example_sim_def)
  have L: "bloomLevels (config example_sim) = 4"
    by (simp add: example_sim_def DEFAULT_CONFIG_def)
  have h: "(halve ^^ 1) (ensureDimension (real 6 / 2)) < 2"
    by (simp add: halve_def ensureDimension_def)
  from t ready_example obtain tx s1 where r: "runBloom example_sim = Inr (tx, s1)" by blast
  with t b have "tx = texture (buffer \<lparr>buffer = example_target 16 3 RGBA16F RGBA,
                          temp = example_target 18 3 RGBA16F RGBA\<rparr>)" by blast
  then have tx: "tx = 16" by (simp add: example_target_def)
  from t all_complete_example obtain s2 where s: "setupBloomBuffers example_sim 6 6 = Inr s2"
    by blast
  with t have pos: "0 < length (bloom s2)"
    and tr: "\<forall>k. 0 < k \<and> int k < max 1 (bloomLevels (config example_sim)) \<and>
            ((halve ^^ k) (ensureDimension (real 6 / 2)) < 2 \<or>
             (halve ^^ k) (ensureDimension (real 6 / 2)) < 2) \<longrightarrow>
          length (bloom s2) \<le> k"
    by blast+
  from tr [rule_format, of 1] L h have "length (bloom s2) \<le> 1" by simp
  with pos have "length (bloom s2) = 1" by (cases "bloom s2") auto
  then show ?thesis
    using ready_example b r tx all_complete_example L h s by blast
qed


section \<open>The presentation pass\<close>

text \<open>
  C9. \<^verbatim>\<open>render\<close> writes, to every pixel of the output surface, the colour
  \<open>pow(1 - exp(-(dye + b) * exposure), 1 / gamma)\<close> with alpha 1, where \<open>dye\<close> is the
  sample of the dye field at the pixel and \<open>b\<close> is \<^verbatim>\<open>bloomIntensity\<close> times the sample
  of the texture that the bloom chain returns when bloom is enabled, and 0 otherwise.
  The bloom chain of a simulation that the constructor leads to is never empty
  (\<open>reachable_bloom_nonempty\<close> below), which is the case the statement covers.
\<close>

theorem presentation_pass:
  "(ready s \<longrightarrow> (\<exists>s'. render s = Inr s')) \<and>
   (\<forall>s'. render s = Inr s' \<and> bloom s \<noteq> [] \<longrightarrow>
     (\<exists>den g tb.
      density s = Some den \<and>
      (if enableBloom (config s) then (\<exists>s1. runBloom s = Inr (tb, s1) \<and> g = glctx s1)
       else g = glctx s) \<and>
      (\<forall>i j. i < drawingBufferWidth g \<and> j < drawingBufferHeight g \<longrightarrow>
         gl_backbuffer (glctx s') i j =
           presented
             (rgb (texture2D g (texture (readFBO den))
                     (pixel_uv (drawingBufferWidth g) (drawingBufferHeight g) i j)))
             (rgb (texture2D g tb
                     (pixel_uv (drawingBufferWidth g) (drawingBufferHeight g) i j)))
             (enableBloom (config s)) (bloomIntensity (config s)) (gamma (config s))
             (exposure (config s)))))"
  using render_returns [of s] render_pixels [of s] by blast

theorem presentation_pass_witness:
  "ready example_sim \<and> bloom example_sim \<noteq> [] \<and>
   (\<exists>s' den g tb. render example_sim = Inr s' \<and>
      density example_sim = Some den \<and>
      (\<exists>s1. runBloom example_sim = Inr (tb, s1) \<and> g = glctx s1) \<and>
      gl_backbuffer (glctx s') 0 0 =
           presented
             (rgb (texture2D g (texture (readFBO den))
                     (pixel_uv (drawingBufferWidth g) (drawingBufferHeight g) 0 0)))
             (rgb (texture2D g tb
                     (pixel_uv (drawingBufferWidth g) (drawingBufferHeight g) 0 0)))
             True (2 / 10) (22 / 10) (18 / 100))"
proof -
  note t = presentation_pass [of example_sim]
  have b: "bloom example_sim \<noteq> []" by (simp add: example_sim_def)
  have c: "enableBloom (config example_sim)" "bloomIntensity (config example_sim) = 2 / 10"
    "gamma (config example_sim) = 22 / 10" "exposure (config example_sim) = 18 / 100"
    by (simp_all add: example_sim_def DEFAULT_CONFIG_def)
  from t ready_example obtain s' where r: "render example_sim = Inr s'" by blast
  with t b obtain den g tb where
    d: "density example_sim = Some den" and
    st: "if enableBloom (config example_sim)
         then (\<exists>s1. runBloom example_sim = Inr (tb, s1) \<and> g = glctx s1)
         else g = glctx example_sim" and
    px: "\<forall>i j. i < drawingBufferWidth g \<and> j < drawingBufferHeight g \<longrightarrow>
         gl_backbuffer (glctx s') i j =
           presented
             (rgb (texture2D g (texture (readFBO den))
                     (pixel_uv (drawingBufferWidth g) (drawingBufferHeight g) i j)))
             (rgb (texture2D g tb
                     (pixel_uv (drawingBufferWidth g) (drawingBufferHeight g) i j)))
             (enableBloom (config example_sim)) (bloomIntensity (config example_sim))
             (gamma (config example_sim)) (exposure (config example_sim))"
    by blast
  from st c obtain s1 where s1: "runBloom example_sim = Inr (tb, s1)" "g = glctx s1" by auto
  have "draws_only (glctx example_sim) g" using runBloom_draws_only [OF s1(1)] s1(2) by simp
  then have "drawingBufferWidth g = 6 \<and> drawingBufferHeight g = 6"
    by (simp add: draws_only_def example_sim_def example_gl_def example_gl0_def)
  then have "gl_backbuffer (glctx s') 0 0 =
           presented
             (rgb (texture2D g (texture (readFBO den))
                     (pixel_uv (drawingBufferWidth g) (drawingBufferHeight g) 0 0)))
             (rgb (texture2D g tb
                     (pixel_uv (drawingBufferWidth g) (drawingBufferHeight g) 0 0)))
             True (2 / 10) (22 / 10) (18 / 100)"
    using px [rule_format, of 0 0] c by simp
  then show ?thesis using ready_example b r d s1 by blast
qed

subsection \<open>Sampling at texel centres and drawing into a target\<close>

lemma mix4_zero [simp]: "mix4 a c 0 = a"
  by (cases a; cases c) (simp add: mix4_def)

lemma clamp_index_inside [simp]: "i < n \<Longrightarrow> clamp_index (int i) n = i"
  by (simp add: clamp_index_def)

lemma clamp_index_pred [simp]: "i < n \<Longrightarrow> clamp_index (int i - 1) n = i - 1"
  by (auto simp: clamp_index_def)

lemma clamp_index_succ [simp]: "i < n \<Longrightarrow> clamp_index (int i + 1) n = min (i + 1) (n - 1)"
  by (auto simp: clamp_index_def min_def)

lemma linear_centre:
  assumes "0 < w"
  shows "(real i + 1 / 2) / real w * real w - 1 / 2 = real_of_int (int i)"
    and "((real i + 1 / 2) / real w - 1 / real w) * real w - 1 / 2 = real_of_int (int i - 1)"
    and "((real i + 1 / 2) / real w + 1 / real w) * real w - 1 / 2 = real_of_int (int i + 1)"
  using assms by (simp_all add: field_simps)

text \<open>sampling at a texel centre, moved by whole texels\<close>

lemma sample_texture_offset:
  assumes "0 < tex_width tx" "0 < tex_height tx" "i < tex_width tx" "j < tex_height tx"
    and u: "u * real (tex_width tx) - 1 / 2 = real_of_int a"
    and v: "v * real (tex_height tx) - 1 / 2 = real_of_int c"
  shows "sample_texture tx (u, v) = texelFetch tx a c"
proof (cases "tex_filter tx")
  case NEAREST
  have "u * real (tex_width tx) = real_of_int a + 1 / 2" using u by simp
  then have fa: "\<lfloor>u * real (tex_width tx)\<rfloor> = a" by (simp add: floor_unique)
  have "v * real (tex_height tx) = real_of_int c + 1 / 2" using v by simp
  then have fc: "\<lfloor>v * real (tex_height tx)\<rfloor> = c" by (simp add: floor_unique)
  show ?thesis by (simp add: sample_texture_def NEAREST fa fc)
next
  case LINEAR
  show ?thesis by (simp add: sample_texture_def LINEAR u v Let_def)
qed

lemma sample_texture_centre:
  assumes "tex_width tx = w" "tex_height tx = h" "i < w" "j < h"
  shows "sample_texture tx (pixel_uv w h i j) = tex_data tx i j"
    and "sample_texture tx (sub2 (pixel_uv w h i j) (1 / real w, 0)) = tex_data tx (i - 1) j"
    and "sample_texture tx (add2 (pixel_uv w h i j) (1 / real w, 0))
           = tex_data tx (min (i + 1) (w - 1)) j"
    and "sample_texture tx (sub2 (pixel_uv w h i j) (0, 1 / real h)) = tex_data tx i (j - 1)"
    and "sample_texture tx (add2 (pixel_uv w h i j) (0, 1 / real h))
           = tex_data tx i (min (j + 1) (h - 1))"
proof -
  have w: "0 < w" and h: "0 < h" using assms by auto
  note lw = linear_centre [OF w, of i] and lh = linear_centre [OF h, of j]
  have pos: "0 < tex_width tx" "0 < tex_height tx" "i < tex_width tx" "j < tex_height tx"
    using assms w h by simp_all
  show "sample_texture tx (pixel_uv w h i j) = tex_data tx i j"
    using sample_texture_offset [OF pos, of "(real i + 1 / 2) / real w" "int i"
        "(real j + 1 / 2) / real h" "int j"] lw(1) lh(1) assms
    by (simp add: pixel_uv_def texelFetch_def)
  show "sample_texture tx (sub2 (pixel_uv w h i j) (1 / real w, 0)) = tex_data tx (i - 1) j"
    using sample_texture_offset [OF pos, of "(real i + 1 / 2) / real w - 1 / real w" "int i - 1"
        "(real j + 1 / 2) / real h" "int j"] lw(2) lh(1) assms
    by (simp add: pixel_uv_def texelFetch_def)
  show "sample_texture tx (add2 (pixel_uv w h i j) (1 / real w, 0))
           = tex_data tx (min (i + 1) (w - 1)) j"
    using sample_texture_offset [OF pos, of "(real i + 1 / 2) / real w + 1 / real w" "int i + 1"
        "(real j + 1 / 2) / real h" "int j"] lw(3) lh(1) assms
    by (simp add: pixel_uv_def texelFetch_def)
  show "sample_texture tx (sub2 (pixel_uv w h i j) (0, 1 / real h)) = tex_data tx i (j - 1)"
    using sample_texture_offset [OF pos, of "(real i + 1 / 2) / real w" "int i"
        "(real j + 1 / 2) / real h - 1 / real h" "int j - 1"] lw(1) lh(2) assms
    by (simp add: pixel_uv_def texelFetch_def)
  show "sample_texture tx (add2 (pixel_uv w h i j) (0, 1 / real h))
           = tex_data tx i (min (j + 1) (h - 1))"
    using sample_texture_offset [OF pos, of "(real i + 1 / 2) / real w" "int i"
        "(real j + 1 / 2) / real h + 1 / real h" "int j + 1"] lw(1) lh(3) assms
    by (simp add: pixel_uv_def texelFetch_def)
qed

lemma x4_store_format [simp]: "x4 (store_format f v) = x4 v"
  by (cases f; cases v) simp_all

lemma draws_only_backed: "draws_only gl gl1 \<Longrightarrow> backed gl t \<Longrightarrow> backed gl1 t"
proof -
  assume d: "draws_only gl gl1" and b: "backed gl t"
  from d have "rel_option same_shape (gl_textures gl (texture t)) (gl_textures gl1 (texture t))"
    by (simp add: draws_only_def)
  then show ?thesis
    using b d
    by (cases "gl_textures gl (texture t)"; cases "gl_textures gl1 (texture t)")
       (auto simp: backed_def draws_only_def same_shape_def)
qed

lemma texture2D_backed:
  assumes "backed gl t" "width t = w" "height t = h" "i < w" "j < h"
  shows "texture2D gl (texture t) (pixel_uv w h i j) = grid gl t i j"
    and "texture2D gl (texture t) (sub2 (pixel_uv w h i j) (1 / real w, 0)) = grid gl t (i - 1) j"
    and "texture2D gl (texture t) (add2 (pixel_uv w h i j) (1 / real w, 0))
           = grid gl t (min (i + 1) (w - 1)) j"
    and "texture2D gl (texture t) (sub2 (pixel_uv w h i j) (0, 1 / real h)) = grid gl t i (j - 1)"
    and "texture2D gl (texture t) (add2 (pixel_uv w h i j) (0, 1 / real h))
           = grid gl t i (min (j + 1) (h - 1))"
proof -
  obtain tx where tx: "gl_textures gl (texture t) = Some tx" "tex_width tx = w" "tex_height tx = h"
    using assms(1,2,3) by (auto simp: backed_def split: option.splits)
  note s = sample_texture_centre [OF tx(2,3) assms(4,5)]
  show "texture2D gl (texture t) (pixel_uv w h i j) = grid gl t i j"
    and "texture2D gl (texture t) (sub2 (pixel_uv w h i j) (1 / real w, 0)) = grid gl t (i - 1) j"
    and "texture2D gl (texture t) (add2 (pixel_uv w h i j) (1 / real w, 0))
           = grid gl t (min (i + 1) (w - 1)) j"
    and "texture2D gl (texture t) (sub2 (pixel_uv w h i j) (0, 1 / real h)) = grid gl t i (j - 1)"
    and "texture2D gl (texture t) (add2 (pixel_uv w h i j) (0, 1 / real h))
           = grid gl t i (min (j + 1) (h - 1))"
    by (simp_all add: texture2D_def grid_def tx(1) s)
qed

lemma blit_backed:
  assumes "quadVAO gl" "backed gl t"
  shows "\<exists>gl1. blit gl (Some t) f = Inr gl1 \<and> draws_only gl gl1 \<and>
           (\<forall>i j. i < width t \<and> j < height t \<longrightarrow>
              grid gl1 t i j = store_format (internalFormat t) (f (pixel_uv (width t) (height t) i j))) \<and>
           (\<forall>n. n \<noteq> texture t \<longrightarrow> gl_textures gl1 n = gl_textures gl n)"
proof -
  obtain tx where tx: "gl_textures gl (texture t) = Some tx" "tex_width tx = width t"
    "tex_height tx = height t" "tex_internalFormat tx = internalFormat t"
    and fb: "gl_framebuffers gl (fbo t) = Some (texture t)"
    using assms(2) by (auto simp: backed_def split: option.splits)
  let ?gl1 = "gl\<lparr>gl_textures := (gl_textures gl)(texture t \<mapsto>
                             tx\<lparr>tex_data := (\<lambda>i j.
                                  if i < min (width t) (tex_width tx)
                                     \<and> j < min (height t) (tex_height tx)
                                  then store_format (tex_internalFormat tx)
                                         (f (pixel_uv (width t) (height t) i j))
                                  else tex_data tx i j)\<rparr>)\<rparr>"
  have b: "blit gl (Some t) f = Inr ?gl1"
    using assms(1) tx fb by (simp add: blit_def)
  moreover have "draws_only gl ?gl1" using b by (rule blit_draws_only)
  moreover have "\<forall>i j. i < width t \<and> j < height t \<longrightarrow>
              grid ?gl1 t i j = store_format (internalFormat t) (f (pixel_uv (width t) (height t) i j))"
    using tx by (simp add: grid_def)
  moreover have "\<forall>n. n \<noteq> texture t \<longrightarrow> gl_textures ?gl1 n = gl_textures gl n" by simp
  ultimately show ?thesis by blast
qed

lemma grid_unchanged:
  "gl_textures gl1 (texture u) = gl_textures gl (texture u) \<Longrightarrow> grid gl1 u = grid gl u"
  by (intro ext) (simp add: grid_def)

lemma texture2D_unchanged:
  "gl_textures gl1 n = gl_textures gl n \<Longrightarrow> texture2D gl1 n = texture2D gl n"
  by (intro ext) (simp add: texture2D_def)

lemma jacobi_step_cong:
  assumes "\<forall>a c. a < w \<and> c < h \<longrightarrow> p a c = q a c" "i < w" "j < h"
  shows "jacobi_step w h dv p i j = jacobi_step w h dv q i j"
proof -
  have "i - 1 < w" "min (i + 1) (w - 1) < w" "j - 1 < h" "min (j + 1) (h - 1) < h"
    using assms(2,3) by auto
  then show ?thesis using assms by (simp add: jacobi_step_def)
qed

lemma jacobi_funpow_cong:
  assumes "\<forall>a c. a < w \<and> c < h \<longrightarrow> p a c = q a c"
  shows "\<forall>a c. a < w \<and> c < h \<longrightarrow>
           (jacobi_step w h dv ^^ m) p a c = (jacobi_step w h dv ^^ m) q a c"
proof (induction m)
  case 0
  then show ?case using assms by simp
next
  case (Suc m)
  show ?case
  proof (intro allI impI)
    fix a c assume "a < w \<and> c < h"
    then show "(jacobi_step w h dv ^^ Suc m) p a c = (jacobi_step w h dv ^^ Suc m) q a c"
      using jacobi_step_cong [OF Suc.IH, of a c dv] by simp
  qed
qed

lemma pressureShader_texel:
  assumes "backed gl rd" "backed gl dv" "width rd = w" "height rd = h"
    "width dv = w" "height dv = h" "i < w" "j < h"
  shows "x4 (pressureShader (texture2D gl (texture rd)) (texture2D gl (texture dv))
               (texelSize rd) (pixel_uv w h i j))
         = jacobi_step w h (scalar_grid gl dv) (scalar_grid gl rd) i j"
proof -
  have ts: "texelSize rd = (1 / real w, 1 / real h)"
    using assms(1,3,4) by (simp add: backed_def texel_ok_def)
  note a = texture2D_backed [OF assms(1,3,4,7,8)]
  note b = texture2D_backed(1) [OF assms(2,5,6,7,8)]
  show ?thesis
    by (simp add: pressureShader_def Let_def ts a b jacobi_step_def scalar_grid_def)
qed

lemma pressure_loop_grid:
  assumes "quadVAO gl" "backed gl (readFBO p)" "backed gl (writeFBO p)" "backed gl dv"
    and "texture (readFBO p) \<noteq> texture (writeFBO p)"
    and "texture dv \<noteq> texture (readFBO p)" "texture dv \<noteq> texture (writeFBO p)"
    and "width (readFBO p) = w" "height (readFBO p) = h"
    and "width (writeFBO p) = w" "height (writeFBO p) = h"
    and "width dv = w" "height dv = h"
  shows "\<exists>p' gl'. pressure_loop i n gl p (Some dv) = Inr (p', gl') \<and>
           p' = (swap ^^ nat (n - i)) p \<and> draws_only gl gl' \<and>
           (\<forall>a c. a < w \<and> c < h \<longrightarrow>
              scalar_grid gl' (readFBO p') a c =
                (jacobi_step w h (scalar_grid gl dv) ^^ nat (n - i)) (scalar_grid gl (readFBO p)) a c) \<and>
           (\<forall>m. m \<noteq> texture (readFBO p) \<and> m \<noteq> texture (writeFBO p) \<longrightarrow>
              gl_textures gl' m = gl_textures gl m)"
  using assms
proof (induction i n gl p "Some dv" rule: pressure_loop.induct)
  case (1 i n gl prs)
  show ?case
  proof (cases "i < n")
    case False
    then show ?thesis by (subst pressure_loop.simps) simp
  next
    case True
    let ?f = "pressureShader (texture2D gl (texture (readFBO prs)))
                       (texture2D gl (texture dv)) (texelSize (readFBO prs))"
    obtain gl1 where b: "blit gl (Some (writeFBO prs)) ?f = Inr gl1" "draws_only gl gl1"
      and px: "\<forall>a c. a < width (writeFBO prs) \<and> c < height (writeFBO prs) \<longrightarrow>
              grid gl1 (writeFBO prs) a c = store_format (internalFormat (writeFBO prs))
                 (?f (pixel_uv (width (writeFBO prs)) (height (writeFBO prs)) a c))"
      and oth: "\<forall>m. m \<noteq> texture (writeFBO prs) \<longrightarrow> gl_textures gl1 m = gl_textures gl m"
      using blit_backed [OF "1.prems"(1,3), of ?f] by blast
    have q1: "quadVAO gl1" using b(2) "1.prems"(1) by (simp add: draws_only_def)
    have bk: "backed gl1 (readFBO (swap prs))" "backed gl1 (writeFBO (swap prs))" "backed gl1 dv"
      using draws_only_backed [OF b(2)] "1.prems" by simp_all
    have new: "\<forall>a c. a < w \<and> c < h \<longrightarrow>
        scalar_grid gl1 (writeFBO prs) a c
          = jacobi_step w h (scalar_grid gl dv) (scalar_grid gl (readFBO prs)) a c"
      using px "1.prems" pressureShader_texel [of gl "readFBO prs" dv w h]
      by (simp add: scalar_grid_def)
    have dvg: "scalar_grid gl1 dv = scalar_grid gl dv"
      using oth "1.prems"(7) by (intro ext) (simp add: scalar_grid_def grid_def)
    from "1.hyps" [OF True refl b(1) q1 bk] "1.prems"
    obtain p' gl' where r: "pressure_loop (i + 1) n gl1 (swap prs) (Some dv) = Inr (p', gl')"
      "p' = (swap ^^ nat (n - (i + 1))) (swap prs)" "draws_only gl1 gl'"
      and g: "\<forall>a c. a < w \<and> c < h \<longrightarrow>
              scalar_grid gl' (readFBO p') a c =
                (jacobi_step w h (scalar_grid gl1 dv) ^^ nat (n - (i + 1)))
                   (scalar_grid gl1 (writeFBO prs)) a c"
      and o2: "\<forall>m. m \<noteq> texture (writeFBO prs) \<and> m \<noteq> texture (readFBO prs) \<longrightarrow>
              gl_textures gl' m = gl_textures gl1 m"
      by auto
    have n: "nat (n - i) = Suc (nat (n - (i + 1)))" using True by simp
    have "\<forall>a c. a < w \<and> c < h \<longrightarrow>
              scalar_grid gl' (readFBO p') a c =
                (jacobi_step w h (scalar_grid gl dv) ^^ nat (n - i)) (scalar_grid gl (readFBO prs)) a c"
      using g jacobi_funpow_cong [OF new, of "nat (n - (i + 1))" "scalar_grid gl dv"]
      by (simp add: dvg n funpow_swap1)
    moreover have "p' = (swap ^^ nat (n - i)) prs" using r(2) n by (simp add: funpow_swap1)
    moreover have "draws_only gl gl'" using b(2) r(3) by (rule draws_only_trans)
    moreover have "\<forall>m. m \<noteq> texture (readFBO prs) \<and> m \<noteq> texture (writeFBO prs) \<longrightarrow>
              gl_textures gl' m = gl_textures gl m"
      using oth o2 by simp
    moreover have "pressure_loop i n gl prs (Some dv) = Inr (p', gl')"
      using True b(1) r(1) by (subst pressure_loop.simps) simp
    ultimately show ?thesis by blast
  qed
qed

lemma sim_wfE:
  assumes "sim_wf s"
  obtains vel den prs dv cu where
    "velocity s = Some vel" "density s = Some den" "pressure s = Some prs"
    "divergence s = Some dv" "curl s = Some cu" "quadVAO (glctx s)"
    "\<forall>t \<in> set [readFBO vel, writeFBO vel, readFBO den, writeFBO den, readFBO prs,
                 writeFBO prs, dv, cu].
        backed (glctx s) t \<and> width t = fst (simSize s) \<and> height t = snd (simSize s)"
    "distinct (map texture [readFBO vel, writeFBO vel, readFBO den, writeFBO den,
        readFBO prs, writeFBO prs, dv, cu])"
    "internalFormat (readFBO vel) = RG16F" "internalFormat (writeFBO vel) = RG16F"
    "internalFormat (readFBO den) = RGBA16F" "internalFormat (writeFBO den) = RGBA16F"
proof -
  from assms have r: "ready s" by (simp add: sim_wf_def)
  then obtain vel den prs dv cu where f: "velocity s = Some vel" "density s = Some den"
    "pressure s = Some prs" "divergence s = Some dv" "curl s = Some cu"
    by (auto simp: ready_def)
  have ft: "field_targets s = [readFBO vel, writeFBO vel, readFBO den, writeFBO den,
      readFBO prs, writeFBO prs, dv, cu]"
    by (simp add: field_targets_def double_targets_def single_targets_def f)
  show thesis
  proof (rule that [OF f])
    show "quadVAO (glctx s)" using r by (simp add: ready_def)
    show "\<forall>t \<in> set [readFBO vel, writeFBO vel, readFBO den, writeFBO den, readFBO prs,
                 writeFBO prs, dv, cu].
        backed (glctx s) t \<and> width t = fst (simSize s) \<and> height t = snd (simSize s)"
      using assms unfolding sim_wf_def ft list_all_iff by blast
    show "distinct (map texture [readFBO vel, writeFBO vel, readFBO den, writeFBO den,
        readFBO prs, writeFBO prs, dv, cu])"
      using assms unfolding sim_wf_def ft by blast
    show "internalFormat (readFBO vel) = RG16F" "internalFormat (writeFBO vel) = RG16F"
      "internalFormat (readFBO den) = RGBA16F" "internalFormat (writeFBO den) = RGBA16F"
      using assms unfolding sim_wf_def ft by simp_all
  qed
qed

lemma clearShader_texel:
  assumes "backed gl rd" "width rd = w" "height rd = h" "i < w" "j < h"
  shows "x4 (clearShader (texture2D gl (texture rd)) k (pixel_uv w h i j))
         = decay_grid k (scalar_grid gl rd) i j"
  using texture2D_backed(1) [OF assms]
  by (simp add: clearShader_def Let_def decay_grid_def scalar_grid_def)

lemma xy_store_format [simp]: "f \<noteq> R16F \<Longrightarrow> xy (store_format f v) = xy v"
  by (cases f; cases v) simp_all

lemma xy_scale4: "xy (scale4 v k) = scale2 (xy v) k"
  by (cases v) simp

lemma advectionShader_backtrace:
  "advectionShader uVelocity uSource ts k dt uv
     = scale4 (uSource (backtrace uv (xy (uVelocity uv)) dt ts)) k"
proof -
  obtain a c where uv: "uv = (a, c)" by (cases uv)
  obtain e f where ts: "ts = (e, f)" by (cases ts)
  obtain p q r t where v: "uVelocity (a, c) = (p, q, r, t)" by (cases "uVelocity (a, c)")
  show ?thesis
    by (simp add: advectionShader_def backtrace_def Let_def uv ts v mult.commute)
qed

lemma backtrace_clamped:
  "0 \<le> fst (backtrace uv v dt ts) \<and> fst (backtrace uv v dt ts) \<le> 1 \<and>
   0 \<le> snd (backtrace uv v dt ts) \<and> snd (backtrace uv v dt ts) \<le> 1"
  by (simp add: backtrace_def clampf_def)

lemma advectVelocity_texel:
  assumes "sim_wf s" and "velocity s = Some vel"
  shows "\<exists>s'. advectVelocity s dt = Inr s' \<and> velocity s' = Some (swap vel) \<and>
     (\<forall>i j. i < fst (simSize s) \<and> j < snd (simSize s) \<longrightarrow>
        xy (texture2D (glctx s) (texture (readFBO vel))
              (pixel_uv (fst (simSize s)) (snd (simSize s)) i j))
          = xy (grid (glctx s) (readFBO vel) i j) \<and>
        xy (grid (glctx s') (readFBO (swap vel)) i j) =
          scale2
            (xy (texture2D (glctx s) (texture (readFBO vel))
                   (backtrace (pixel_uv (fst (simSize s)) (snd (simSize s)) i j)
                      (xy (texture2D (glctx s) (texture (readFBO vel))
                             (pixel_uv (fst (simSize s)) (snd (simSize s)) i j)))
                      dt (1 / real (fst (simSize s)), 1 / real (snd (simSize s))))))
            (velocityDissipation (config s)))"
proof -
  let ?w = "fst (simSize s)" and ?h = "snd (simSize s)"
  let ?gl = "glctx s"
  from assms(1) obtain vel' den prs :: doubleFBO and dv cu where f: "velocity s = Some vel'"
    "quadVAO ?gl"
    and bk: "\<forall>t \<in> set [readFBO vel', writeFBO vel', readFBO den, writeFBO den, readFBO prs,
                 writeFBO prs, dv, cu].
        backed ?gl t \<and> width t = ?w \<and> height t = ?h"
    and fm: "internalFormat (writeFBO vel') = RG16F"
    by (rule sim_wfE)
  have e: "vel' = vel" using f assms by simp
  have b: "backed ?gl (readFBO vel)" "backed ?gl (writeFBO vel)"
    and wh: "width (readFBO vel) = ?w" "height (readFBO vel) = ?h"
      "width (writeFBO vel) = ?w" "height (writeFBO vel) = ?h"
    using bk unfolding e by simp_all
  have ts: "texelSize (readFBO vel) = (1 / real ?w, 1 / real ?h)"
    using b(1) wh by (simp add: backed_def texel_ok_def)
  let ?f = "advectionShader (texture2D ?gl (texture (readFBO vel)))
              (texture2D ?gl (texture (readFBO vel))) (texelSize (readFBO vel))
              (velocityDissipation (config s)) dt"
  obtain gl1 where c: "blit ?gl (Some (writeFBO vel)) ?f = Inr gl1"
    and px: "\<forall>a c. a < width (writeFBO vel) \<and> c < height (writeFBO vel) \<longrightarrow>
              grid gl1 (writeFBO vel) a c = store_format (internalFormat (writeFBO vel))
                 (?f (pixel_uv (width (writeFBO vel)) (height (writeFBO vel)) a c))"
    using blit_backed [OF f(2) b(2), of ?f] by blast
  have res: "advectVelocity s dt = Inr (s\<lparr>glctx := gl1, velocity := Some (swap vel)\<rparr>)"
    using assms(2) c by (simp add: advectVelocity_def)
  have "\<forall>i j. i < ?w \<and> j < ?h \<longrightarrow>
        xy (texture2D ?gl (texture (readFBO vel)) (pixel_uv ?w ?h i j))
          = xy (grid ?gl (readFBO vel) i j) \<and>
        xy (grid gl1 (writeFBO vel) i j) =
          scale2
            (xy (texture2D ?gl (texture (readFBO vel))
                   (backtrace (pixel_uv ?w ?h i j)
                      (xy (texture2D ?gl (texture (readFBO vel)) (pixel_uv ?w ?h i j)))
                      dt (1 / real ?w, 1 / real ?h))))
            (velocityDissipation (config s))"
    using px wh fm e texture2D_backed(1) [OF b(1) wh(1,2)]
    by (simp add: advectionShader_backtrace ts xy_scale4)
  then show ?thesis
    using res by (intro exI [of _ "s\<lparr>glctx := gl1, velocity := Some (swap vel)\<rparr>"]) simp
qed

lemma curlShader_texel:
  assumes "backed gl rd" "width rd = w" "height rd = h" "i < w" "j < h"
  shows "x4 (curlShader (texture2D gl (texture rd)) (texelSize rd) (pixel_uv w h i j))
         = curl_grid w h (grid gl rd) i j"
proof -
  have ts: "texelSize rd = (1 / real w, 1 / real h)"
    using assms(1,2,3) by (simp add: backed_def texel_ok_def)
  note a = texture2D_backed [OF assms]
  show ?thesis by (simp add: curlShader_def Let_def ts a curl_grid_def)
qed

lemma vorticityShader_texel:
  assumes "backed gl rd" "backed gl cu" "width rd = w" "height rd = h"
    "width cu = w" "height cu = h" "i < w" "j < h"
  shows "xy (vorticityShader (texture2D gl (texture rd)) (texture2D gl (texture cu))
               (texelSize rd) k dt (pixel_uv w h i j))
         = add2 (xy (grid gl rd i j))
             (scale2 (confinement_force w h (scalar_grid gl cu) k i j) dt)"
proof -
  have ts: "texelSize rd = (1 / real w, 1 / real h)"
    using assms(1,3,4) by (simp add: backed_def texel_ok_def)
  note a = texture2D_backed(1) [OF assms(1,3,4,7,8)]
  note b = texture2D_backed [OF assms(2,5,6,7,8)]
  show ?thesis
    by (simp add: vorticityShader_def Let_def ts a b confinement_force_def rotate90_def
        normalize_eps_def shader_gradient_def scalar_grid_def)
qed

lemma confinement_force_cong:
  assumes "\<forall>a c. a < w \<and> c < h \<longrightarrow> p a c = q a c" "i < w" "j < h"
  shows "confinement_force w h p k i j = confinement_force w h q k i j"
proof -
  have "i - 1 < w" "min (i + 1) (w - 1) < w" "j - 1 < h" "min (j + 1) (h - 1) < h"
    using assms(2,3) by auto
  then show ?thesis
    using assms by (simp add: confinement_force_def shader_gradient_def)
qed

lemma applyVorticity_texel:
  assumes "sim_wf s" and "velocity s = Some vel"
  shows "\<exists>s'. applyVorticity s dt = Inr s' \<and> velocity s' = Some (swap vel) \<and>
     (\<forall>i j. i < fst (simSize s) \<and> j < snd (simSize s) \<longrightarrow>
        xy (grid (glctx s') (readFBO (swap vel)) i j) =
          add2 (xy (grid (glctx s) (readFBO vel) i j))
            (scale2
               (confinement_force (fst (simSize s)) (snd (simSize s))
                  (curl_grid (fst (simSize s)) (snd (simSize s)) (grid (glctx s) (readFBO vel)))
                  (curlStrength (config s)) i j)
               dt))"
proof -
  let ?w = "fst (simSize s)" and ?h = "snd (simSize s)"
  let ?gl = "glctx s"
  from assms(1) obtain vel' den prs :: doubleFBO and dv cu where f: "velocity s = Some vel'"
    "curl s = Some cu" "quadVAO ?gl"
    and bk: "\<forall>t \<in> set [readFBO vel', writeFBO vel', readFBO den, writeFBO den, readFBO prs,
                 writeFBO prs, dv, cu].
        backed ?gl t \<and> width t = ?w \<and> height t = ?h"
    and di: "distinct (map texture [readFBO vel', writeFBO vel', readFBO den, writeFBO den,
        readFBO prs, writeFBO prs, dv, cu])"
    and fm: "internalFormat (writeFBO vel') = RG16F"
    by (rule sim_wfE)
  have e: "vel' = vel" using f assms by simp
  have b: "backed ?gl (readFBO vel)" "backed ?gl (writeFBO vel)" "backed ?gl cu"
    and wh: "width (readFBO vel) = ?w" "height (readFBO vel) = ?h"
      "width (writeFBO vel) = ?w" "height (writeFBO vel) = ?h" "width cu = ?w" "height cu = ?h"
    using bk unfolding e by simp_all
  have ne: "texture (readFBO vel) \<noteq> texture cu" "texture (writeFBO vel) \<noteq> texture cu"
    using di unfolding e by auto
  let ?c = "curlShader (texture2D ?gl (texture (readFBO vel))) (texelSize (readFBO vel))"
  obtain gl1 where c: "blit ?gl (Some cu) ?c = Inr gl1" "draws_only ?gl gl1"
    and cx: "\<forall>a c. a < width cu \<and> c < height cu \<longrightarrow>
              grid gl1 cu a c = store_format (internalFormat cu)
                 (?c (pixel_uv (width cu) (height cu) a c))"
    and oth: "\<forall>m. m \<noteq> texture cu \<longrightarrow> gl_textures gl1 m = gl_textures ?gl m"
    using blit_backed [OF f(3) b(3), of ?c] by blast
  have q1: "quadVAO gl1" using c(2) f(3) by (simp add: draws_only_def)
  have b1: "backed gl1 (readFBO vel)" "backed gl1 (writeFBO vel)" "backed gl1 cu"
    using draws_only_backed [OF c(2)] b by simp_all
  have cg: "\<forall>a c. a < ?w \<and> c < ?h \<longrightarrow>
      scalar_grid gl1 cu a c = curl_grid ?w ?h (grid ?gl (readFBO vel)) a c"
    using cx wh curlShader_texel [OF b(1) wh(1,2)] by (simp add: scalar_grid_def)
  have rd: "grid gl1 (readFBO vel) = grid ?gl (readFBO vel)"
    using oth ne(1) by (intro grid_unchanged) simp
  let ?v = "vorticityShader (texture2D gl1 (texture (readFBO vel)))
              (texture2D gl1 (texture cu)) (texelSize (readFBO vel))
              (curlStrength (config s)) dt"
  obtain gl2 where v: "blit gl1 (Some (writeFBO vel)) ?v = Inr gl2"
    and px: "\<forall>a c. a < width (writeFBO vel) \<and> c < height (writeFBO vel) \<longrightarrow>
              grid gl2 (writeFBO vel) a c = store_format (internalFormat (writeFBO vel))
                 (?v (pixel_uv (width (writeFBO vel)) (height (writeFBO vel)) a c))"
    using blit_backed [OF q1 b1(2), of ?v] by blast
  have res: "applyVorticity s dt = Inr (s\<lparr>glctx := gl2, velocity := Some (swap vel)\<rparr>)"
    using assms(2) f(2) c(1) v by (simp add: applyVorticity_def)
  have "\<forall>i j. i < ?w \<and> j < ?h \<longrightarrow>
        xy (grid gl2 (writeFBO vel) i j) =
          add2 (xy (grid ?gl (readFBO vel) i j))
            (scale2
               (confinement_force ?w ?h (curl_grid ?w ?h (grid ?gl (readFBO vel)))
                  (curlStrength (config s)) i j)
               dt)"
  proof (intro allI impI)
    fix i j assume ij: "i < ?w \<and> j < ?h"
    then have "xy (grid gl2 (writeFBO vel) i j) = xy (?v (pixel_uv ?w ?h i j))"
      using px wh fm e by simp
    also have "\<dots> = add2 (xy (grid gl1 (readFBO vel) i j))
             (scale2 (confinement_force ?w ?h (scalar_grid gl1 cu) (curlStrength (config s)) i j) dt)"
      using vorticityShader_texel [OF b1(1,3) wh(1,2,5,6), of i j] ij by simp
    also have "confinement_force ?w ?h (scalar_grid gl1 cu) (curlStrength (config s)) i j
        = confinement_force ?w ?h (curl_grid ?w ?h (grid ?gl (readFBO vel)))
            (curlStrength (config s)) i j"
      using confinement_force_cong [OF cg, of i j] ij by simp
    finally show "xy (grid gl2 (writeFBO vel) i j) =
          add2 (xy (grid ?gl (readFBO vel) i j))
            (scale2
               (confinement_force ?w ?h (curl_grid ?w ?h (grid ?gl (readFBO vel)))
                  (curlStrength (config s)) i j)
               dt)"
      by (simp add: rd)
  qed
  then show ?thesis
    using res by (intro exI [of _ "s\<lparr>glctx := gl2, velocity := Some (swap vel)\<rparr>"]) simp
qed

lemma backed_example:
  "backed example_gl (example_target 0 2 RG16F RG)"
  "backed example_gl (example_target 2 2 RG16F RG)"
  "backed example_gl (example_target 4 2 RGBA16F RGBA)"
  "backed example_gl (example_target 6 2 RGBA16F RGBA)"
  "backed example_gl (example_target 8 2 R16F RED)"
  "backed example_gl (example_target 10 2 R16F RED)"
  "backed example_gl (example_target 12 2 R16F RED)"
  "backed example_gl (example_target 14 2 R16F RED)"
  by (simp_all add: backed_def example_gl_def example_gl0_def example_target_def
      example_texture_def texel_ok_def)

lemma example_target_sel:
  "texture (example_target n w f g) = n" "fbo (example_target n w f g) = Suc n"
  "width (example_target n w f g) = w" "height (example_target n w f g) = w"
  "internalFormat (example_target n w f g) = f"
  by (simp_all add: example_target_def)

lemma field_targets_example:
  "field_targets example_sim =
     [example_target 0 2 RG16F RG, example_target 2 2 RG16F RG,
      example_target 4 2 RGBA16F RGBA, example_target 6 2 RGBA16F RGBA,
      example_target 8 2 R16F RED, example_target 10 2 R16F RED,
      example_target 12 2 R16F RED, example_target 14 2 R16F RED]"
  by (simp add: field_targets_def double_targets_def single_targets_def example_sim_def
      example_velocity_def example_density_def example_pressure_def)

lemma sim_wf_example: "sim_wf example_sim"
proof -
  have "glctx example_sim = example_gl" "simSize example_sim = (2, 2)"
    by (simp_all add: example_sim_def)
  then show ?thesis
    unfolding sim_wf_def field_targets_example
    by (simp add: ready_example backed_example example_target_sel)
qed

lemma field_targets_vortex: "field_targets vortex_sim = field_targets example_sim"
  by (simp add: field_targets_def vortex_sim_def)

lemma backed_vortex:
  "backed example_gl t \<Longrightarrow> texture t \<noteq> 0 \<Longrightarrow> backed (glctx vortex_sim) t"
  "backed (glctx vortex_sim) (example_target 0 2 RG16F RG)"
proof -
  show "backed example_gl t \<Longrightarrow> texture t \<noteq> 0 \<Longrightarrow> backed (glctx vortex_sim) t"
    by (simp add: backed_def vortex_sim_def)
  show "backed (glctx vortex_sim) (example_target 0 2 RG16F RG)"
    using backed_example(1)
    by (simp add: backed_def vortex_sim_def example_target_def example_texture_def)
qed

lemma sim_wf_vortex: "sim_wf vortex_sim"
proof -
  have "simSize vortex_sim = (2, 2)" "ready vortex_sim"
    using ready_example by (simp_all add: vortex_sim_def example_sim_def ready_def example_gl_def)
  then show ?thesis
    unfolding sim_wf_def field_targets_vortex field_targets_example
    by (simp add: backed_example backed_vortex example_target_sel)
qed

lemma vortex_values:
  "confinement_force 2 2 (curl_grid 2 2 (grid (glctx vortex_sim) (readFBO example_velocity)))
     11 0 0 = (0, 1100000 / 100001)"
  "confinement_force 2 2 (curl_grid 2 2 (grid (glctx vortex_sim) (readFBO example_velocity)))
     11 (Suc 0) (Suc 0) = (0, - (2200000 / 100001))"
  "xy (grid (glctx vortex_sim) (readFBO example_velocity) 0 0) = (0, 0)"
  "xy (grid (glctx vortex_sim) (readFBO example_velocity) (Suc 0) (Suc 0)) = (0, 2)"
  by (simp_all add: confinement_force_def shader_gradient_def
      normalize_eps_def rotate90_def length2_def curl_grid_def grid_def vortex_sim_def
      example_velocity_def example_target_def example_texture_def example_gl_def)

subsection \<open>The force of the vorticity pass and the gradient of the curl magnitude\<close>

text \<open>
  The vector that the shader normalises has the components of the gradient of \<open>|curl|\<close>
  in the other order, so the shader's \<open>(g.y, -g.x)\<close> of it is the gradient with its
  second component negated.
\<close>

lemma isometry_mirror_y: "isometry mirror_y"
  by (auto simp: isometry_def mirror_y_def)

lemma confinement_force_mirror:
  "confinement_force w h c k i j = signed_force mirror_y w h c k i j"
  by (simp add: confinement_force_def signed_force_def shader_gradient_def
      abs_curl_gradient_def normalize_eps_def rotate90_def mirror_y_def length2_def
      add.commute)

lemma scale2_scale2: "scale2 (scale2 v a) c = scale2 v (a * c)"
  by (cases v) simp

lemma add2_zero: "add2 (0, 0) v = v"
  by (cases v) simp

lemma length2_scale2: "length2 (scale2 v k) = \<bar>k\<bar> * length2 v"
proof (cases v)
  case (Pair a c)
  have "a * k * (a * k) + c * k * (c * k) = k\<^sup>2 * (a * a + c * c)"
    by (simp add: power2_eq_square algebra_simps)
  then show ?thesis
    by (simp add: Pair length2_def real_sqrt_mult)
qed

lemma isometry_length2:
  assumes "isometry turn"
  shows "length2 (turn v) = length2 v"
proof -
  from assms have "dot2 (turn v) (turn v) = dot2 v v"
    unfolding isometry_def by blast
  then show ?thesis by (simp add: length2_def)
qed

lemma length2_vertical: "length2 (0, c) = \<bar>c\<bar>"
  by (simp add: length2_def)

lemma vortex_curl:
  "curl_grid 2 2 (grid (glctx vortex_sim) (readFBO example_velocity)) 0 0 = - 1"
  "curl_grid 2 2 (grid (glctx vortex_sim) (readFBO example_velocity)) 0 (Suc 0) = 2"
  "abs_curl_gradient 2 2
     (curl_grid 2 2 (grid (glctx vortex_sim) (readFBO example_velocity))) 0 0 = (0, 1)"
  "abs_curl_gradient 2 2
     (curl_grid 2 2 (grid (glctx vortex_sim) (readFBO example_velocity))) 0 (Suc 0) = (0, 1)"
  "xy (grid (glctx vortex_sim) (readFBO example_velocity) 0 (Suc 0)) = (0, 0)"
  "normalize_eps (0, 1) = (0, 100000 / 100001)"
  by (simp_all add: abs_curl_gradient_def normalize_eps_def length2_def curl_grid_def
      grid_def vortex_sim_def example_velocity_def example_target_def example_texture_def
      example_gl_def)

lemma vortex_force_row1:
  "confinement_force 2 2 (curl_grid 2 2 (grid (glctx vortex_sim) (readFBO example_velocity)))
     11 0 (Suc 0) = (0, - (2200000 / 100001))"
  by (simp add: confinement_force_def shader_gradient_def
      normalize_eps_def rotate90_def length2_def curl_grid_def grid_def vortex_sim_def
      example_velocity_def example_target_def example_texture_def example_gl_def)

lemma vortex_claimed:
  "claimed_velocity turn 2 2 (grid (glctx vortex_sim) (readFBO example_velocity))
     11 dt 0 0 = scale2 (turn (0, 100000 / 100001)) (11 * dt)"
  "claimed_velocity turn 2 2 (grid (glctx vortex_sim) (readFBO example_velocity))
     11 dt 0 (Suc 0) = scale2 (turn (0, 100000 / 100001)) (22 * dt)"
  by (simp_all add: claimed_velocity_def claimed_force_def vortex_curl vortex_values
      scale2_scale2 add2_zero)

lemma vortex_signed:
  "signed_force turn 2 2 (curl_grid 2 2 (grid (glctx vortex_sim) (readFBO example_velocity)))
     11 0 0 = scale2 (turn (0, 100000 / 100001)) (- 11)"
  "signed_force turn 2 2 (curl_grid 2 2 (grid (glctx vortex_sim) (readFBO example_velocity)))
     11 0 (Suc 0) = scale2 (turn (0, 100000 / 100001)) 22"
  by (simp_all add: signed_force_def vortex_curl scale2_scale2)


section \<open>Every reachable simulation is well formed\<close>

text \<open>
  The constructor allocates every field and at least one bloom level, each with a fresh
  texture; a resize reallocates the storage of a field in place and replaces the bloom
  levels by fresh ones; the passes of a tick and of a render only draw, and swap
  double-buffered fields. So every simulation that the constructor, \<^verbatim>\<open>resize\<close>,
  \<^verbatim>\<open>step\<close>, \<^verbatim>\<open>render\<close> and \<^verbatim>\<open>updateConfig\<close> lead to satisfies \<open>sim_inv\<close>, and is
  well formed (\<open>sim_wf\<close>) once the full-screen quad is initialised.
\<close>

lemma owned_Nil [simp]: "owned gl []"
  by (simp add: owned_def)

lemma owned_rotate: "owned gl (a @ c) = owned gl (c @ a)"
  by (auto simp: owned_def)

lemma owned_append: "owned gl (a @ c) \<Longrightarrow> owned gl a \<and> owned gl c"
  by (auto simp: owned_def)

lemma owned_fbo_distinct:
  assumes "owned gl ts" "t \<in> set ts" "u \<in> set ts" "fbo t = fbo u"
  shows "texture t = texture u"
proof -
  have "backed gl t" "backed gl u" using assms by (auto simp: owned_def list_all_iff)
  then show ?thesis using assms(4) by (simp add: backed_def)
qed

lemma draws_only_owned: "draws_only gl gl1 \<Longrightarrow> owned gl ts \<Longrightarrow> owned gl1 ts"
  by (auto simp: owned_def list_all_iff draws_only_backed) (simp_all add: draws_only_def)

lemma createFBO_owned:
  assumes "createFBO gl w h ifmt fmt ty filt = Inr (t, gl1)" "owned gl ts" "0 < w" "0 < h"
  shows "owned gl1 (t # ts)" "width t = w" "height t = h" "internalFormat t = ifmt"
proof -
  note c = createFBO_Inr(2,3) [OF assms(1)]
  have t: "backed gl1 t" "texture t = gl_next gl" "fbo t = Suc (gl_next gl)"
    "gl_next gl1 = Suc (Suc (gl_next gl))"
    using assms(3,4) by (simp_all add: c backed_def texel_ok_def)
  have old: "\<forall>u \<in> set ts. backed gl1 u \<and> texture u < gl_next gl \<and> fbo u < gl_next gl"
  proof
    fix u assume "u \<in> set ts"
    then have u: "backed gl u" "texture u < gl_next gl" "fbo u < gl_next gl"
      using assms(2) by (auto simp: owned_def list_all_iff)
    then show "backed gl1 u \<and> texture u < gl_next gl \<and> fbo u < gl_next gl"
      by (auto simp: c(2) backed_def split: option.splits)
  qed
  have fresh: "texture t \<notin> texture ` set ts" using old t(2) by auto
  have "list_all (\<lambda>t. backed gl1 t \<and> texture t < gl_next gl1 \<and> fbo t < gl_next gl1) (t # ts)"
    unfolding list_all_iff using t old by (auto simp: less_Suc_eq)
  moreover have "distinct (map texture (t # ts))"
    using assms(2) fresh by (simp add: owned_def)
  ultimately show "owned gl1 (t # ts)" by (simp add: owned_def)
  show "width t = w" "height t = h" "internalFormat t = ifmt" by (simp_all add: c(1))
qed

lemma resizeFBO_owned:
  assumes "resizeFBO gl t w h = (t', gl1)" "owned gl (t # ts)" "0 < w" "0 < h"
  shows "owned gl1 (t' # ts)" "width t' = w" "height t' = h"
    "internalFormat t' = internalFormat t" "texture t' = texture t"
proof -
  have bt: "backed gl t" "texture t < gl_next gl" "fbo t < gl_next gl"
    and nt: "texture t \<notin> texture ` set ts"
    using assms(2) by (auto simp: owned_def)
  note r = resizeFBO_target [OF assms(1)]
  have tk: "texel_ok t" using bt(1) by (simp add: backed_def)
  show "width t' = w" "height t' = h" "internalFormat t' = internalFormat t"
    "texture t' = texture t"
    using r(1,3,4,5) [OF tk] by simp_all
  have n: "gl_next gl1 = gl_next gl" "gl_framebuffers gl1 = gl_framebuffers gl"
    using assms(1) by (auto simp: resizeFBO_def split: if_splits option.splits)
  have new: "backed gl1 t'"
    using assms(1,3,4) bt(1)
    by (auto simp: resizeFBO_def backed_def texel_ok_def assignTexelSize_def
        split: if_splits option.splits)
  have old: "\<And>u. u \<in> set ts \<Longrightarrow> backed gl1 u"
  proof -
    fix u assume u: "u \<in> set ts"
    then have "backed gl u" using assms(2) by (auto simp: owned_def list_all_iff)
    moreover have "texture u \<noteq> texture t" using nt u by (metis imageI)
    ultimately show "backed gl1 u"
      using assms(1) by (auto simp: resizeFBO_def backed_def split: if_splits option.splits)
  qed
  show "owned gl1 (t' # ts)"
    using assms(2) new old bt n r(1,2) [OF tk]
    by (auto simp: owned_def list_all_iff)
qed

lemma deleteFBO_owned:
  assumes "owned gl (t # ts)"
  shows "owned (deleteFBO gl (Some t)) ts"
proof -
  have "\<And>u. u \<in> set ts \<Longrightarrow> backed (deleteFBO gl (Some t)) u"
  proof -
    fix u assume u: "u \<in> set ts"
    then have "backed gl u" using assms by (auto simp: owned_def list_all_iff)
    moreover have "texture t \<notin> texture ` set ts" using assms by (simp add: owned_def)
    then have "texture u \<noteq> texture t" using u by (metis imageI)
    ultimately have b: "backed gl u" "texture u \<noteq> texture t" by simp_all
    have "fbo u \<noteq> fbo t"
      using owned_fbo_distinct [OF assms, of u t] u b(2) by auto
    then show "backed (deleteFBO gl (Some t)) u"
      using b by (simp add: deleteFBO_def backed_def)
  qed
  then show ?thesis using assms by (auto simp: owned_def list_all_iff deleteFBO_def)
qed

lemma owned_swap2: "owned gl (a # c # r) = owned gl (c # a # r)"
  by (auto simp: owned_def)

lemma resizeDouble_owned:
  assumes "resizeDouble gl fld w h ifmt fmt filt = Inr (d, gl1)"
    and "owned gl (double_targets fld @ rest)" and "0 < w" and "0 < h"
    and "list_all (\<lambda>t. internalFormat t = ifmt) (double_targets fld)"
  shows "owned gl1 (double_targets (Some d) @ rest)"
    and "list_all (\<lambda>t. width t = w \<and> height t = h \<and> internalFormat t = ifmt)
           (double_targets (Some d))"
proof -
  have "owned gl1 (double_targets (Some d) @ rest) \<and>
        list_all (\<lambda>t. width t = w \<and> height t = h \<and> internalFormat t = ifmt)
           (double_targets (Some d))"
  proof (cases fld)
    case None
    then obtain t gl0 u where 1: "createFBO gl w h ifmt fmt HALF_FLOAT filt = Inr (t, gl0)"
      and 2: "createFBO gl0 w h ifmt fmt HALF_FLOAT filt = Inr (u, gl1)"
      and d: "d = \<lparr>readFBO = t, writeFBO = u\<rparr>"
      using assms(1) by (auto simp: resizeDouble_def createDoubleFBO_def split: sum.splits)
    have o: "owned gl rest" using assms(2) None by (simp add: double_targets_def)
    note a = createFBO_owned [OF 1 o assms(3,4)]
    note b = createFBO_owned [OF 2 a(1) assms(3,4)]
    have "owned gl1 (t # u # rest)" using b(1) by (simp add: owned_swap2)
    then show ?thesis using a b by (simp add: double_targets_def d)
  next
    case (Some d0)
    obtain r1 gl0 where 1: "resizeFBO gl (readFBO d0) w h = (r1, gl0)"
      by (cases "resizeFBO gl (readFBO d0) w h")
    obtain w1 gl2 where 2: "resizeFBO gl0 (writeFBO d0) w h = (w1, gl2)"
      by (cases "resizeFBO gl0 (writeFBO d0) w h")
    have d: "d = d0\<lparr>readFBO := r1, writeFBO := w1\<rparr>" "gl1 = gl2"
      using assms(1) by (simp_all add: resizeDouble_def Some 1 2)
    have o: "owned gl (readFBO d0 # writeFBO d0 # rest)"
      using assms(2) Some by (simp add: double_targets_def)
    note a = resizeFBO_owned [OF 1 o assms(3,4)]
    have "owned gl0 (writeFBO d0 # r1 # rest)" using a(1) by (simp add: owned_swap2)
    note b = resizeFBO_owned [OF 2 this assms(3,4)]
    have "owned gl1 (r1 # w1 # rest)" using b(1) by (simp add: owned_swap2 d)
    then show ?thesis using a b assms(5) Some by (simp add: double_targets_def d)
  qed
  then show "owned gl1 (double_targets (Some d) @ rest)"
    and "list_all (\<lambda>t. width t = w \<and> height t = h \<and> internalFormat t = ifmt)
           (double_targets (Some d))"
    by simp_all
qed

lemma resizeSingle_owned:
  assumes "resizeSingle gl fld w h = Inr (t, gl1)"
    and "owned gl (single_targets fld @ rest)" and "0 < w" and "0 < h"
    and "list_all (\<lambda>t. internalFormat t = R16F) (single_targets fld)"
  shows "owned gl1 (t # rest)" and "width t = w \<and> height t = h \<and> internalFormat t = R16F"
proof -
  have "owned gl1 (t # rest) \<and> width t = w \<and> height t = h \<and> internalFormat t = R16F"
  proof (cases fld)
    case None
    then have 1: "createFBO gl w h R16F RED HALF_FLOAT NEAREST = Inr (t, gl1)"
      using assms(1) by (simp add: resizeSingle_def)
    have o: "owned gl rest" using assms(2) None by (simp add: single_targets_def)
    show ?thesis using createFBO_owned [OF 1 o assms(3,4)] by simp
  next
    case (Some t0)
    then have 1: "resizeFBO gl t0 w h = (t, gl1)"
      using assms(1) by (simp add: resizeSingle_def)
    have o: "owned gl (t0 # rest)" using assms(2) Some by (simp add: single_targets_def)
    show ?thesis
      using resizeFBO_owned [OF 1 o assms(3,4)] assms(5) Some by (simp add: single_targets_def)
  qed
  then show "owned gl1 (t # rest)" and "width t = w \<and> height t = h \<and> internalFormat t = R16F"
    by simp_all
qed

lemma delete_levels_owned:
  "owned gl (concat (map (\<lambda>l. [buffer l, temp l]) ls) @ rest) \<Longrightarrow>
   owned (foldl (\<lambda>gl level. deleteFBO (deleteFBO gl (Some (buffer level)))
                                      (Some (temp level))) gl ls) rest"
proof (induction ls arbitrary: gl)
  case Nil
  then show ?case by simp
next
  case (Cons l ls)
  have "owned gl (buffer l # temp l # concat (map (\<lambda>l. [buffer l, temp l]) ls) @ rest)"
    using Cons.prems by simp
  then have "owned (deleteFBO gl (Some (buffer l)))
               (temp l # concat (map (\<lambda>l. [buffer l, temp l]) ls) @ rest)"
    by (rule deleteFBO_owned)
  then have "owned (deleteFBO (deleteFBO gl (Some (buffer l))) (Some (temp l)))
               (concat (map (\<lambda>l. [buffer l, temp l]) ls) @ rest)"
    by (rule deleteFBO_owned)
  from Cons.IH [OF this] show ?case by simp
qed

lemma ensureDimension_pos [simp]: "0 < ensureDimension v"
  by (simp add: ensureDimension_def)

lemma bloom_loop_owned:
  "bloom_loop i n w h gl acc = Inr (levs, gl1) \<Longrightarrow>
   owned gl (concat (map (\<lambda>l. [buffer l, temp l]) acc) @ rest) \<Longrightarrow> 0 < w \<Longrightarrow> 0 < h \<Longrightarrow>
   owned gl1 (concat (map (\<lambda>l. [buffer l, temp l]) levs) @ rest)"
proof (induction i n w h gl acc rule: bloom_loop.induct)
  case (1 i levels w h gl acc)
  let ?ts = "\<lambda>ls. concat (map (\<lambda>l. [buffer l, temp l]) ls)"
  show ?case
  proof (cases "i < levels")
    case False
    then show ?thesis using "1.prems" by (subst (asm) bloom_loop.simps) auto
  next
    case True
    obtain t gl0 u gl2 where a: "createFBO gl w h RGBA16F RGBA HALF_FLOAT LINEAR = Inr (t, gl0)"
      and b: "createFBO gl0 w h RGBA16F RGBA HALF_FLOAT LINEAR = Inr (u, gl2)"
      and r: "(if ensureDimension (real w / 2) = 2 \<or> ensureDimension (real h / 2) = 2
               then Inr (acc @ [\<lparr>buffer = t, temp = u\<rparr>], gl2)
               else bloom_loop (i + 1) levels (ensureDimension (real w / 2))
                      (ensureDimension (real h / 2)) gl2 (acc @ [\<lparr>buffer = t, temp = u\<rparr>]))
              = Inr (levs, gl1)"
      using "1.prems"(1) True
      by (subst (asm) bloom_loop.simps) (auto simp: Let_def split: sum.splits)
    note oa = createFBO_owned(1) [OF a "1.prems"(2,3,4)]
    note ob = createFBO_owned(1) [OF b oa "1.prems"(3,4)]
    have o2: "owned gl2 (?ts (acc @ [\<lparr>buffer = t, temp = u\<rparr>]) @ rest)"
      using ob by (auto simp: owned_def)
    show ?thesis
    proof (cases "ensureDimension (real w / 2) = 2 \<or> ensureDimension (real h / 2) = 2")
      case stop: True
      then show ?thesis using r o2 by auto
    next
      case go: False
      then have "bloom_loop (i + 1) levels (ensureDimension (real w / 2))
                      (ensureDimension (real h / 2)) gl2 (acc @ [\<lparr>buffer = t, temp = u\<rparr>])
              = Inr (levs, gl1)" using r by simp
      from "1.IH" [OF True a refl b refl refl refl refl _ this o2] go
      show ?thesis by simp
    qed
  qed
qed

lemma setupBloomBuffers_owned:
  assumes "setupBloomBuffers s a c = Inr s'" and "owned (glctx s) (bloom_targets s @ rest)"
  shows "owned (glctx s') (bloom_targets s' @ rest)"
proof -
  let ?gl0 = "foldl (\<lambda>gl level. deleteFBO (deleteFBO gl (Some (buffer level)))
                                   (Some (temp level))) (glctx s) (bloom s)"
  obtain levs gl1 where l: "bloom_loop 0 (max 1 (bloomLevels (config s)))
       (ensureDimension (real a / 2)) (ensureDimension (real c / 2)) ?gl0 [] = Inr (levs, gl1)"
    and s': "s' = s\<lparr>glctx := gl1, bloom := levs\<rparr>"
    using assms(1) by (auto simp: setupBloomBuffers_def Let_def split: sum.splits)
  have "owned ?gl0 rest"
    using assms(2) unfolding bloom_targets_def by (rule delete_levels_owned)
  then have "owned ?gl0 (concat (map (\<lambda>l. [buffer l, temp l]) []) @ rest)" by simp
  from bloom_loop_owned [OF l this] show ?thesis by (simp add: s' bloom_targets_def)
qed

lemma setupBloomBuffers_nonempty:
  assumes "setupBloomBuffers s a c = Inr s'"
  shows "bloom s' \<noteq> []"
proof -
  have "length (bloom s') = length (bloom_dims (nat (max 1 (bloomLevels (config s))))
              (ensureDimension (real a / 2)) (ensureDimension (real c / 2)))"
    using arg_cong [OF setupBloomBuffers_dims [OF assms], of length] by simp
  moreover have "0 < nat (max 1 (bloomLevels (config s)))" by simp
  ultimately show ?thesis
    using bloom_dims_length [of "nat (max 1 (bloomLevels (config s)))"
        "ensureDimension (real a / 2)" "ensureDimension (real c / 2)"]
    by auto
qed

lemma resize_sim_inv:
  assumes r: "resize s w h = Inr s'"
    and o: "owned (glctx s) (field_targets s @ bloom_targets s)"
    and f: "formats_ok s"
    and same: "simSize s = (ensureDimension (real w / texelDownsample (config s)),
                 ensureDimension (real h / texelDownsample (config s))) \<Longrightarrow> sim_inv s"
  shows "sim_inv s'"
proof -
  have d: "texelDownsample (config s) \<noteq> 0" using r by (rule resize_Inr(1))
  let ?sw = "ensureDimension (real w / texelDownsample (config s))"
  let ?sh = "ensureDimension (real h / texelDownsample (config s))"
  show ?thesis
  proof (cases "fst (simSize s) = ?sw \<and> snd (simSize s) = ?sh")
    case True
    then have "s' = s\<lparr>canvasSize := (w, h)\<rparr>"
      using r d by (simp add: resize_def Let_def)
    moreover have "sim_inv s" using True same by (simp add: prod_eq_iff)
    ultimately show ?thesis
      by (simp add: sim_inv_def field_targets_def bloom_targets_def formats_ok_def)
  next
    case False
    let ?V = "double_targets (velocity s)" and ?D = "double_targets (density s)"
    let ?P = "double_targets (pressure s)" and ?Dv = "single_targets (divergence s)"
    let ?Cu = "single_targets (curl s)" and ?B = "bloom_targets s"
    obtain vel gl1 den gl2 prs gl3 dv gl4 cu gl5 where
      1: "resizeDouble (glctx s) (velocity s) ?sw ?sh RG16F RG LINEAR = Inr (vel, gl1)" and
      2: "resizeDouble gl1 (density s) ?sw ?sh RGBA16F RGBA LINEAR = Inr (den, gl2)" and
      3: "resizeDouble gl2 (pressure s) ?sw ?sh R16F RED NEAREST = Inr (prs, gl3)" and
      4: "resizeSingle gl3 (divergence s) ?sw ?sh = Inr (dv, gl4)" and
      5: "resizeSingle gl4 (curl s) ?sw ?sh = Inr (cu, gl5)" and
      6: "setupBloomBuffers
           (s\<lparr>canvasSize := (w, h), simSize := (?sw, ?sh), glctx := gl5,
              velocity := Some vel, density := Some den, pressure := Some prs,
              divergence := Some dv, curl := Some cu\<rparr>) w w = Inr s'"
      using r d False
      by (auto simp: resize_def Let_def and_then_eq_Inr)
    let ?s2 = "s\<lparr>canvasSize := (w, h), simSize := (?sw, ?sh), glctx := gl5,
              velocity := Some vel, density := Some den, pressure := Some prs,
              divergence := Some dv, curl := Some cu\<rparr>"
    let ?V' = "double_targets (Some vel)" and ?D' = "double_targets (Some den)"
    let ?P' = "double_targets (Some prs)"
    have fv: "list_all (\<lambda>t. internalFormat t = RG16F) ?V"
      and fd: "list_all (\<lambda>t. internalFormat t = RGBA16F) ?D"
      and fp: "list_all (\<lambda>t. internalFormat t = R16F) ?P"
      and fdv: "list_all (\<lambda>t. internalFormat t = R16F) ?Dv"
      and fcu: "list_all (\<lambda>t. internalFormat t = R16F) ?Cu"
      using f by (simp_all add: formats_ok_def)
    have o0: "owned (glctx s) (?V @ (?D @ ?P @ ?Dv @ ?Cu @ ?B))"
      using o by (simp add: field_targets_def)
    note a = resizeDouble_owned [OF 1 o0 _ _ fv, simplified]
    have "owned gl1 (?D @ (?P @ ?Dv @ ?Cu @ ?B @ ?V'))"
      using a(1) by (auto simp: owned_def)
    note b = resizeDouble_owned [OF 2 this _ _ fd, simplified]
    have "owned gl2 (?P @ (?Dv @ ?Cu @ ?B @ ?V' @ ?D'))"
      using b(1) by (auto simp: owned_def)
    note c = resizeDouble_owned [OF 3 this _ _ fp, simplified]
    have "owned gl3 (?Dv @ (?Cu @ ?B @ ?V' @ ?D' @ ?P'))"
      using c(1) by (auto simp: owned_def)
    note e = resizeSingle_owned [OF 4 this _ _ fdv, simplified]
    have "owned gl4 (?Cu @ (?B @ ?V' @ ?D' @ ?P' @ [dv]))"
      using e(1) by (auto simp: owned_def)
    note g = resizeSingle_owned [OF 5 this _ _ fcu, simplified]
    have "owned (glctx ?s2) (bloom_targets ?s2 @ (?V' @ ?D' @ ?P' @ [dv, cu]))"
      using g(1) by (auto simp: owned_def bloom_targets_def)
    from setupBloomBuffers_owned [OF 6 this]
    have ow: "owned (glctx s') (bloom_targets s' @ (?V' @ ?D' @ ?P' @ [dv, cu]))" .
    note fl = setupBloomBuffers_fields [OF 6]
    have ft: "field_targets s' = ?V' @ ?D' @ ?P' @ [dv, cu]"
      using fl by (simp add: field_targets_def single_targets_def)
    have "owned (glctx s') (field_targets s' @ bloom_targets s')"
      unfolding ft using ow by (subst owned_rotate) simp
    moreover have "list_all (\<lambda>t. width t = fst (simSize s') \<and> height t = snd (simSize s'))
       (field_targets s')"
      unfolding ft using a(2) b(2) c(2) e(2) g(2) fl(7)
      by (simp add: list_all_iff double_targets_def)
    moreover have "formats_ok s'"
      using a(2) b(2) c(2) e(2) g(2) fl
      by (simp add: formats_ok_def list_all_iff double_targets_def single_targets_def)
    moreover have "bloom s' \<noteq> []" using 6 by (rule setupBloomBuffers_nonempty)
    ultimately show ?thesis using fl by (simp add: sim_inv_def)
  qed
qed

lemma constructed_sim_inv:
  assumes "FluidSimulation gl cfg rs = Inr s"
  shows "sim_inv s"
proof -
  obtain s0 where r: "resize s0 (canvas_width gl) (canvas_height gl) = Inr s"
    and s0: "velocity s0 = None" "density s0 = None" "pressure s0 = None"
      "divergence s0 = None" "curl s0 = None" "bloom s0 = []" "simSize s0 = (0, 0)"
    using assms
    by (auto simp: FluidSimulation_def split: if_splits prod.splits)
  have "owned (glctx s0) (field_targets s0 @ bloom_targets s0)"
    by (simp add: field_targets_def bloom_targets_def double_targets_def single_targets_def s0)
  moreover have "formats_ok s0"
    by (simp add: formats_ok_def double_targets_def single_targets_def s0)
  moreover have "simSize s0 \<noteq> (ensureDimension (real (canvas_width gl) / texelDownsample (config s0)),
                 ensureDimension (real (canvas_height gl) / texelDownsample (config s0)))"
    using ensureDimension_pos [of "real (canvas_width gl) / texelDownsample (config s0)"]
    by (simp add: s0 del: ensureDimension_pos)
  ultimately show ?thesis using resize_sim_inv [OF r] by blast
qed

lemma swapped_or_same_refl [simp]: "swapped_or_same a a"
  by (simp add: swapped_or_same_def)

lemma swapped_or_same_swap [simp]: "swapped_or_same (Some d) (Some (swap d))"
  by (simp add: swapped_or_same_def)

lemma swapped_or_same_trans:
  "swapped_or_same a c \<Longrightarrow> swapped_or_same c e \<Longrightarrow> swapped_or_same a e"
  by (cases a) (auto simp: swapped_or_same_def)

lemma tick_rel_refl [simp]: "tick_rel s s"
  by (simp add: tick_rel_def)

lemma tick_rel_trans [trans]: "tick_rel a c \<Longrightarrow> tick_rel c e \<Longrightarrow> tick_rel a e"
  unfolding tick_rel_def
  by (auto intro: draws_only_trans swapped_or_same_trans)

lemma funpow_swap_cases: "(swap ^^ k) d = d \<or> (swap ^^ k) d = swap d"
  by (induction k) auto

lemma pressure_loop_draws_only:
  "pressure_loop i n gl p dv = Inr (p', gl') \<Longrightarrow> draws_only gl gl'"
proof (induction i n gl p dv rule: pressure_loop.induct)
  case (1 i n gl prs dv)
  show ?case
  proof (cases "i < n")
    case False
    then show ?thesis using "1.prems" by (subst (asm) pressure_loop.simps) simp
  next
    case True
    then obtain d gl1 where dv: "dv = Some d"
      and b: "blit gl (Some (writeFBO prs))
                (pressureShader (texture2D gl (texture (readFBO prs)))
                   (texture2D gl (texture d)) (texelSize (readFBO prs))) = Inr gl1"
      and r: "pressure_loop (i + 1) n gl1 (swap prs) dv = Inr (p', gl')"
      using "1.prems"
      by (subst (asm) pressure_loop.simps) (auto split: option.splits sum.splits)
    from "1.IH" [OF True dv b r] blit_draws_only [OF b] show ?thesis
      by (blast intro: draws_only_trans)
  qed
qed

lemma splat_tick_rel: "splat s x y dx dy c = Inr s' \<Longrightarrow> tick_rel s s'"
  by (auto simp: splat_def Let_def and_then_eq_Inr tick_rel_def split: option.splits
      dest!: blit_draws_only) (blast intro: draws_only_trans)

lemma applyPointer_tick_rel: "applyPointer s p rc = Inr (s', p') \<Longrightarrow> tick_rel s s'"
proof -
  assume a: "applyPointer s p rc = Inr (s', p')"
  have r: "tick_rel (s\<lparr>random := q\<rparr>) s' \<Longrightarrow> tick_rel s s'" for q
    by (simp add: tick_rel_def)
  from a have "s' = s \<or> tick_rel s s' \<or> (\<exists>q. tick_rel (s\<lparr>random := q\<rparr>) s')"
    by (auto simp: applyPointer_def Let_def and_then_eq_Inr
        split: if_splits prod.splits dest!: splat_tick_rel)
  then show ?thesis using r by auto
qed

lemma applyPointers_tick_rel: "applyPointers s ps rc = Inr (s', ps') \<Longrightarrow> tick_rel s s'"
proof (induction ps arbitrary: s s' ps')
  case Nil
  then show ?case by simp
next
  case (Cons p ps)
  then show ?case
    by (auto simp: and_then_eq_Inr dest!: applyPointer_tick_rel intro: tick_rel_trans)
qed

lemma advectVelocity_tick_rel: "advectVelocity s dt = Inr s' \<Longrightarrow> tick_rel s s'"
  by (auto simp: advectVelocity_def and_then_eq_Inr tick_rel_def split: option.splits
      dest!: blit_draws_only)

lemma advectDye_tick_rel: "advectDye s dt = Inr s' \<Longrightarrow> tick_rel s s'"
  by (auto simp: advectDye_def and_then_eq_Inr tick_rel_def split: option.splits
      dest!: blit_draws_only)

lemma applyVorticity_tick_rel: "applyVorticity s dt = Inr s' \<Longrightarrow> tick_rel s s'"
  by (auto simp: applyVorticity_def and_then_eq_Inr tick_rel_def split: option.splits
      dest!: blit_draws_only) (blast intro: draws_only_trans)

lemma computeDivergence_tick_rel: "computeDivergence s = Inr s' \<Longrightarrow> tick_rel s s'"
  by (auto simp: computeDivergence_def and_then_eq_Inr tick_rel_def split: option.splits
      dest!: blit_draws_only)

lemma subtractPressureGradient_tick_rel:
  "subtractPressureGradient s = Inr s' \<Longrightarrow> tick_rel s s'"
  by (auto simp: subtractPressureGradient_def and_then_eq_Inr tick_rel_def
      split: option.splits dest!: blit_draws_only)

lemma solvePressure_tick_rel:
  assumes "solvePressure s = Inr s'"
  shows "tick_rel s s'"
proof -
  obtain prs gl1 p' gl2 where p: "pressure s = Some prs"
    and b: "blit (glctx s) (Some (writeFBO prs))
              (clearShader (texture2D (glctx s) (texture (readFBO prs)))
                 (pressureDecay (config s))) = Inr gl1"
    and l: "pressure_loop 0 (pressureIterations (config s)) gl1 (swap prs) (divergence s)
              = Inr (p', gl2)"
    and s': "s' = s\<lparr>glctx := gl2, pressure := Some p'\<rparr>"
    using assms by (auto simp: solvePressure_def and_then_eq_Inr split: option.splits)
  have "draws_only (glctx s) gl2"
    using blit_draws_only [OF b] pressure_loop_draws_only [OF l] by (rule draws_only_trans)
  moreover have "p' = prs \<or> p' = swap prs"
    using pressure_loop_swaps [OF l]
      funpow_swap_cases [of "nat (pressureIterations (config s) - 0)" "swap prs"]
    by auto
  ultimately show ?thesis
    by (auto simp: tick_rel_def s' p swapped_or_same_def)
qed

lemma step_tick_rel:
  assumes "step s dt ps = Inr (s', ps')"
  shows "tick_rel s s'"
proof (cases "paused (config s)")
  case True
  then show ?thesis using assms by (simp add: step_def)
next
  case False
  let ?s1 = "s\<lparr>autoTimer := autoTimer s + dt, colorCycleTimer := colorCycleTimer s + dt\<rparr>"
  let ?rc = "cycleColors (config s) \<and> colorCycleTimer s + dt > colorCycleSpeed (config s)"
  let ?s2 = "if ?rc then ?s1\<lparr>colorCycleTimer := 0\<rparr> else ?s1"
  obtain s3 ps1 s4 s5 s6 s7 s8 where
    a: "applyPointers ?s2 ps ?rc = Inr (s3, ps1)" and
    b: "advectVelocity s3 (min dt (16 / 1000)) = Inr s4" and
    c: "applyVorticity s4 (min dt (16 / 1000)) = Inr s5" and
    d: "computeDivergence s5 = Inr s6" and
    e: "solvePressure s6 = Inr s7" and
    f: "subtractPressureGradient s7 = Inr s8" and
    g: "advectDye s8 (min dt (16 / 1000)) = Inr s'"
    using assms(1) False
    by (auto simp: step_def Let_def and_then_eq_Inr split: if_splits)
  have "tick_rel s ?s2" by (simp add: tick_rel_def)
  also have "tick_rel ?s2 s3" using a by (rule applyPointers_tick_rel)
  also have "tick_rel s3 s4" using b by (rule advectVelocity_tick_rel)
  also have "tick_rel s4 s5" using c by (rule applyVorticity_tick_rel)
  also have "tick_rel s5 s6" using d by (rule computeDivergence_tick_rel)
  also have "tick_rel s6 s7" using e by (rule solvePressure_tick_rel)
  also have "tick_rel s7 s8" using f by (rule subtractPressureGradient_tick_rel)
  also have "tick_rel s8 s'" using g by (rule advectDye_tick_rel)
  finally show ?thesis .
qed

lemma render_tick_rel:
  assumes "render s = Inr s'"
  shows "tick_rel s s'"
proof -
  obtain bt s1 where 1: "(if enableBloom (config s) \<and> length (bloom s) > 0
               then and_then (runBloom s) (\<lambda>(t, s1). Inr (Some t, s1))
               else Inr (None, s)) = Inr (bt, s1)"
    and 2: "(case density s1 of
       None \<Rightarrow> Inl TypeError
     | Some den \<Rightarrow>
         and_then (blit (glctx s1) None
                     (displayShader (texture2D (glctx s1) (texture (readFBO den)))
                        (texture2D (glctx s1)
                           (case bt of
                              None \<Rightarrow> texture (readFBO den)
                            | Some t \<Rightarrow> t))
                        (enableBloom (config s1)) (bloomIntensity (config s1))
                        (gamma (config s1)) (exposure (config s1)))) (\<lambda>gl1.
         Inr (s1\<lparr>glctx := gl1\<rparr>))) = Inr s'"
    using assms unfolding render_def and_then_eq_Inr by auto
  from 1 have a: "(\<exists>g. s1 = s\<lparr>glctx := g\<rparr>) \<and> draws_only (glctx s) (glctx s1)"
    by (auto split: if_splits simp: and_then_eq_Inr dest: runBloom_fields runBloom_draws_only
        intro: exI [of _ "glctx s"])
  from 2 have b: "(\<exists>g. s' = s1\<lparr>glctx := g\<rparr>) \<and> draws_only (glctx s1) (glctx s')"
    by (auto split: option.splits simp: and_then_eq_Inr dest: blit_draws_only)
  from a b have "draws_only (glctx s) (glctx s')" by (blast intro: draws_only_trans)
  moreover from a b have "\<exists>g. s' = s\<lparr>glctx := g\<rparr>" by auto
  ultimately show ?thesis by (auto simp: tick_rel_def)
qed

lemma owned_swap_mid: "owned gl (xs @ a # c # ys) = owned gl (xs @ c # a # ys)"
proof -
  have "set (xs @ a # c # ys) = set (xs @ c # a # ys)" by auto
  moreover have "distinct (map texture (xs @ a # c # ys)) =
      distinct (map texture (xs @ c # a # ys))"
    by auto
  ultimately show ?thesis by (simp only: owned_def list_all_iff)
qed

lemma owned_double_swapped:
  assumes "swapped_or_same a c"
  shows "owned gl (xs @ double_targets c @ ys) = owned gl (xs @ double_targets a @ ys)"
proof (cases a)
  case None
  then show ?thesis using assms by (simp add: swapped_or_same_def)
next
  case (Some d)
  then consider "c = Some d" | "c = Some (swap d)"
    using assms by (auto simp: swapped_or_same_def)
  then show ?thesis
  proof cases
    case 1
    then show ?thesis by (simp add: Some)
  next
    case 2
    then show ?thesis
      using owned_swap_mid [of gl xs "writeFBO d" "readFBO d" ys]
      by (simp add: Some double_targets_def)
  qed
qed

lemma list_all_double_swapped:
  "swapped_or_same a c \<Longrightarrow> list_all P (double_targets c) = list_all P (double_targets a)"
  by (cases a) (auto simp: swapped_or_same_def double_targets_def)

lemma swapped_or_same_None: "swapped_or_same a c \<Longrightarrow> c = None \<longleftrightarrow> a = None"
  by (auto simp: swapped_or_same_def)

lemma tick_rel_sim_inv:
  assumes "tick_rel s s'" "sim_inv s"
  shows "sim_inv s'"
proof -
  have sw: "swapped_or_same (velocity s) (velocity s')"
    "swapped_or_same (density s) (density s')" "swapped_or_same (pressure s) (pressure s')"
    and eq: "divergence s' = divergence s" "curl s' = curl s" "bloom s' = bloom s"
      "simSize s' = simSize s"
    and dr: "draws_only (glctx s) (glctx s')"
    using assms(1) by (simp_all add: tick_rel_def)
  let ?v = "double_targets (velocity s)" and ?d = "double_targets (density s)"
    and ?p = "double_targets (pressure s)"
  let ?v' = "double_targets (velocity s')" and ?d' = "double_targets (density s')"
    and ?p' = "double_targets (pressure s')"
  let ?r = "single_targets (divergence s) @ single_targets (curl s) @ bloom_targets s"
  have some: "velocity s' \<noteq> None" "density s' \<noteq> None" "pressure s' \<noteq> None"
    "divergence s' \<noteq> None" "curl s' \<noteq> None" "bloom s' \<noteq> []"
    using sw [THEN swapped_or_same_None] eq assms(2) by (simp_all add: sim_inv_def)
  have "owned (glctx s) (field_targets s @ bloom_targets s)"
    using assms(2) by (simp add: sim_inv_def)
  then have "owned (glctx s) ([] @ ?v @ (?d @ ?p @ ?r))"
    by (simp add: field_targets_def)
  then have "owned (glctx s) ([] @ ?v' @ (?d @ ?p @ ?r))"
    by (simp only: owned_double_swapped [OF sw(1)])
  then have "owned (glctx s) (?v' @ ?d @ (?p @ ?r))" by simp
  then have "owned (glctx s) (?v' @ ?d' @ (?p @ ?r))"
    by (simp only: owned_double_swapped [OF sw(2)])
  then have "owned (glctx s) ((?v' @ ?d') @ ?p @ ?r)" by simp
  then have "owned (glctx s) ((?v' @ ?d') @ ?p' @ ?r)"
    by (simp only: owned_double_swapped [OF sw(3)])
  then have "owned (glctx s) (field_targets s' @ bloom_targets s')"
    by (simp add: field_targets_def bloom_targets_def eq)
  then have o: "owned (glctx s') (field_targets s' @ bloom_targets s')"
    by (rule draws_only_owned [OF dr])
  have dims: "list_all (\<lambda>t. width t = fst (simSize s') \<and> height t = snd (simSize s'))
       (field_targets s')"
    using assms(2)
    by (simp add: sim_inv_def field_targets_def eq
        list_all_double_swapped [OF sw(1)] list_all_double_swapped [OF sw(2)]
        list_all_double_swapped [OF sw(3)])
  have fm: "formats_ok s'"
    using assms(2)
    by (simp add: sim_inv_def formats_ok_def eq
        list_all_double_swapped [OF sw(1)] list_all_double_swapped [OF sw(2)]
        list_all_double_swapped [OF sw(3)])
  show ?thesis using some o dims fm by (simp add: sim_inv_def)
qed

lemma reachable_sim_inv: "reachable s \<Longrightarrow> sim_inv s"
proof (induction rule: reachable.induct)
  case (constructed gl cfg rs s)
  then show ?case by (rule constructed_sim_inv)
next
  case (resized s w h s')
  from resized.hyps(2) show ?case
  proof (rule resize_sim_inv)
    show "owned (glctx s) (field_targets s @ bloom_targets s)"
      using resized.IH by (simp add: sim_inv_def)
    show "formats_ok s" using resized.IH by (simp add: sim_inv_def)
    show "sim_inv s" by (rule resized.IH)
  qed
next
  case (stepped s dt ps s' ps')
  from step_tick_rel [OF stepped.hyps(2)] stepped.IH show ?case by (rule tick_rel_sim_inv)
next
  case (rendered s s')
  from render_tick_rel [OF rendered.hyps(2)] rendered.IH show ?case by (rule tick_rel_sim_inv)
next
  case (configured s cfg)
  then show ?case
    by (simp add: sim_inv_def updateConfig_def field_targets_def bloom_targets_def
        formats_ok_def)
qed

lemma sim_inv_wf:
  assumes "sim_inv s" "quadVAO (glctx s)"
  shows "sim_wf s"
proof -
  have i: "velocity s \<noteq> None" "density s \<noteq> None" "pressure s \<noteq> None"
    "divergence s \<noteq> None" "curl s \<noteq> None"
    and ob: "owned (glctx s) (field_targets s @ bloom_targets s)"
    and dm: "list_all (\<lambda>t. width t = fst (simSize s) \<and> height t = snd (simSize s))
       (field_targets s)"
    and fm: "formats_ok s"
    using assms(1) by (simp_all add: sim_inv_def)
  have o: "owned (glctx s) (field_targets s)"
    using owned_append [OF ob] by simp
  have r: "ready s" using assms(2) i by (simp add: ready_def)
  have bk: "list_all (\<lambda>t. backed (glctx s) t \<and> width t = fst (simSize s) \<and>
                    height t = snd (simSize s)) (field_targets s)"
    using o dm by (simp add: owned_def list_all_iff)
  have ds: "distinct (map texture (field_targets s))" using o by (simp add: owned_def)
  obtain vel den prs :: doubleFBO and dv cu :: target where f: "velocity s = Some vel"
    "density s = Some den" "pressure s = Some prs" "divergence s = Some dv" "curl s = Some cu"
    using i by auto
  have "map internalFormat (field_targets s) =
       [RG16F, RG16F, RGBA16F, RGBA16F, R16F, R16F, R16F, R16F]"
    using fm
    by (simp add: formats_ok_def field_targets_def double_targets_def single_targets_def f)
  with r bk ds show ?thesis by (simp only: sim_wf_def simp_thms)
qed

lemma reachable_sim_wf: "reachable s \<Longrightarrow> quadVAO (glctx s) \<Longrightarrow> sim_wf s"
  by (simp add: reachable_sim_inv sim_inv_wf)

lemma reachable_bloom_nonempty: "reachable s \<Longrightarrow> bloom s \<noteq> []"
  using reachable_sim_inv [of s] by (simp add: sim_inv_def)


section \<open>The pressure solve\<close>

text \<open>
  C1. On a well-formed simulation (every simulation that the constructor leads to is
  one, by \<open>reachable_sim_wf\<close>) \<^verbatim>\<open>_solvePressure\<close> returns. It swaps the pressure
  field once for the decay pass and once for each Jacobi iteration, and the pressure
  read afterwards is, texel by texel, the result of \<^verbatim>\<open>pressureIterations\<close> Jacobi
  iterations (none when the number is not positive) applied to the prior pressure
  times \<^verbatim>\<open>pressureDecay\<close>; each iteration is
  \<open>(left + right + bottom + top - divergence) * 0.25\<close> with the neighbours clamped to the
  edge. With \<^verbatim>\<open>pressureIterations = 0\<close> the pressure read afterwards is exactly the
  prior pressure times \<^verbatim>\<open>pressureDecay\<close>.
\<close>

theorem pressure_solve:
  assumes "sim_wf s" and "pressure s = Some p" and "divergence s = Some dv"
  shows "\<exists>s'. solvePressure s = Inr s' \<and>
     pressure s' = Some ((swap ^^ Suc (nat (pressureIterations (config s)))) p) \<and>
     (\<forall>i j. i < fst (simSize s) \<and> j < snd (simSize s) \<longrightarrow>
        scalar_grid (glctx s')
            (readFBO ((swap ^^ Suc (nat (pressureIterations (config s)))) p)) i j =
          (jacobi_step (fst (simSize s)) (snd (simSize s)) (scalar_grid (glctx s) dv)
              ^^ nat (pressureIterations (config s)))
            (decay_grid (pressureDecay (config s)) (scalar_grid (glctx s) (readFBO p))) i j) \<and>
     (pressureIterations (config s) = 0 \<longrightarrow>
        pressure s' = Some (swap p) \<and>
        (\<forall>i j. i < fst (simSize s) \<and> j < snd (simSize s) \<longrightarrow>
           scalar_grid (glctx s') (readFBO (swap p)) i j =
             scalar_grid (glctx s) (readFBO p) i j * pressureDecay (config s)))"
proof -
  let ?w = "fst (simSize s)" and ?h = "snd (simSize s)"
  let ?n = "pressureIterations (config s)" and ?k = "pressureDecay (config s)"
  let ?gl = "glctx s"
  from assms(1) obtain vel den :: doubleFBO and prs dv' cu where f: "pressure s = Some prs" "divergence s = Some dv'"
    "quadVAO ?gl"
    and bk: "\<forall>t \<in> set [readFBO vel, writeFBO vel, readFBO den, writeFBO den, readFBO prs,
                 writeFBO prs, dv', cu].
        backed ?gl t \<and> width t = ?w \<and> height t = ?h"
    and di: "distinct (map texture [readFBO vel, writeFBO vel, readFBO den, writeFBO den,
        readFBO prs, writeFBO prs, dv', cu])"
    by (rule sim_wfE)
  have e: "prs = p" "dv' = dv" using f assms by simp_all
  have b: "backed ?gl (readFBO p)" "backed ?gl (writeFBO p)" "backed ?gl dv"
    and wh: "width (readFBO p) = ?w" "height (readFBO p) = ?h"
      "width (writeFBO p) = ?w" "height (writeFBO p) = ?h" "width dv = ?w" "height dv = ?h"
    using bk unfolding e by simp_all
  have ne: "texture (readFBO p) \<noteq> texture (writeFBO p)" "texture dv \<noteq> texture (readFBO p)"
    "texture dv \<noteq> texture (writeFBO p)"
    using di unfolding e by auto
  let ?f = "clearShader (texture2D ?gl (texture (readFBO p))) ?k"
  obtain gl1 where c: "blit ?gl (Some (writeFBO p)) ?f = Inr gl1" "draws_only ?gl gl1"
    and px: "\<forall>a c. a < width (writeFBO p) \<and> c < height (writeFBO p) \<longrightarrow>
              grid gl1 (writeFBO p) a c = store_format (internalFormat (writeFBO p))
                 (?f (pixel_uv (width (writeFBO p)) (height (writeFBO p)) a c))"
    and oth: "\<forall>m. m \<noteq> texture (writeFBO p) \<longrightarrow> gl_textures gl1 m = gl_textures ?gl m"
    using blit_backed [OF f(3) b(2), of ?f] by blast
  have q1: "quadVAO gl1" using c(2) f(3) by (simp add: draws_only_def)
  have b1: "backed gl1 (readFBO (swap p))" "backed gl1 (writeFBO (swap p))" "backed gl1 dv"
    using draws_only_backed [OF c(2)] b by simp_all
  have dec: "\<forall>a c. a < ?w \<and> c < ?h \<longrightarrow>
      scalar_grid gl1 (writeFBO p) a c = decay_grid ?k (scalar_grid ?gl (readFBO p)) a c"
    using px wh clearShader_texel [OF b(1) wh(1,2)] by (simp add: scalar_grid_def)
  have dvg: "scalar_grid gl1 dv = scalar_grid ?gl dv"
    using oth ne(3) by (intro ext) (simp add: scalar_grid_def grid_def)
  from pressure_loop_grid [OF q1 b1, of ?w ?h 0 ?n] ne wh
  obtain p' gl' where r: "pressure_loop 0 ?n gl1 (swap p) (Some dv) = Inr (p', gl')"
    "p' = (swap ^^ nat ?n) (swap p)"
    and g: "\<forall>a c. a < ?w \<and> c < ?h \<longrightarrow>
              scalar_grid gl' (readFBO p') a c =
                (jacobi_step ?w ?h (scalar_grid gl1 dv) ^^ nat ?n)
                   (scalar_grid gl1 (writeFBO p)) a c"
    by auto
  have p': "p' = (swap ^^ Suc (nat ?n)) p" using r(2) by (simp add: funpow_swap1)
  have res: "solvePressure s = Inr (s\<lparr>glctx := gl', pressure := Some p'\<rparr>)"
    using assms(2,3) c(1) r(1) by (simp add: solvePressure_def)
  have main: "\<forall>i j. i < ?w \<and> j < ?h \<longrightarrow>
        scalar_grid gl' (readFBO p') i j =
          (jacobi_step ?w ?h (scalar_grid ?gl dv) ^^ nat ?n)
            (decay_grid ?k (scalar_grid ?gl (readFBO p))) i j"
    using g jacobi_funpow_cong [OF dec, of "nat ?n" "scalar_grid ?gl dv"] by (simp add: dvg)
  have zero: "?n = 0 \<longrightarrow> p' = swap p \<and>
        (\<forall>i j. i < ?w \<and> j < ?h \<longrightarrow>
           scalar_grid gl' (readFBO (swap p)) i j = scalar_grid ?gl (readFBO p) i j * ?k)"
  proof
    assume z: "?n = 0"
    then have "p' = swap p" using p' by simp
    then show "p' = swap p \<and>
        (\<forall>i j. i < ?w \<and> j < ?h \<longrightarrow>
           scalar_grid gl' (readFBO (swap p)) i j = scalar_grid ?gl (readFBO p) i j * ?k)"
      using main z by (simp add: decay_grid_def)
  qed
  show ?thesis
    using res main zero p' by (intro exI [of _ "s\<lparr>glctx := gl', pressure := Some p'\<rparr>"]) simp
qed

theorem pressure_solve_witness:
  "sim_wf example_sim \<and> pressure example_sim = Some example_pressure \<and>
   divergence example_sim = Some (example_target 12 2 R16F RED) \<and>
   (\<exists>s'. solvePressure example_sim = Inr s' \<and>
      pressure s' = Some ((swap ^^ 41) example_pressure)) \<and>
   sim_wf (updateConfig example_sim (DEFAULT_CONFIG\<lparr>pressureIterations := 0\<rparr>)) \<and>
   pressureIterations (config (updateConfig example_sim
      (DEFAULT_CONFIG\<lparr>pressureIterations := 0\<rparr>))) = 0 \<and>
   (\<exists>s'. solvePressure (updateConfig example_sim (DEFAULT_CONFIG\<lparr>pressureIterations := 0\<rparr>))
            = Inr s' \<and>
      pressure s' = Some (swap example_pressure) \<and>
      scalar_grid (glctx s') (readFBO (swap example_pressure)) 0 0 =
        scalar_grid (glctx example_sim) (readFBO example_pressure) 0 0 * (915 / 1000))"
proof -
  let ?z = "updateConfig example_sim (DEFAULT_CONFIG\<lparr>pressureIterations := 0\<rparr>)"
  have p: "pressure example_sim = Some example_pressure"
    "divergence example_sim = Some (example_target 12 2 R16F RED)"
    "pressureIterations (config example_sim) = 40"
    by (simp_all add: example_sim_def DEFAULT_CONFIG_def)
  have z: "pressure ?z = Some example_pressure"
    "divergence ?z = Some (example_target 12 2 R16F RED)"
    "pressureIterations (config ?z) = 0" "simSize ?z = (2, 2)" "glctx ?z = glctx example_sim"
    "pressureDecay (config ?z) = 915 / 1000"
    by (simp_all add: example_sim_def DEFAULT_CONFIG_def updateConfig_def)
  have wz: "sim_wf ?z"
    using sim_wf_example
    by (simp add: sim_wf_def updateConfig_def ready_def field_targets_def)
  from pressure_solve [OF sim_wf_example p(1,2)]
  have a: "\<exists>s'. solvePressure example_sim = Inr s' \<and>
      pressure s' = Some ((swap ^^ 41) example_pressure)"
    unfolding p(3) by auto
  from pressure_solve [OF wz z(1,2)]
  have b: "\<exists>s'. solvePressure ?z = Inr s' \<and> pressure s' = Some (swap example_pressure) \<and>
      scalar_grid (glctx s') (readFBO (swap example_pressure)) 0 0 =
        scalar_grid (glctx example_sim) (readFBO example_pressure) 0 0 * (915 / 1000)"
    unfolding z by auto
  show ?thesis using sim_wf_example p(1,2) a wz z(3) b by blast
qed


section \<open>Velocity self-advection\<close>

text \<open>
  C2. On a well-formed simulation \<^verbatim>\<open>_advectVelocity\<close> returns and swaps the velocity
  field. The velocity written at texel \<open>(i, j)\<close>, with \<open>uv\<close> the centre of the texel, is
  the prior velocity field sampled at the coordinate
  \<open>uv - dt * velocity(uv) * texelSize\<close> clamped componentwise to \<open>[0, 1]\<close>, times
  \<^verbatim>\<open>velocityDissipation\<close>; \<open>velocity(uv)\<close> is the prior velocity stored at the texel.
\<close>

theorem velocity_advection:
  assumes "sim_wf s" and "velocity s = Some vel"
  shows "\<exists>s'. advectVelocity s dt = Inr s' \<and> velocity s' = Some (swap vel) \<and>
     (\<forall>i j. i < fst (simSize s) \<and> j < snd (simSize s) \<longrightarrow>
        xy (texture2D (glctx s) (texture (readFBO vel))
              (pixel_uv (fst (simSize s)) (snd (simSize s)) i j))
          = xy (grid (glctx s) (readFBO vel) i j) \<and>
        xy (grid (glctx s') (readFBO (swap vel)) i j) =
          scale2
            (xy (texture2D (glctx s) (texture (readFBO vel))
                   (backtrace (pixel_uv (fst (simSize s)) (snd (simSize s)) i j)
                      (xy (texture2D (glctx s) (texture (readFBO vel))
                             (pixel_uv (fst (simSize s)) (snd (simSize s)) i j)))
                      dt (1 / real (fst (simSize s)), 1 / real (snd (simSize s))))))
            (velocityDissipation (config s)))"
  using assms by (rule advectVelocity_texel)

theorem velocity_advection_witness:
  "sim_wf vortex_sim \<and> velocity vortex_sim = Some example_velocity \<and>
   (\<exists>s'. advectVelocity vortex_sim (16 / 1000) = Inr s' \<and>
      velocity s' = Some (swap example_velocity) \<and>
      xy (grid (glctx s') (readFBO (swap example_velocity)) 1 1) =
          scale2
            (xy (texture2D (glctx vortex_sim) (texture (readFBO example_velocity))
                   (backtrace (pixel_uv 2 2 1 1) (0, 2) (16 / 1000) (1 / 2, 1 / 2))))
            (995 / 1000))"
proof -
  have v: "velocity vortex_sim = Some example_velocity"
    "simSize vortex_sim = (2, 2)" "velocityDissipation (config vortex_sim) = 995 / 1000"
    by (simp_all add: vortex_sim_def example_sim_def DEFAULT_CONFIG_def)
  from velocity_advection [OF sim_wf_vortex v(1), of "16 / 1000"]
  obtain s' where r: "advectVelocity vortex_sim (16 / 1000) = Inr s'"
    "velocity s' = Some (swap example_velocity)"
    and g: "\<forall>i j. i < 2 \<and> j < 2 \<longrightarrow>
        xy (texture2D (glctx vortex_sim) (texture (readFBO example_velocity)) (pixel_uv 2 2 i j))
          = xy (grid (glctx vortex_sim) (readFBO example_velocity) i j) \<and>
        xy (grid (glctx s') (readFBO (swap example_velocity)) i j) =
          scale2
            (xy (texture2D (glctx vortex_sim) (texture (readFBO example_velocity))
                   (backtrace (pixel_uv 2 2 i j)
                      (xy (texture2D (glctx vortex_sim) (texture (readFBO example_velocity))
                             (pixel_uv 2 2 i j)))
                      (16 / 1000) (1 / real 2, 1 / real 2))))
            (995 / 1000)"
    unfolding v by auto
  have "xy (grid (glctx s') (readFBO (swap example_velocity)) 1 1) =
          scale2
            (xy (texture2D (glctx vortex_sim) (texture (readFBO example_velocity))
                   (backtrace (pixel_uv 2 2 1 1) (0, 2) (16 / 1000) (1 / 2, 1 / 2))))
            (995 / 1000)"
    using g [rule_format, of 1 1] by (simp add: vortex_values)
  then show ?thesis using sim_wf_vortex v(1) r by blast
qed


section \<open>Vorticity confinement\<close>

text \<open>
  C6, as the specification states it, fails: the force is scaled by the local curl value
  with its sign, not by its magnitude. On \<open>vortex_sim\<close> the curl is \<open>-1\<close> at texel
  \<open>(0, 0)\<close> and \<open>2\<close> at texel \<open>(0, 1)\<close>, the gradient of \<open>|curl|\<close> is \<open>(0, 1)\<close> at both,
  the prior velocity is zero at both, and \<^verbatim>\<open>curlStrength\<close> is 11. With the time step
  \<open>0.016\<close> the pass writes \<open>(0, 17600/100001)\<close> at \<open>(0, 0)\<close> and \<open>(0, -35200/100001)\<close> at
  \<open>(0, 1)\<close>: the second force is \<open>-2\<close> times the first. The formula of the
  specification gives at \<open>(0, 1)\<close> twice what it gives at \<open>(0, 0)\<close>, whatever map takes
  the place of the quarter turn, so it gives the two written values for no such map.
\<close>

theorem vorticity_signed_curl:
  "map_sum id (\<lambda>s'. (xy (grid (glctx s') (readFBO (swap example_velocity)) 0 0),
                      xy (grid (glctx s') (readFBO (swap example_velocity)) 0 1)))
     (applyVorticity vortex_sim (16 / 1000))
     = Inr ((0, 17600 / 100001), (0, - (35200 / 100001))) \<and>
   curlStrength (config vortex_sim) = 11 \<and>
   curl_grid 2 2 (grid (glctx vortex_sim) (readFBO example_velocity)) 0 0 = - 1 \<and>
   curl_grid 2 2 (grid (glctx vortex_sim) (readFBO example_velocity)) 0 1 = 2 \<and>
   abs_curl_gradient 2 2
     (curl_grid 2 2 (grid (glctx vortex_sim) (readFBO example_velocity))) 0 0 = (0, 1) \<and>
   abs_curl_gradient 2 2
     (curl_grid 2 2 (grid (glctx vortex_sim) (readFBO example_velocity))) 0 1 = (0, 1) \<and>
   \<not> (\<exists>turn.
        claimed_velocity turn 2 2 (grid (glctx vortex_sim) (readFBO example_velocity))
          11 (16 / 1000) 0 0 = (0, 17600 / 100001) \<and>
        claimed_velocity turn 2 2 (grid (glctx vortex_sim) (readFBO example_velocity))
          11 (16 / 1000) 0 1 = (0, - (35200 / 100001)))"
proof -
  have v: "velocity vortex_sim = Some example_velocity"
    "simSize vortex_sim = (2, 2)" "curlStrength (config vortex_sim) = 11"
    by (simp_all add: vortex_sim_def example_sim_def DEFAULT_CONFIG_def)
  from applyVorticity_texel [OF sim_wf_vortex v(1), of "16 / 1000"]
  obtain s' where r: "applyVorticity vortex_sim (16 / 1000) = Inr s'"
    and g: "\<forall>i j. i < 2 \<and> j < 2 \<longrightarrow>
        xy (grid (glctx s') (readFBO (swap example_velocity)) i j) =
          add2 (xy (grid (glctx vortex_sim) (readFBO example_velocity) i j))
            (scale2
               (confinement_force 2 2
                  (curl_grid 2 2 (grid (glctx vortex_sim) (readFBO example_velocity)))
                  11 i j)
               (16 / 1000))"
    unfolding v by auto
  have a: "xy (grid (glctx s') (readFBO (swap example_velocity)) 0 0) = (0, 17600 / 100001)"
    using g [rule_format, of 0 0] by (simp add: vortex_values)
  have b: "xy (grid (glctx s') (readFBO (swap example_velocity)) 0 1)
      = (0, - (35200 / 100001))"
    using g [rule_format, of 0 1] by (simp add: vortex_curl vortex_force_row1)
  have c: "\<not> (\<exists>turn.
        claimed_velocity turn 2 2 (grid (glctx vortex_sim) (readFBO example_velocity))
          11 (16 / 1000) 0 0 = (0, 17600 / 100001) \<and>
        claimed_velocity turn 2 2 (grid (glctx vortex_sim) (readFBO example_velocity))
          11 (16 / 1000) 0 1 = (0, - (35200 / 100001)))"
  proof
    assume "\<exists>turn.
        claimed_velocity turn 2 2 (grid (glctx vortex_sim) (readFBO example_velocity))
          11 (16 / 1000) 0 0 = (0, 17600 / 100001) \<and>
        claimed_velocity turn 2 2 (grid (glctx vortex_sim) (readFBO example_velocity))
          11 (16 / 1000) 0 1 = (0, - (35200 / 100001))"
    then obtain turn :: "vec2 \<Rightarrow> vec2" where
      "scale2 (turn (0, 100000 / 100001)) (11 * (16 / 1000)) = (0, 17600 / 100001)"
      "scale2 (turn (0, 100000 / 100001)) (22 * (16 / 1000)) = (0, - (35200 / 100001))"
      unfolding One_nat_def vortex_claimed by blast
    then show False by (cases "turn (0, 100000 / 100001)") simp
  qed
  show ?thesis using r a b c v(3) by (simp add: vortex_curl)
qed

text \<open>
  C6, amended. On a well-formed simulation \<^verbatim>\<open>_applyVorticity\<close> returns and swaps the
  velocity field. The velocity written at a texel is the prior velocity there plus
  \<open>dt\<close> times a force: the gradient of \<open>|curl|\<close> across the four neighbours (clamped to
  the edge), divided by its length plus \<open>1e-5\<close>, taken through one map of the plane that
  keeps lengths and angles and is the same for every texel and every simulation, times
  the local curl value with its sign and times \<^verbatim>\<open>curlStrength\<close>; the curl is the one
  computed from the prior velocity. Which map it is, is not part of the statement.
\<close>

theorem vorticity_confinement:
  "\<exists>turn. isometry turn \<and>
     (\<forall>s vel dt. sim_wf s \<and> velocity s = Some vel \<longrightarrow>
        (\<exists>s'. applyVorticity s dt = Inr s' \<and> velocity s' = Some (swap vel) \<and>
           (\<forall>i j. i < fst (simSize s) \<and> j < snd (simSize s) \<longrightarrow>
              xy (grid (glctx s') (readFBO (swap vel)) i j) =
                add2 (xy (grid (glctx s) (readFBO vel) i j))
                  (scale2
                     (signed_force turn (fst (simSize s)) (snd (simSize s))
                        (curl_grid (fst (simSize s)) (snd (simSize s))
                           (grid (glctx s) (readFBO vel)))
                        (curlStrength (config s)) i j)
                     dt))))"
proof (rule exI [of _ mirror_y], intro conjI allI impI)
  show "isometry mirror_y" by (rule isometry_mirror_y)
next
  fix s :: sim and vel :: doubleFBO and dt :: real
  assume "sim_wf s \<and> velocity s = Some vel"
  then have "sim_wf s" "velocity s = Some vel" by simp_all
  from applyVorticity_texel [OF this, of dt]
  show "\<exists>s'. applyVorticity s dt = Inr s' \<and> velocity s' = Some (swap vel) \<and>
           (\<forall>i j. i < fst (simSize s) \<and> j < snd (simSize s) \<longrightarrow>
              xy (grid (glctx s') (readFBO (swap vel)) i j) =
                add2 (xy (grid (glctx s) (readFBO vel) i j))
                  (scale2
                     (signed_force mirror_y (fst (simSize s)) (snd (simSize s))
                        (curl_grid (fst (simSize s)) (snd (simSize s))
                           (grid (glctx s) (readFBO vel)))
                        (curlStrength (config s)) i j)
                     dt))"
    by (simp add: confinement_force_mirror)
qed

theorem vorticity_confinement_witness:
  "sim_wf vortex_sim \<and> velocity vortex_sim = Some example_velocity \<and>
   (\<exists>s'. applyVorticity vortex_sim (16 / 1000) = Inr s' \<and>
      velocity s' = Some (swap example_velocity) \<and>
      length2 (xy (grid (glctx s') (readFBO (swap example_velocity)) 0 0))
        = 17600 / 100001 \<and>
      xy (grid (glctx s') (readFBO (swap example_velocity)) 0 1) =
        scale2 (xy (grid (glctx s') (readFBO (swap example_velocity)) 0 0)) (- 2))"
proof -
  have v: "velocity vortex_sim = Some example_velocity"
    "simSize vortex_sim = (2, 2)" "curlStrength (config vortex_sim) = 11"
    by (simp_all add: vortex_sim_def example_sim_def DEFAULT_CONFIG_def)
  from vorticity_confinement obtain turn :: "vec2 \<Rightarrow> vec2" where
    iso: "isometry turn" and
    t: "\<forall>s vel dt. sim_wf s \<and> velocity s = Some vel \<longrightarrow>
        (\<exists>s'. applyVorticity s dt = Inr s' \<and> velocity s' = Some (swap vel) \<and>
           (\<forall>i j. i < fst (simSize s) \<and> j < snd (simSize s) \<longrightarrow>
              xy (grid (glctx s') (readFBO (swap vel)) i j) =
                add2 (xy (grid (glctx s) (readFBO vel) i j))
                  (scale2
                     (signed_force turn (fst (simSize s)) (snd (simSize s))
                        (curl_grid (fst (simSize s)) (snd (simSize s))
                           (grid (glctx s) (readFBO vel)))
                        (curlStrength (config s)) i j)
                     dt)))"
    by blast
  from t [rule_format, of vortex_sim example_velocity "16 / 1000"] sim_wf_vortex v(1)
  obtain s' where r: "applyVorticity vortex_sim (16 / 1000) = Inr s'"
    "velocity s' = Some (swap example_velocity)"
    and g: "\<forall>i j. i < 2 \<and> j < 2 \<longrightarrow>
        xy (grid (glctx s') (readFBO (swap example_velocity)) i j) =
          add2 (xy (grid (glctx vortex_sim) (readFBO example_velocity) i j))
            (scale2
               (signed_force turn 2 2
                  (curl_grid 2 2 (grid (glctx vortex_sim) (readFBO example_velocity)))
                  11 i j)
               (16 / 1000))"
    unfolding v by auto
  let ?n = "turn (0, 100000 / 100001)"
  have a: "xy (grid (glctx s') (readFBO (swap example_velocity)) 0 0)
      = scale2 ?n (- (176 / 1000))"
    using g [rule_format, of 0 0]
    by (simp add: vortex_values vortex_signed scale2_scale2 add2_zero)
  have b: "xy (grid (glctx s') (readFBO (swap example_velocity)) 0 1)
      = scale2 ?n (352 / 1000)"
    using g [rule_format, of 0 1]
    by (simp add: vortex_curl vortex_signed scale2_scale2 add2_zero)
  have l: "length2 ?n = 100000 / 100001"
    by (simp add: isometry_length2 [OF iso] length2_vertical)
  have "length2 (xy (grid (glctx s') (readFBO (swap example_velocity)) 0 0))
      = length2 (scale2 ?n (- (176 / 1000)))"
    by (simp only: a)
  also have "\<dots> = \<bar>- (176 / 1000)\<bar> * length2 ?n" by (rule length2_scale2)
  also have "\<dots> = 17600 / 100001" by (simp add: l)
  finally have "length2 (xy (grid (glctx s') (readFBO (swap example_velocity)) 0 0))
      = 17600 / 100001" .
  moreover have "xy (grid (glctx s') (readFBO (swap example_velocity)) 0 1) =
        scale2 (xy (grid (glctx s') (readFBO (swap example_velocity)) 0 0)) (- 2)"
    unfolding a b scale2_scale2 by simp
  ultimately show ?thesis using sim_wf_vortex v(1) r by blast
qed

end
